theory Spec2Isabelle
  imports Complex_Main
begin

section \<open>Errors\<close>

text \<open>
  The exceptions of the Python source that the model distinguishes. Every place where
  \<^verbatim>\<open>main-flod.py\<close> can raise one of them is a branch of the model.
\<close>

datatype py_error =
    ZeroDivisionError
  | NameError string
  | FileNotFoundError string
  | UnboundLocalError string
  | TypeError
  | ValueError

section \<open>The contrastive-weight schedule\<close>

text \<open>
  \<^verbatim>\<open>get_dynamic_weight(epoch, end_epochs)\<close>, lines 90-102. Python floats are modelled
  as reals; \<^verbatim>\<open>//\<close> is floor division, which is \<open>div\<close> on \<open>int\<close>. The division
  \<^verbatim>\<open>(max_weight - start_weight) / num_intervals\<close> raises when \<^verbatim>\<open>num_intervals\<close> is
  zero, and it is evaluated before the test on \<^verbatim>\<open>epoch\<close>.
\<close>

definition get_dynamic_weight :: "int \<Rightarrow> int \<Rightarrow> py_error + real" where
  "get_dynamic_weight epoch end_epochs =
     (let interval = (10 :: int);
          start_weight = (1 / 10 :: real);
          max_weight = (1 :: real);
          num_intervals = end_epochs div interval
      in if num_intervals = 0 then Inl ZeroDivisionError
         else
           let weight_increment = (max_weight - start_weight) / of_int num_intervals
           in Inr (if epoch < interval then start_weight
                   else start_weight + of_int (epoch div interval) * weight_increment))"

text \<open>
  The choice of the weight inside the training step, lines 178-184. The stage name is
  compared as a string and the override is compared with \<^verbatim>\<open>0.0\<close>.
\<close>

definition PatchCL_weight :: "string \<Rightarrow> real \<Rightarrow> int \<Rightarrow> int \<Rightarrow> py_error + real" where
  "PatchCL_weight step_name ContrastiveWeights c_epochs end_epochs =
     (if step_name = ''supervised-Pretraining'' then
        (if ContrastiveWeights = 0 then get_dynamic_weight c_epochs end_epochs
         else Inr ContrastiveWeights)
      else Inr (1 / 2))"

text \<open>Line 186: \<^verbatim>\<open>loss = supervised_loss + PatchCL_weight * PCGJCL_loss\<close>.\<close>

definition total_loss :: "real \<Rightarrow> real \<Rightarrow> real \<Rightarrow> real" where
  "total_loss supervised_loss weight PCGJCL_loss = supervised_loss + weight * PCGJCL_loss"

section \<open>Float32 arithmetic\<close>

text \<open>
  The parameters of the two networks are float32 tensors: \<^verbatim>\<open>main-flod.py\<close> sets no
  other type and runs no reduced-precision mode. A finite float32 is a real
  \<open>m * 2 ^ (e - 23)\<close> with an integer \<open>m\<close> of magnitude below \<open>2 ^ 24\<close> and
  \<open>-126 \<le> e \<le> 127\<close>. An operation on float32 tensors returns the float32 that is
  nearest to the exact result, the one with the even significand when two are equally
  near (IEEE 754 binary32, round to nearest even). \<open>binary32_round\<close> is that rounding:
  \<open>exponent32\<close> finds the exponent \<open>e\<close> of the exact result, so that \<open>2 ^ (e - 23)\<close> is
  the spacing of the float32 numbers around it, with the spacing \<open>2 ^ (-149)\<close> of the
  subnormal numbers below \<open>2 ^ (-126)\<close>. A result of magnitude \<open>2 ^ 128\<close> or more, which
  float32 renders as infinity, is outside this model.
\<close>

definition round_half_even :: "real \<Rightarrow> int" where
  "round_half_even r =
     (let f = \<lfloor>r\<rfloor>
      in if r - of_int f < 1 / 2 then f
         else if 1 / 2 < r - of_int f then f + 1
         else if even f then f else f + 1)"

function exp_up :: "real \<Rightarrow> int \<Rightarrow> int" where
  "exp_up y e = (if 2 \<le> y \<and> e < 127 then exp_up (y / 2) (e + 1) else e)"
  by pat_completeness auto
termination
  by (relation "measure (\<lambda>(y, e). nat (127 - e))") auto

function exp_down :: "real \<Rightarrow> int \<Rightarrow> int" where
  "exp_down y e = (if y < 1 \<and> - 126 < e then exp_down (2 * y) (e - 1) else e)"
  by pat_completeness auto
termination
  by (relation "measure (\<lambda>(y, e). nat (e + 126))") auto

declare exp_up.simps [simp del] exp_down.simps [simp del]

definition exponent32 :: "real \<Rightarrow> int" where
  "exponent32 y = (if 1 \<le> y then exp_up y 0 else exp_down y 0)"

definition binary32_round :: "real \<Rightarrow> real" where
  "binary32_round x =
     (if x = 0 then 0
      else let u = 2 powi (exponent32 \<bar>x\<bar> - 23)
           in u * of_int (round_half_even (x / u)))"

text \<open>
  The product of a Python number with a float32 tensor: the number is converted to
  float32, and the product of the two float32 values is rounded. The sum of two float32
  tensors is the rounded sum.
\<close>

definition binary32_mul :: "real \<Rightarrow> real \<Rightarrow> real" where
  "binary32_mul r x = binary32_round (binary32_round r * x)"

definition binary32_add :: "real \<Rightarrow> real \<Rightarrow> real" where
  "binary32_add x y = binary32_round (x + y)"

section \<open>The teacher update\<close>

text \<open>
  Line 200, for one pair of parameters: \<^verbatim>\<open>0.001 * param_stud + 0.999 * param_teach\<close>,
  two products and a sum on float32 tensors. A parameter tensor is updated entry by
  entry, so one real stands for one entry.
\<close>

definition ema :: "real \<Rightarrow> real \<Rightarrow> real" where
  "ema param_stud param_teach =
     binary32_add (binary32_mul (1 / 1000) param_stud) (binary32_mul (999 / 1000) param_teach)"

text \<open>
  Lines 199-200 over the two parameter lists. \<^verbatim>\<open>zip\<close> stops at the shorter list; the
  teacher parameters beyond it are not assigned and keep their value.
\<close>

fun ema_update :: "real list \<Rightarrow> real list \<Rightarrow> real list" where
  "ema_update (s # ss) (t # ts) = ema s t # ema_update ss ts"
| "ema_update [] ts = ts"
| "ema_update ss [] = []"

section \<open>Rendering integers\<close>

text \<open>
  The f-strings of the source render integers in decimal; \<open>str_int\<close> is that rendering.
\<close>

function str_nat :: "nat \<Rightarrow> string" where
  "str_nat n =
     (if n < 10 then [''0123456789'' ! n]
      else str_nat (n div 10) @ [''0123456789'' ! (n mod 10)])"
  by pat_completeness auto
termination
  by (relation "measure id") auto

declare str_nat.simps [simp del]

definition str_int :: "int \<Rightarrow> string" where
  "str_int i = (if i < 0 then CHR ''-'' # str_nat (nat (- i)) else str_nat (nat i))"

section \<open>Models, files and the log\<close>

text \<open>
  A model object. \<open>params\<close> are the values \<^verbatim>\<open>model.parameters()\<close> iterates over,
  \<open>requires_grad\<close> is the flag line 286 writes into every parameter of a model, and
  \<open>contrast\<close> is \<^verbatim>\<open>model.module.contrast\<close>.
\<close>

record network =
  params :: "real list"
  requires_grad :: bool
  contrast :: bool

text \<open>
  Model objects live in a store, since the optimizer keeps the parameters of the object
  it was built over while the variables \<^verbatim>\<open>model\<close> and \<^verbatim>\<open>teacher_model\<close> are
  rebound to freshly loaded objects by \<^verbatim>\<open>load_pretrained_model\<close>.
\<close>

type_synonym ref = nat

datatype event =
    Print string
  | SelectReliable
  | PseudoLabel

text \<open>One row of the loss file, as the keyword arguments of \<^verbatim>\<open>save_loss\<close> (lines 215-230).\<close>

record loss_row =
  filename :: string
  t_total_loss :: real
  t_supervised_loss :: real
  t_contrastive_loss :: real
  v_total_loss :: real
  row_PatchCL_weight :: real

record world =
  heap :: "ref \<Rightarrow> network"
  next_ref :: ref
  files :: "string \<Rightarrow> network option"
  csv :: "loss_row list"
  events :: "event list"

datatype 'a result = Return 'a world | Raise py_error world

fun and_then :: "'a result \<Rightarrow> ('a \<Rightarrow> world \<Rightarrow> 'b result) \<Rightarrow> 'b result" where
  "and_then (Return x w) f = f x w"
| "and_then (Raise e w) f = Raise e w"

fun world_of :: "'a result \<Rightarrow> world" where
  "world_of (Return x w) = w"
| "world_of (Raise e w) = w"

fun raised :: "'a result \<Rightarrow> py_error option" where
  "raised (Return x w) = None"
| "raised (Raise e w) = Some e"

fun value_of :: "'a result \<Rightarrow> 'a option" where
  "value_of (Return x w) = Some x"
| "value_of (Raise e w) = None"

definition print :: "string \<Rightarrow> world \<Rightarrow> world" where
  "print s w = w\<lparr>events := events w @ [Print s]\<rparr>"

definition set_contrast :: "ref \<Rightarrow> bool \<Rightarrow> world \<Rightarrow> world" where
  "set_contrast r b w = w\<lparr>heap := (heap w)(r := (heap w r)\<lparr>contrast := b\<rparr>)\<rparr>"

definition set_params :: "ref \<Rightarrow> real list \<Rightarrow> world \<Rightarrow> world" where
  "set_params r ps w = w\<lparr>heap := (heap w)(r := (heap w r)\<lparr>params := ps\<rparr>)\<rparr>"

text \<open>\<^verbatim>\<open>torch.save(model, path)\<close> and \<^verbatim>\<open>torch.load(path)\<close>: the file holds the whole object.\<close>

definition torch_save :: "ref \<Rightarrow> string \<Rightarrow> world \<Rightarrow> world" where
  "torch_save r path w = w\<lparr>files := (files w)(path \<mapsto> heap w r)\<rparr>"

definition torch_load :: "string \<Rightarrow> world \<Rightarrow> ref result" where
  "torch_load path w =
     (case files w path of
        None \<Rightarrow> Raise (FileNotFoundError path) w
      | Some n \<Rightarrow>
          Return (next_ref w)
            (w\<lparr>heap := (heap w)(next_ref w := n), next_ref := Suc (next_ref w)\<rparr>))"

section \<open>Data loaders\<close>

text \<open>
  A dataset is the list of its sample identities and a batch is a list of samples.
  Every \<^verbatim>\<open>DataLoader\<close> of the source is built with \<^verbatim>\<open>drop_last=True\<close>: it yields
  the full batches only. A batch size that is not positive is refused by the constructor.
  The order in which a shuffling loader or a random sampler yields the samples is the
  order of the list it is given.
\<close>

function full_batches :: "nat \<Rightarrow> 'a list \<Rightarrow> 'a list list" where
  "full_batches b ds =
     (if b = 0 \<or> length ds < b then [] else take b ds # full_batches b (drop b ds))"
  by pat_completeness auto
termination
  by (relation "measure (\<lambda>(b, ds). length ds)") auto

declare full_batches.simps [simp del]

definition DataLoader :: "'a list \<Rightarrow> int \<Rightarrow> py_error + 'a list list" where
  "DataLoader dataset batch_size =
     (if batch_size \<le> 0 then Inl ValueError else Inr (full_batches (nat batch_size) dataset))"

text \<open>
  A loader object keeps the dataset it was built over (\<^verbatim>\<open>loader.dataset\<close>) beside the
  batches it yields. The training and validation loops only iterate, so they are given
  the batches; the reliable-sample selector is handed the loader object.
\<close>

record 'a data_loader =
  loader_dataset :: "'a list"
  loader_batches :: "'a list list"

fun lift :: "py_error + 'a \<Rightarrow> world \<Rightarrow> 'a result" where
  "lift (Inl e) w = Raise e w"
| "lift (Inr x) w = Return x w"

section \<open>The training loop\<close>

text \<open>
  What the training loop takes from code that is not in \<^verbatim>\<open>main-flod.py\<close>: the
  effect of \<^verbatim>\<open>optimizer.step()\<close> on the parameters the optimizer holds, the value of
  the supervised criterion of a model on a batch, and the value of the contrastive loss
  of a step. They are parameters of the model, and nothing is assumed about them.
\<close>

record externals =
  optimizer_step :: "nat list \<Rightarrow> real list \<Rightarrow> real list"
  criterion :: "network \<Rightarrow> nat list \<Rightarrow> real"
  simple_PCGJCL :: "nat list \<Rightarrow> real"

text \<open>
  The parameters of \<^verbatim>\<open>train\<close> (lines 104-125) that the body itself reads; the others
  are only handed on to the patch, embedding and loss functions.
\<close>

record train_args =
  model :: ref
  teacher_model :: ref
  train_loader :: "nat list list"
  val_loader :: "nat list list"
  optimizer :: ref
  start_epochs :: int
  end_epochs :: int
  step_name :: string
  ContrastiveWeights :: real
  fold_no :: int
  save_interval :: int
  save_loss_model_path :: string
  save_loss_path :: string

text \<open>
  Modelled from the spec: \<^verbatim>\<open>get_embeddings\<close> (\<^verbatim>\<open>utils/get_embds.py\<close>) is not among
  the sources. The spec's contract for the embedding extractor is that it does not change
  the mode flag of the model it is given; the embeddings themselves are not modelled.
\<close>

definition get_embeddings :: "ref \<Rightarrow> world \<Rightarrow> world" where
  "get_embeddings r w = w"

text \<open>Lines 154-167: the two embedding extractions, up to the supervised forward pass.\<close>

definition embedding_phase :: "ref \<Rightarrow> ref \<Rightarrow> world \<Rightarrow> world" where
  "embedding_phase m t w =
     (let w1 = set_contrast m True w;
          w2 = get_embeddings m w1;
          w3 = set_contrast t True w2;
          w4 = get_embeddings t w3
      in set_contrast m False w4)"

text \<open>Line 197: the optimizer changes the parameters of the object it was built over.\<close>

definition apply_optimizer :: "externals \<Rightarrow> ref \<Rightarrow> nat list \<Rightarrow> world \<Rightarrow> world" where
  "apply_optimizer X opt batch w = set_params opt (optimizer_step X batch (params (heap w opt))) w"

text \<open>Lines 199-200 on the store.\<close>

definition teacher_ema :: "ref \<Rightarrow> ref \<Rightarrow> world \<Rightarrow> world" where
  "teacher_ema m t w = set_params t (ema_update (params (heap w m)) (params (heap w t))) w"

text \<open>
  One pass of the inner loop, lines 140-202. The result is the tuple of the step's total,
  supervised and contrastive loss and the weight used.
\<close>

definition train_step ::
  "externals \<Rightarrow> train_args \<Rightarrow> int \<Rightarrow> nat list \<Rightarrow> world \<Rightarrow> (real \<times> real \<times> real \<times> real) result" where
  "train_step X a c_epochs batch w =
     (let w1 = embedding_phase (model a) (teacher_model a) w;
          PCGJCL_loss = simple_PCGJCL X batch;
          supervised_loss = criterion X (heap w1 (model a)) batch
      in case PatchCL_weight (step_name a) (ContrastiveWeights a) c_epochs (end_epochs a) of
           Inl e \<Rightarrow> Raise e w1
         | Inr weight \<Rightarrow>
             let loss = total_loss supervised_loss weight PCGJCL_loss;
                 w2 = apply_optimizer X (optimizer a) batch w1;
                 w3 = teacher_ema (model a) (teacher_model a) w2
             in Return (loss, supervised_loss, PCGJCL_loss, weight) w3)"

text \<open>
  The inner loop with its accumulators \<^verbatim>\<open>epoch_t_loss\<close>, \<^verbatim>\<open>total_t_supervised_loss\<close>,
  \<^verbatim>\<open>total_t_contrastive_loss\<close> and the variable \<^verbatim>\<open>PatchCL_weight\<close>, which is unbound
  until the first step has run.
\<close>

fun train_batches ::
  "externals \<Rightarrow> train_args \<Rightarrow> int \<Rightarrow> nat list list \<Rightarrow> real \<times> real \<times> real \<times> real option \<Rightarrow>
     world \<Rightarrow> (real \<times> real \<times> real \<times> real option) result" where
  "train_batches X a c_epochs [] acc w = Return acc w"
| "train_batches X a c_epochs (batch # rest) (acc_l, acc_s, acc_c, acc_w) w =
     (case train_step X a c_epochs batch w of
        Raise e w' \<Rightarrow> Raise e w'
      | Return (l, s, c, weight) w' \<Rightarrow>
          train_batches X a c_epochs rest (acc_l + l, acc_s + s, acc_c + c, Some weight) w')"

text \<open>
  \<^verbatim>\<open>validate\<close>, lines 59-88. The loss is accumulated per sample and divided by the number
  of samples seen; Python raises when that number is zero.
\<close>

definition validate :: "externals \<Rightarrow> ref \<Rightarrow> nat list list \<Rightarrow> world \<Rightarrow> real result" where
  "validate X m loader w =
     (let w1 = set_contrast m False w;
          val_loss = (\<Sum>imgs \<leftarrow> loader. criterion X (heap w1 m) imgs * real (length imgs));
          total_samples = (\<Sum>imgs \<leftarrow> loader. length imgs)
      in if total_samples = 0 then Raise ZeroDivisionError w1
         else Return (val_loss / real total_samples) w1)"

text \<open>
  Modelled from the spec: \<^verbatim>\<open>save_loss\<close> (\<^verbatim>\<open>utils/loss_file.py\<close>) is not among the
  sources. The spec's loss log holds one row per epoch: a call adds one row.
\<close>

definition save_loss :: "loss_row \<Rightarrow> world \<Rightarrow> world" where
  "save_loss row w = w\<lparr>csv := csv w @ [row]\<rparr>"

definition checkpoint_path :: "string \<Rightarrow> int \<Rightarrow> string \<Rightarrow> int \<Rightarrow> string" where
  "checkpoint_path out_dir f stage c_epochs =
     out_dir @ ''/fold/'' @ str_int f @ ''/model_'' @ stage @ ''_'' @ str_int c_epochs @ ''-s.pth''"

text \<open>
  The body of the epoch loop, lines 129-235, for the loop variable \<open>i\<close>. The remainder
  \<^verbatim>\<open>c_epochs % save_interval\<close> raises when \<^verbatim>\<open>save_interval\<close> is zero.
\<close>

definition train_epoch :: "externals \<Rightarrow> train_args \<Rightarrow> int \<Rightarrow> world \<Rightarrow> unit result" where
  "train_epoch X a i w =
     (let c_epochs = i + 1
      in case train_batches X a c_epochs (train_loader a) (0, 0, 0, None) w of
           Raise e w1 \<Rightarrow> Raise e w1
         | Return (epoch_t_loss, total_t_supervised_loss, total_t_contrastive_loss, weight) w1 \<Rightarrow>
             if length (train_loader a) = 0 then Raise ZeroDivisionError w1
             else
               let n = real (length (train_loader a)) in
               (case validate X (model a) (val_loader a) w1 of
                  Raise e w2 \<Rightarrow> Raise e w2
                | Return val_loss w2 \<Rightarrow>
                    (case weight of
                       None \<Rightarrow> Raise (UnboundLocalError ''PatchCL_weight'') w2
                     | Some pw \<Rightarrow>
                         let w3 = save_loss
                                \<lparr>filename = save_loss_path a @ ''_'' @ step_name a @ ''-fold''
                                     @ str_int (fold_no a) @ ''.csv'',
                                 t_total_loss = epoch_t_loss / n,
                                 t_supervised_loss = total_t_supervised_loss / n,
                                 t_contrastive_loss = total_t_contrastive_loss / n,
                                 v_total_loss = val_loss,
                                 row_PatchCL_weight = pw\<rparr> w2
                         in if save_interval a = 0 then Raise ZeroDivisionError w3
                            else if c_epochs mod save_interval a = 0 then
                              Return ()
                                (torch_save (model a)
                                   (checkpoint_path (save_loss_model_path a) (fold_no a)
                                      (step_name a) c_epochs) w3)
                            else Return () w3)))"

fun train_epochs :: "externals \<Rightarrow> train_args \<Rightarrow> int list \<Rightarrow> world \<Rightarrow> unit result" where
  "train_epochs X a [] w = Return () w"
| "train_epochs X a (i # rest) w =
     (case train_epoch X a i w of
        Raise e w' \<Rightarrow> Raise e w'
      | Return u w' \<Rightarrow> train_epochs X a rest w')"

text \<open>\<^verbatim>\<open>train\<close>: the loop over \<^verbatim>\<open>range(start_epochs, end_epochs)\<close> and the return, line 237.\<close>

definition train :: "externals \<Rightarrow> train_args \<Rightarrow> world \<Rightarrow> (ref \<times> ref) result" where
  "train X a w =
     (case train_epochs X a [start_epochs a .. end_epochs a - 1] w of
        Raise e w' \<Rightarrow> Raise e w'
      | Return u w' \<Rightarrow> Return (model a, teacher_model a) w')"

text \<open>
  \<^verbatim>\<open>load_pretrained_model\<close>, lines 239-251. Its two model arguments are overwritten
  before they are read, so the model does not take them. The teacher is loaded from the
  checkpoint written ten epochs before the one the student is loaded from.
\<close>

definition load_pretrained_model :: "string \<Rightarrow> int \<Rightarrow> world \<Rightarrow> (ref \<times> ref) result" where
  "load_pretrained_model save_model_path epoch w =
     (let model_path = save_model_path @ str_int epoch @ ''-s.pth'';
          teacher_model_path = save_model_path @ str_int (epoch - 10) @ ''-s.pth'';
          w1 = print [] (print (''teacher_model_path:  '' @ teacher_model_path)
                 (print (''model_path:  '' @ model_path) w))
      in and_then (torch_load model_path w1) (\<lambda>m w2.
         and_then (torch_load teacher_model_path w2) (\<lambda>t w3.
         Return (m, t) w3)))"

section \<open>The stage orchestrator\<close>

text \<open>
  The command-line flags \<^verbatim>\<open>main\<close> reads itself. \<open>arg_ContrastiveWeights_str\<close>
  is the text Python renders the weight as inside the two output paths.
\<close>

record cli_args =
  arg_patch_size :: int
  arg_batch_size :: int
  arg_ContrastiveWeights :: real
  arg_ContrastiveWeights_str :: string
  arg_save_interval :: int

text \<open>
  What a run of \<^verbatim>\<open>main\<close> reads from outside: the two freshly built networks, the
  unlabeled dataset, the folds \<^verbatim>\<open>KFold.split\<close> yields, and the scoring of the
  reliable-sample selector with the number of samples it calls reliable.
\<close>

record run_inputs =
  student_init :: network
  teacher_init :: network
  unlabeled_dataset :: "nat list"
  kfold_split :: "(nat list \<times> nat list) list"
  confidence :: "network \<Rightarrow> network \<Rightarrow> nat \<Rightarrow> real"
  reliable_count :: nat

text \<open>
  Modelled from the spec: \<^verbatim>\<open>select_reliable\<close> (\<^verbatim>\<open>utils/select_reliable.py\<close>) is not
  among the sources. The spec's selector is given a loader over the unlabeled data, runs
  the two models on each unlabeled image, ranks the images by their score and splits the
  ranking into a reliable part of high score and a remaining part; its two outputs have
  the input unlabeled set as their union. The images it ranks are therefore those of the
  unlabeled set the loader was built over.
\<close>

definition select_reliable ::
  "('a \<Rightarrow> 'b :: linorder) \<Rightarrow> nat \<Rightarrow> 'a data_loader \<Rightarrow> 'a list \<times> 'a list" where
  "select_reliable score k loader =
     (let ranked = rev (sort_key score (loader_dataset loader))
      in (take k ranked, drop k ranked))"

text \<open>
  Modelled from the spec: \<^verbatim>\<open>Label\<close> (\<^verbatim>\<open>utils/select_reliable.py\<close>) is not among the
  sources. The spec's pseudo-label generator pairs each image the loader yields with a
  generated mask; the dataset it returns has those images as its samples.
\<close>

definition Label :: "'a list list \<Rightarrow> 'a list" where
  "Label loader = concat loader"

definition log_event :: "event \<Rightarrow> world \<Rightarrow> world" where
  "log_event ev w = w\<lparr>events := events w @ [ev]\<rparr>"

definition banner :: "string \<Rightarrow> string" where
  "banner s = [CHR 0x0A, CHR 0x0A, CHR 0x0A] @ ''================> '' @ s"

text \<open>
  Name lookup inside \<^verbatim>\<open>main\<close>. A name that is assigned somewhere in the body of
  \<^verbatim>\<open>main\<close> is a local of it; any other name is looked up among the names bound at the
  top level of the module (imports, definitions and the two module variables) and then
  among the builtins, none of which is called \<^verbatim>\<open>train_dataset\<close>.
\<close>

definition main_locals :: "string list" where
  "main_locals =
     [''k_folds'', ''kfold'', ''args'', ''dataset_path'', ''output_dir'', ''patch_size'',
      ''embedding_size'', ''img_size'', ''batch_size'', ''num_classes'', ''ContrastiveWeights'',
      ''save_interval'', ''save_loss_path'', ''save_loss_model_path'', ''cross_entropy_loss'',
      ''model'', ''teacher_model'', ''param'', ''metrics'', ''optimizer_pretrain'',
      ''optimizer_ssl'', ''scheduler'', ''labeled_dataset'', ''unlabeled_dataset'',
      ''unlabeled_loader'', ''supervised_start_epoch'', ''supervised_end_epoch'', ''fold'',
      ''train_ids'', ''valid_ids'', ''train_subsampler'', ''valid_subsampler'', ''train_loader'',
      ''valid_loader'', ''save_model_path'', ''reliable_dataset'', ''remaining_dataset'',
      ''combined_dataset'', ''combined_loader'', ''SSL_step1_start_epoch'',
      ''SSL_step1_end_epoch'', ''remaining_loader'', ''remaining_label_dataset'',
      ''remaining_label_loader'', ''SSL_step2_start_epoch'', ''SSL_step2_end_epoch'']"

definition module_globals :: "string list" where
  "module_globals =
     [''os'', ''sys'', ''torch'', ''nn'', ''smp'', ''math'', ''time'', ''DataLoader'',
      ''random_split'', ''TensorDataset'', ''ConcatDataset'', ''SubsetRandomSampler'', ''np'',
      ''Image'', ''plt'', ''tqdm'', ''argparse'', ''transforms'', ''KFold'', ''Transform'',
      ''StochasticApprox'', ''Network'', ''PascalVOCDataset'', ''Embedding_Queues'', ''CE_loss'',
      ''_get_patches'', ''batch_augment'', ''get_embeddings'', ''simple_PCGJCL'',
      ''PolynomialLRDecay'', ''save_loss'', ''DiceCoefficient'', ''Accuracy'', ''MeanIOU'',
      ''select_reliable'', ''Label'', ''voc_mask_color_map'', ''dev'', ''parse_args'',
      ''reset_bn_stats'', ''validate'', ''get_dynamic_weight'', ''train'',
      ''load_pretrained_model'', ''to_one_hot'', ''main'']"

datatype binding = LocalName | GlobalName | NoBinding

definition resolve_in_main :: "string \<Rightarrow> binding" where
  "resolve_in_main x =
     (if x \<in> set main_locals then LocalName
      else if x \<in> set module_globals then GlobalName
      else NoBinding)"

text \<open>
  Reading \<^verbatim>\<open>train_dataset\<close> at line 351. A local that no statement before line 351
  assigns is unbound there; a module-level name would give an object that is no dataset;
  a name with no binding raises \<^verbatim>\<open>NameError\<close>.
\<close>

definition read_train_dataset :: "py_error + nat list" where
  "read_train_dataset =
     (case resolve_in_main ''train_dataset'' of
        LocalName \<Rightarrow> Inl (UnboundLocalError ''train_dataset'')
      | GlobalName \<Rightarrow> Inl TypeError
      | NoBinding \<Rightarrow> Inl (NameError ''train_dataset''))"

text \<open>Lines 282-305: the two networks, the two optimizers and the unlabeled loader.\<close>

record pipeline =
  student :: ref
  teacher :: ref
  optimizer_pretrain :: ref
  optimizer_ssl :: ref
  unlabeled_loader :: "nat data_loader"

definition new_network :: "network \<Rightarrow> world \<Rightarrow> ref \<times> world" where
  "new_network n w =
     (next_ref w, w\<lparr>heap := (heap w)(next_ref w := n), next_ref := Suc (next_ref w)\<rparr>)"

definition set_requires_grad :: "ref \<Rightarrow> bool \<Rightarrow> world \<Rightarrow> world" where
  "set_requires_grad r b w = w\<lparr>heap := (heap w)(r := (heap w r)\<lparr>requires_grad := b\<rparr>)\<rparr>"

definition main_setup :: "run_inputs \<Rightarrow> cli_args \<Rightarrow> world \<Rightarrow> pipeline result" where
  "main_setup I args w =
     (let (m, w1) = new_network (student_init I) w;
          (t, w2) = new_network (teacher_init I) w1;
          w3 = set_requires_grad t False w2;
          w4 = set_params t (params (heap w3 m)) w3
      in and_then (lift (DataLoader (unlabeled_dataset I) (arg_batch_size args)) w4)
           (\<lambda>batches w5.
         Return \<lparr>student = m, teacher = t, optimizer_pretrain = m, optimizer_ssl = m,
                 unlabeled_loader = \<lparr>loader_dataset = unlabeled_dataset I,
                                      loader_batches = batches\<rparr>\<rparr> w5))"

definition output_model_path :: "cli_args \<Rightarrow> string" where
  "output_model_path args =
     ''output/'' @ str_int (arg_patch_size args) @ ''-'' @ arg_ContrastiveWeights_str args"

definition output_loss_path :: "cli_args \<Rightarrow> string" where
  "output_loss_path args =
     ''output/loss_'' @ str_int (arg_patch_size args) @ ''-'' @ arg_ContrastiveWeights_str args"

text \<open>The \<^verbatim>\<open>train\<close> calls of \<^verbatim>\<open>main\<close> differ in the loader and the stage name only.\<close>

definition stage_train_args ::
  "cli_args \<Rightarrow> pipeline \<Rightarrow> int \<Rightarrow> ref \<Rightarrow> ref \<Rightarrow> nat list list \<Rightarrow> nat list list \<Rightarrow> string \<Rightarrow> train_args" where
  "stage_train_args args S k m t loader valid_loader stage =
     \<lparr>model = m, teacher_model = t, train_loader = loader, val_loader = valid_loader,
      optimizer = optimizer_pretrain S, start_epochs = 0, end_epochs = 100, step_name = stage,
      ContrastiveWeights = arg_ContrastiveWeights args, fold_no = k,
      save_interval = arg_save_interval args, save_loss_model_path = output_model_path args,
      save_loss_path = output_loss_path args\<rparr>"

text \<open>Stage 1, lines 312-341.\<close>

definition stage_1 ::
  "externals \<Rightarrow> cli_args \<Rightarrow> pipeline \<Rightarrow> int \<Rightarrow> nat list \<Rightarrow> nat list \<Rightarrow> ref \<Rightarrow> ref \<Rightarrow> world \<Rightarrow>
     (nat list list \<times> ref \<times> ref) result" where
  "stage_1 X args S k train_ids valid_ids m t w =
     (let w1 = print ''--------------------------------'' (print (''FOLD '' @ str_int k) w)
      in and_then (lift (DataLoader train_ids (arg_batch_size args)) w1) (\<lambda>loader w2.
         and_then (lift (DataLoader valid_ids (arg_batch_size args)) w2) (\<lambda>valid_loader w3.
         and_then (train X (stage_train_args args S k m t loader valid_loader
                     ''supervised-Pretraining'') w3) (\<lambda>(m', t') w4.
         Return (valid_loader, m', t') w4))))"

text \<open>Stage 2, lines 343-348.\<close>

definition stage_2 ::
  "run_inputs \<Rightarrow> cli_args \<Rightarrow> pipeline \<Rightarrow> world \<Rightarrow> (ref \<times> ref \<times> nat list \<times> nat list) result" where
  "stage_2 I args S w =
     (let w1 = print (banner
                 ''Total stage 2/6: Select reliable images for the 1st stage re-training'') w;
          save_model_path = output_model_path args @ ''/model_supervised-Pretraining_''
      in and_then (load_pretrained_model save_model_path 100 w1) (\<lambda>(m, t) w2.
         let (reliable_dataset, remaining_dataset) =
               select_reliable (confidence I (heap w2 m) (heap w2 t)) (reliable_count I)
                 (unlabeled_loader S);
             w3 = log_event SelectReliable w2;
             w4 = print (''reliable_dataset: '' @ str_int (int (length reliable_dataset))) w3;
             w5 = print (''remaining_dataset: '' @ str_int (int (length remaining_dataset))) w4
         in Return (m, t, reliable_dataset, remaining_dataset) w5))"

text \<open>Stage 3, lines 350-353.\<close>

definition stage_3 :: "cli_args \<Rightarrow> nat list \<Rightarrow> world \<Rightarrow> nat list list result" where
  "stage_3 args reliable_dataset w =
     (let w1 = print (banner ''Total stage 3/6: Concat train_dataset reliable_dataset'') w
      in and_then (lift read_train_dataset w1) (\<lambda>train_dataset w2.
         let combined_dataset = train_dataset @ reliable_dataset
         in and_then (lift (DataLoader combined_dataset (arg_batch_size args)) w2)
              (\<lambda>combined_loader w3.
         Return combined_loader
           (print (''combined_dataset:  '' @ str_int (int (length combined_dataset))) w3))))"

text \<open>Stage 4, lines 355-380.\<close>

definition stage_4 ::
  "externals \<Rightarrow> cli_args \<Rightarrow> pipeline \<Rightarrow> int \<Rightarrow> ref \<Rightarrow> ref \<Rightarrow> nat list list \<Rightarrow> nat list list \<Rightarrow>
     world \<Rightarrow> (ref \<times> ref) result" where
  "stage_4 X args S k m t combined_loader valid_loader w =
     train X (stage_train_args args S k m t combined_loader valid_loader ''SSL-reliable-st1'')
       (print (banner
          ''Total stage 4/6: Semi-supervised training with reliable images (SSL)'') w)"

text \<open>
  Stage 5, lines 382-397. The result says whether \<^verbatim>\<open>main\<close> goes on to stage 6 or has
  returned at line 397.
\<close>

datatype 'a flow = Go 'a | Returned

definition stage_5 ::
  "cli_args \<Rightarrow> nat list \<Rightarrow> world \<Rightarrow> (ref \<times> ref \<times> nat list list) flow result" where
  "stage_5 args remaining_dataset w =
     (let w1 = print (banner ''Total stage 5/6: Generate pseudo labels for remaining images'') w;
          w2 = (if int (length remaining_dataset) < arg_batch_size args
                then print ''remaining_dataset < batch size'' w1 else w1);
          save_model_path = output_model_path args @ ''/model_SSL-reliable-st1_''
      in and_then (load_pretrained_model save_model_path 100 w2) (\<lambda>(m, t) w3.
         and_then (lift (DataLoader remaining_dataset (arg_batch_size args)) w3)
           (\<lambda>remaining_loader w4.
         let remaining_label_dataset = Label remaining_loader;
             w5 = log_event PseudoLabel w4
         in and_then (lift (DataLoader remaining_label_dataset (arg_batch_size args)) w5)
              (\<lambda>remaining_label_loader w6.
         let w7 = print (''remaining_label_loader:  ''
                    @ str_int (int (length remaining_label_loader))) w6
         in if length remaining_label_loader < 2
            then Return Returned (print ''remaining_label_loader < 2'' w7)
            else Return (Go (m, t, remaining_label_loader)) w7))))"

text \<open>Stage 6, lines 399-424.\<close>

definition stage_6 ::
  "externals \<Rightarrow> cli_args \<Rightarrow> pipeline \<Rightarrow> int \<Rightarrow> ref \<Rightarrow> ref \<Rightarrow> nat list list \<Rightarrow> nat list list \<Rightarrow>
     world \<Rightarrow> (ref \<times> ref) result" where
  "stage_6 X args S k m t remaining_label_loader valid_loader w =
     train X (stage_train_args args S k m t remaining_label_loader valid_loader
                ''SSL-reliable-st2'')
       (print (banner
          ''Total stage 6/6: Semi-supervised training with reliable images (SSL)'') w)"

text \<open>
  The body of the loop over the folds, lines 312-424: stages 1 to 4, and then stages 5
  and 6 on what they leave.
\<close>

definition fold_head ::
  "externals \<Rightarrow> run_inputs \<Rightarrow> cli_args \<Rightarrow> pipeline \<Rightarrow> int \<Rightarrow> nat list \<Rightarrow> nat list \<Rightarrow> ref \<Rightarrow> ref \<Rightarrow>
     world \<Rightarrow> (nat list list \<times> nat list) result" where
  "fold_head X I args S k train_ids valid_ids m0 t0 w =
     and_then (stage_1 X args S k train_ids valid_ids m0 t0 w) (\<lambda>(valid_loader, m1, t1) w1.
     and_then (stage_2 I args S w1) (\<lambda>(m2, t2, reliable_dataset, remaining_dataset) w2.
     and_then (stage_3 args reliable_dataset w2) (\<lambda>combined_loader w3.
     and_then (stage_4 X args S k m2 t2 combined_loader valid_loader w3) (\<lambda>(m4, t4) w4.
     Return (valid_loader, remaining_dataset) w4))))"

definition fold_tail ::
  "externals \<Rightarrow> cli_args \<Rightarrow> pipeline \<Rightarrow> int \<Rightarrow> nat list list \<Rightarrow> nat list \<Rightarrow> world \<Rightarrow>
     (ref \<times> ref) flow result" where
  "fold_tail X args S k valid_loader remaining_dataset w =
     and_then (stage_5 args remaining_dataset w) (\<lambda>fl w5.
       case fl of
         Returned \<Rightarrow> Return Returned w5
       | Go (m5, t5, remaining_label_loader) \<Rightarrow>
           and_then (stage_6 X args S k m5 t5 remaining_label_loader valid_loader w5)
             (\<lambda>(m6, t6) w6. Return (Go (m6, t6)) w6))"

definition main_fold ::
  "externals \<Rightarrow> run_inputs \<Rightarrow> cli_args \<Rightarrow> pipeline \<Rightarrow> int \<Rightarrow> nat list \<Rightarrow> nat list \<Rightarrow> ref \<Rightarrow> ref \<Rightarrow>
     world \<Rightarrow> (ref \<times> ref) flow result" where
  "main_fold X I args S k train_ids valid_ids m0 t0 w =
     and_then (fold_head X I args S k train_ids valid_ids m0 t0 w)
       (\<lambda>(valid_loader, remaining_dataset) w4.
          fold_tail X args S k valid_loader remaining_dataset w4)"

text \<open>
  The loop over \<^verbatim>\<open>enumerate(kfold.split(labeled_dataset))\<close>: a body that has returned
  from \<^verbatim>\<open>main\<close> ends the loop, and the line after the loop is not reached.
\<close>

fun for_folds ::
  "(int \<Rightarrow> nat list \<Rightarrow> nat list \<Rightarrow> ref \<Rightarrow> ref \<Rightarrow> world \<Rightarrow> (ref \<times> ref) flow result) \<Rightarrow>
     int \<Rightarrow> (nat list \<times> nat list) list \<Rightarrow> ref \<Rightarrow> ref \<Rightarrow> world \<Rightarrow> unit result" where
  "for_folds body k [] m t w = Return () (print (banner ''Finish'') w)"
| "for_folds body k ((train_ids, valid_ids) # rest) m t w =
     (case body k train_ids valid_ids m t w of
        Raise e w' \<Rightarrow> Raise e w'
      | Return Returned w' \<Rightarrow> Return () w'
      | Return (Go (m', t')) w' \<Rightarrow> for_folds body (k + 1) rest m' t' w')"

text \<open>\<^verbatim>\<open>main\<close>, lines 262-426.\<close>

definition main :: "externals \<Rightarrow> run_inputs \<Rightarrow> cli_args \<Rightarrow> world \<Rightarrow> unit result" where
  "main X I args w =
     and_then (main_setup I args w) (\<lambda>S w1.
       for_folds (main_fold X I args S) 0 (kfold_split I) (student S) (teacher S)
         (print (banner
            ''Total stage 1/6: Supervised training on labeled images (SupOnly)'') w1))"

section \<open>The moving average over a run\<close>

text \<open>
  The spec's account of the two parameter lists over a sequence of training steps, to be
  compared with what \<open>train\<close> leaves in the store: in each step the optimizer changes the
  student's parameters (if it is the student that the optimizer was built over), and then
  the teacher's parameters are assigned the moving average of the student's new
  parameters and their own old value. Nothing else changes the teacher. The pair is the
  student's and the teacher's parameters.
\<close>

fun ema_steps ::
  "externals \<Rightarrow> bool \<Rightarrow> nat list list \<Rightarrow> real list \<times> real list \<Rightarrow> real list \<times> real list" where
  "ema_steps X stepped [] (s, t) = (s, t)"
| "ema_steps X stepped (batch # rest) (s, t) =
     (let s' = (if stepped then optimizer_step X batch s else s)
      in ema_steps X stepped rest (s', ema_update s' t))"

text \<open>The parameters of the two models of a call of \<open>train\<close>, as they are in the store.\<close>

definition parameters_of :: "train_args \<Rightarrow> world \<Rightarrow> real list \<times> real list" where
  "parameters_of a w = (params (heap w (model a)), params (heap w (teacher_model a)))"

text \<open>The batches of a whole call of \<open>train\<close>: those of the loader, once for every epoch.\<close>

definition batches_of_run :: "train_args \<Rightarrow> nat list list" where
  "batches_of_run a =
     concat (map (\<lambda>i. train_loader a) [start_epochs a .. end_epochs a - 1])"

section \<open>Concrete inputs\<close>

text \<open>
  A small world on which the theorems below are instantiated: a student at reference 0, a
  teacher at reference 1, and a file system that holds the four checkpoints that stages 2
  and 5 of a run with the default flags read.
\<close>

definition example_net :: "real list \<Rightarrow> network" where
  "example_net ps = \<lparr>params = ps, requires_grad = True, contrast = False\<rparr>"

definition example_externals :: externals where
  "example_externals =
     \<lparr>optimizer_step = (\<lambda>batch ps. map (\<lambda>p. p - 1) ps),
      criterion = (\<lambda>n batch. 1),
      simple_PCGJCL = (\<lambda>batch. 2)\<rparr>"

definition example_files :: "string \<Rightarrow> network option" where
  "example_files =
     [''output/14-0/model_supervised-Pretraining_100-s.pth'' \<mapsto> example_net [5],
      ''output/14-0/model_supervised-Pretraining_90-s.pth'' \<mapsto> example_net [7],
      ''output/14-0/model_SSL-reliable-st1_100-s.pth'' \<mapsto> example_net [6],
      ''output/14-0/model_SSL-reliable-st1_90-s.pth'' \<mapsto> example_net [8]]"

definition example_world :: world where
  "example_world =
     \<lparr>heap = (\<lambda>r. example_net [])(0 := example_net [2], 1 := example_net [3]),
      next_ref = 2, files = example_files, csv = [], events = []\<rparr>"

definition empty_disk_world :: world where
  "empty_disk_world = example_world\<lparr>files := Map.empty\<rparr>"

definition example_cli :: cli_args where
  "example_cli =
     \<lparr>arg_patch_size = 14, arg_batch_size = 16, arg_ContrastiveWeights = 0,
      arg_ContrastiveWeights_str = ''0'', arg_save_interval = 2\<rparr>"

text \<open>The flags of a run with batch size 4, the other flags as above.\<close>

definition small_batch_cli :: cli_args where
  "small_batch_cli = example_cli\<lparr>arg_batch_size := 4\<rparr>"

definition example_inputs :: run_inputs where
  "example_inputs =
     \<lparr>student_init = example_net [2], teacher_init = example_net [1],
      unlabeled_dataset = [0, 1, 2, 3, 4],
      kfold_split = [([4, 5, 6, 7, 8, 9, 10, 11, 12, 13, 14, 15, 16, 17, 18, 19], [0, 1, 2, 3])],
      confidence = (\<lambda>m t x. real x), reliable_count = 2\<rparr>"

text \<open>
  The run of the spec's end-to-end example: a fold of 20 labeled samples with batch size
  4 (four training batches, one validation batch), two epochs, a checkpoint every second
  epoch, in the stage \<open>supervised-Pretraining\<close> with the override given.
\<close>

definition two_epoch_run :: "real \<Rightarrow> train_args" where
  "two_epoch_run override =
     \<lparr>model = 0, teacher_model = 1,
      train_loader = [[4, 5, 6, 7], [8, 9, 10, 11], [12, 13, 14, 15], [16, 17, 18, 19]],
      val_loader = [[0, 1, 2, 3]], optimizer = 0, start_epochs = 0, end_epochs = 2,
      step_name = ''supervised-Pretraining'', ContrastiveWeights = override, fold_no = 0,
      save_interval = 2, save_loss_model_path = ''output/14-0'',
      save_loss_path = ''output/loss_14-0''\<rparr>"

text \<open>
  The start of a run on these inputs: the setup of lines 282-305 on the example world, and
  stage 2 on what the setup leaves (no training step in between).
\<close>

definition example_setup :: "pipeline result" where
  "example_setup = main_setup example_inputs example_cli example_world"

definition example_stage_2 :: "(ref \<times> ref \<times> nat list \<times> nat list) result" where
  "example_stage_2 =
     stage_2 example_inputs example_cli (the (value_of example_setup)) (world_of example_setup)"

text \<open>
  The inputs of a run on 20 labeled samples: the five folds that \<^verbatim>\<open>KFold(n_splits=5)\<close>
  yields, each of 16 training and 4 validation samples, the other inputs as above.
\<close>

definition five_fold_inputs :: run_inputs where
  "five_fold_inputs =
     example_inputs
       \<lparr>kfold_split :=
         [([4, 5, 6, 7, 8, 9, 10, 11, 12, 13, 14, 15, 16, 17, 18, 19],
          [0, 1, 2, 3]),
          ([0, 1, 2, 3, 8, 9, 10, 11, 12, 13, 14, 15, 16, 17, 18, 19],
          [4, 5, 6, 7]),
          ([0, 1, 2, 3, 4, 5, 6, 7, 12, 13, 14, 15, 16, 17, 18, 19],
          [8, 9, 10, 11]),
          ([0, 1, 2, 3, 4, 5, 6, 7, 8, 9, 10, 11, 16, 17, 18, 19],
          [12, 13, 14, 15]),
          ([0, 1, 2, 3, 4, 5, 6, 7, 8, 9, 10, 11, 12, 13, 14, 15],
          [16, 17, 18, 19])]\<rparr>"

section \<open>The schedule: theorems\<close>

lemma get_dynamic_weight_100:
  "get_dynamic_weight epoch 100 =
     Inr (if epoch < 10 then 1 / 10 else 1 / 10 + of_int (epoch div 10) * ((1 - 1 / 10) / 10))"
  by (simp add: get_dynamic_weight_def)

text \<open>
  Claim C1. With \<open>end_epochs = 100\<close> the schedule returns \<open>0.1\<close> for every epoch below 10
  and \<open>0.1 + (epoch // 10) * increment\<close> for every epoch from 10 on, where
  \<open>increment = (1.0 - 0.1) / 10\<close>; in particular at the epochs 5, 15 and 95.
\<close>

theorem dynamic_weight_schedule_100:
  "(epoch < 10 \<longrightarrow> get_dynamic_weight epoch 100 = Inr (1 / 10)) \<and>
   (10 \<le> epoch \<longrightarrow>
      get_dynamic_weight epoch 100 = Inr (1 / 10 + of_int (epoch div 10) * ((1 - 1 / 10) / 10))) \<and>
   get_dynamic_weight 5 100 = Inr (1 / 10) \<and>
   get_dynamic_weight 15 100 = Inr (1 / 10 + 1 * ((1 - 1 / 10) / 10)) \<and>
   get_dynamic_weight 95 100 = Inr (1 / 10 + 9 * ((1 - 1 / 10) / 10))"
  by (simp add: get_dynamic_weight_100)

theorem dynamic_weight_schedule_100_witness:
  "(3 :: int) < 10 \<and> get_dynamic_weight 3 100 = Inr (1 / 10) \<and>
   (10 :: int) \<le> 42 \<and> get_dynamic_weight 42 100 = Inr (23 / 50)"
  using dynamic_weight_schedule_100 [of 3] dynamic_weight_schedule_100 [of 42]
  by simp

lemma dynamic_weight_final_epoch: "get_dynamic_weight 100 100 = Inr 1"
  by (simp add: get_dynamic_weight_def)

section \<open>Effects of the basic operations\<close>

lemma set_contrast_simps [simp]:
  "heap (set_contrast r b w) = (heap w)(r := (heap w r)\<lparr>contrast := b\<rparr>)"
  "next_ref (set_contrast r b w) = next_ref w"
  "files (set_contrast r b w) = files w"
  "csv (set_contrast r b w) = csv w"
  "events (set_contrast r b w) = events w"
  by (simp_all add: set_contrast_def)

lemma set_params_simps [simp]:
  "heap (set_params r ps w) = (heap w)(r := (heap w r)\<lparr>params := ps\<rparr>)"
  "next_ref (set_params r ps w) = next_ref w"
  "files (set_params r ps w) = files w"
  "csv (set_params r ps w) = csv w"
  "events (set_params r ps w) = events w"
  by (simp_all add: set_params_def)

lemma print_simps [simp]:
  "heap (print s w) = heap w"
  "next_ref (print s w) = next_ref w"
  "files (print s w) = files w"
  "csv (print s w) = csv w"
  "events (print s w) = events w @ [Print s]"
  by (simp_all add: print_def)

lemma log_event_simps [simp]:
  "heap (log_event ev w) = heap w"
  "next_ref (log_event ev w) = next_ref w"
  "files (log_event ev w) = files w"
  "csv (log_event ev w) = csv w"
  "events (log_event ev w) = events w @ [ev]"
  by (simp_all add: log_event_def)

lemma save_loss_simps [simp]:
  "heap (save_loss row w) = heap w"
  "next_ref (save_loss row w) = next_ref w"
  "files (save_loss row w) = files w"
  "csv (save_loss row w) = csv w @ [row]"
  "events (save_loss row w) = events w"
  by (simp_all add: save_loss_def)

lemma torch_save_simps [simp]:
  "heap (torch_save r p w) = heap w"
  "next_ref (torch_save r p w) = next_ref w"
  "files (torch_save r p w) = (files w)(p \<mapsto> heap w r)"
  "csv (torch_save r p w) = csv w"
  "events (torch_save r p w) = events w"
  by (simp_all add: torch_save_def)

lemma embedding_phase_simps [simp]:
  "next_ref (embedding_phase m t w) = next_ref w"
  "files (embedding_phase m t w) = files w"
  "csv (embedding_phase m t w) = csv w"
  "events (embedding_phase m t w) = events w"
  by (simp_all add: embedding_phase_def get_embeddings_def Let_def)

lemma contrast_embedding_phase:
  "contrast (heap (embedding_phase m t w) m) = False"
  "m \<noteq> t \<Longrightarrow> contrast (heap (embedding_phase m t w) t) = True"
  "params (heap (embedding_phase m t w) r) = params (heap w r)"
  by (simp_all add: embedding_phase_def get_embeddings_def Let_def)

lemma train_step_cases:
  "train_step X a c b w =
     (case PatchCL_weight (step_name a) (ContrastiveWeights a) c (end_epochs a) of
        Inl e \<Rightarrow> Raise e (embedding_phase (model a) (teacher_model a) w)
      | Inr weight \<Rightarrow>
          Return (total_loss (criterion X (heap (embedding_phase (model a) (teacher_model a) w) (model a)) b)
                    weight (simple_PCGJCL X b),
                  criterion X (heap (embedding_phase (model a) (teacher_model a) w) (model a)) b,
                  simple_PCGJCL X b, weight)
            (teacher_ema (model a) (teacher_model a)
               (apply_optimizer X (optimizer a) b
                  (embedding_phase (model a) (teacher_model a) w))))"
  by (simp add: train_step_def Let_def split: sum.splits)

lemma contrast_train_step:
  "contrast (heap (world_of (train_step X a c b w)) (model a)) = False"
  "model a \<noteq> teacher_model a \<Longrightarrow>
     contrast (heap (world_of (train_step X a c b w)) (teacher_model a)) = True"
  by (simp_all add: train_step_cases teacher_ema_def apply_optimizer_def
      contrast_embedding_phase split: sum.splits)

lemma validate_empty: "validate X m [] w = Raise ZeroDivisionError (set_contrast m False w)"
  by (simp add: validate_def)

lemma full_batches_short: "length ds < b \<Longrightarrow> full_batches b ds = []"
  by (simp add: full_batches.simps)

lemma train_epoch_empty: "train_loader a = [] \<Longrightarrow> train_epoch X a i w = Raise ZeroDivisionError w"
  by (simp add: train_epoch_def)

text \<open>
  Claim C10. \<open>validate\<close> divides by the number of samples it has seen with no guard:
  on a loader that yields no batch it raises \<open>ZeroDivisionError\<close>. A validation subset
  smaller than one batch gives such a loader, since the loader drops the incomplete batch.
  The averages of an epoch divide by the number of training batches in the same way.
\<close>

theorem validate_divides_by_zero:
  "validate X m [] w = Raise ZeroDivisionError (set_contrast m False w) \<and>
   (0 < B \<and> int (length valid_ids) < B \<longrightarrow>
      DataLoader valid_ids B = Inr [] \<and>
      raised (validate X m (projr (DataLoader valid_ids B)) w) = Some ZeroDivisionError) \<and>
   (train_loader a = [] \<longrightarrow> train_epoch X a i w = Raise ZeroDivisionError w)"
proof -
  have "full_batches (nat B) valid_ids = []" if "0 < B" "int (length valid_ids) < B"
  proof -
    from that have "length valid_ids < nat B" by linarith
    then show ?thesis by (rule full_batches_short)
  qed
  then show ?thesis
    by (auto simp: validate_empty train_epoch_empty DataLoader_def)
qed

theorem validate_divides_by_zero_witness:
  "(0 :: int) < 16 \<and> int (length [0, 1, 2 :: nat]) < 16 \<and>
   DataLoader [0, 1, 2 :: nat] 16 = Inr [] \<and>
   raised (validate example_externals 0 (projr (DataLoader [0, 1, 2] 16)) example_world)
     = Some ZeroDivisionError \<and>
   train_loader ((two_epoch_run 0)\<lparr>train_loader := []\<rparr>) = [] \<and>
   train_epoch example_externals ((two_epoch_run 0)\<lparr>train_loader := []\<rparr>) 0 example_world
     = Raise ZeroDivisionError example_world"
  using validate_divides_by_zero [of example_externals 0 example_world 16 "[0, 1, 2]"
      "(two_epoch_run 0)\<lparr>train_loader := []\<rparr>" 0]
  by simp

text \<open>
  Claim C9, as amended. In every training step the student's \<open>contrast\<close> flag is back
  to \<open>False\<close> at the supervised forward pass and when the step ends, whether the step
  returns or raises. The teacher's flag is set to \<open>True\<close> and is still \<open>True\<close> when
  the step ends.
\<close>

theorem contrast_flag_after_step:
  "contrast (heap (embedding_phase (model a) (teacher_model a) w) (model a)) = False \<and>
   contrast (heap (world_of (train_step X a c b w)) (model a)) = False \<and>
   (model a \<noteq> teacher_model a \<longrightarrow>
      contrast (heap (world_of (train_step X a c b w)) (teacher_model a)) = True)"
  by (simp add: contrast_embedding_phase contrast_train_step)

theorem contrast_flag_after_step_witness:
  "model (two_epoch_run (1 / 2)) \<noteq> teacher_model (two_epoch_run (1 / 2)) \<and>
   contrast (heap (world_of (train_step example_externals (two_epoch_run (1 / 2)) 1 [4, 5, 6, 7]
      example_world)) 0) = False \<and>
   contrast (heap (world_of (train_step example_externals (two_epoch_run (1 / 2)) 1 [4, 5, 6, 7]
      example_world)) 1) = True"
  using contrast_flag_after_step [of "two_epoch_run (1 / 2)" example_world example_externals 1
      "[4, 5, 6, 7]"]
  by (simp add: two_epoch_run_def)

text \<open>
  Claim C9 as stated fails for the teacher: a step that starts with the teacher in
  supervised mode and completes leaves the teacher in embedding mode.
\<close>

theorem teacher_contrast_left_enabled_counterexample:
  "contrast (heap example_world 1) = False \<and>
   raised (train_step example_externals (two_epoch_run (1 / 2)) 1 [4, 5, 6, 7] example_world) = None \<and>
   contrast (heap (world_of (train_step example_externals (two_epoch_run (1 / 2)) 1 [4, 5, 6, 7]
      example_world)) 1) \<noteq> False"
  by (simp add: train_step_cases two_epoch_run_def example_world_def example_net_def
      PatchCL_weight_def teacher_ema_def apply_optimizer_def contrast_embedding_phase)

section \<open>The teacher update: lemmas\<close>

lemma binary32_constants:
  "binary32_round (1 / 1000) = 8589935 / 8589934592"
  "binary32_round (999 / 1000) = 16760439 / 16777216"
  by (simp_all add: binary32_round_def exponent32_def exp_down.simps round_half_even_def Let_def)

lemma ema_one_three: "ema 1 3 = 12574523 / 4194304"
  by (simp add: ema_def binary32_add_def binary32_mul_def binary32_constants)
     (simp add: binary32_round_def exponent32_def exp_down.simps exp_up.simps
        round_half_even_def Let_def)

lemma ema_fixed_point: "ema 1 (8388609 / 8388608) = 8388609 / 8388608"
  by (simp add: ema_def binary32_add_def binary32_mul_def binary32_constants)
     (simp add: binary32_round_def exponent32_def exp_down.simps exp_up.simps
        round_half_even_def Let_def)

lemma ema_stall_point: "ema 1 (4194679 / 4194304) = 4194679 / 4194304"
  by (simp add: ema_def binary32_add_def binary32_mul_def binary32_constants)
     (simp add: binary32_round_def exponent32_def exp_down.simps exp_up.simps
        round_half_even_def Let_def)

lemma ema_fixed_point_iterate: "(ema 1 ^^ n) (8388609 / 8388608) = 8388609 / 8388608"
proof (induction n)
  case 0
  show ?case by simp
next
  case (Suc n)
  have "(ema 1 ^^ Suc n) (8388609 / 8388608) = ema 1 ((ema 1 ^^ n) (8388609 / 8388608))"
    by simp
  also have "\<dots> = ema 1 (8388609 / 8388608)" by (simp only: Suc.IH)
  also have "\<dots> = 8388609 / 8388608" by (rule ema_fixed_point)
  finally show ?case .
qed

lemma round_half_even_error: "\<bar>of_int (round_half_even r) - r\<bar> \<le> 1 / 2"
proof -
  have "of_int \<lfloor>r\<rfloor> \<le> r" "r < of_int \<lfloor>r\<rfloor> + 1" by linarith+
  then show ?thesis
    by (auto simp: round_half_even_def Let_def)
qed

lemma exp_up_step: "2 \<le> y \<and> e < 127 \<Longrightarrow> exp_up y e = exp_up (y / 2) (e + 1)"
  by (subst exp_up.simps) simp

lemma exp_up_stop: "\<not> (2 \<le> y \<and> e < 127) \<Longrightarrow> exp_up y e = e"
  by (subst exp_up.simps) auto

lemma exp_down_step: "y < 1 \<and> - 126 < e \<Longrightarrow> exp_down y e = exp_down (2 * y) (e - 1)"
  by (subst exp_down.simps) simp

lemma exp_down_stop: "\<not> (y < 1 \<and> - 126 < e) \<Longrightarrow> exp_down y e = e"
  by (subst exp_down.simps) auto

lemma exp_up_lower: "1 \<le> y \<Longrightarrow> 2 powi (exp_up y e - e) \<le> y"
proof (induction y e rule: exp_up.induct)
  case (1 y e)
  show ?case
  proof (cases "2 \<le> y \<and> e < 127")
    case True
    then have r: "exp_up y e = exp_up (y / 2) (e + 1)" by (rule exp_up_step)
    from True have "1 \<le> y / 2" by simp
    from "1.IH" [OF True this] have "2 powi (exp_up (y / 2) (e + 1) - (e + 1)) \<le> y / 2" .
    moreover have "(2 :: real) powi (exp_up (y / 2) (e + 1) - e)
        = 2 * 2 powi (exp_up (y / 2) (e + 1) - (e + 1))"
      by (simp add: power_int_diff power_int_add)
    ultimately show ?thesis by (simp add: r)
  next
    case False
    then have "exp_up y e = e" by (rule exp_up_stop)
    with "1.prems" show ?thesis by simp
  qed
qed

lemma exp_down_lower: "- 126 < exp_down y e \<Longrightarrow> 2 powi (exp_down y e - e) \<le> y"
proof (induction y e rule: exp_down.induct)
  case (1 y e)
  show ?case
  proof (cases "y < 1 \<and> - 126 < e")
    case True
    then have r: "exp_down y e = exp_down (2 * y) (e - 1)" by (rule exp_down_step)
    with "1.prems" have "- 126 < exp_down (2 * y) (e - 1)" by simp
    from "1.IH" [OF True this] have "2 powi (exp_down (2 * y) (e - 1) - (e - 1)) \<le> 2 * y" .
    moreover have "(2 :: real) powi (exp_down (2 * y) (e - 1) - (e - 1))
        = 2 * 2 powi (exp_down (2 * y) (e - 1) - e)"
      by (simp add: power_int_diff power_int_add)
    ultimately show ?thesis by (simp add: r)
  next
    case False
    then have r: "exp_down y e = e" by (rule exp_down_stop)
    with "1.prems" False have "1 \<le> y" by simp
    then show ?thesis by (simp add: r)
  qed
qed

lemma exp_down_bound: "- 126 \<le> e \<Longrightarrow> - 126 \<le> exp_down y e"
proof (induction y e rule: exp_down.induct)
  case (1 y e)
  show ?case
  proof (cases "y < 1 \<and> - 126 < e")
    case True
    then have r: "exp_down y e = exp_down (2 * y) (e - 1)" by (rule exp_down_step)
    from True have "- 126 \<le> e - 1" by simp
    from "1.IH" [OF True this] show ?thesis by (simp add: r)
  next
    case False
    then have "exp_down y e = e" by (rule exp_down_stop)
    with "1.prems" show ?thesis by simp
  qed
qed

lemma exp_up_bound: "0 \<le> e \<Longrightarrow> 0 \<le> exp_up y e"
proof (induction y e rule: exp_up.induct)
  case (1 y e)
  show ?case
  proof (cases "2 \<le> y \<and> e < 127")
    case True
    then have r: "exp_up y e = exp_up (y / 2) (e + 1)" by (rule exp_up_step)
    from "1.prems" have "0 \<le> e + 1" by simp
    from "1.IH" [OF True this] show ?thesis by (simp add: r)
  next
    case False
    then have "exp_up y e = e" by (rule exp_up_stop)
    with "1.prems" show ?thesis by simp
  qed
qed

lemma exponent32_bound: "- 126 \<le> exponent32 y"
  using exp_down_bound [of 0 y] exp_up_bound [of 0 y] by (simp add: exponent32_def)

lemma exponent32_lower: "- 126 < exponent32 y \<Longrightarrow> 2 powi (exponent32 y) \<le> y"
  using exp_up_lower [of y 0] exp_down_lower [of y 0] by (simp add: exponent32_def split: if_splits)

lemma binary32_round_error:
  "\<bar>binary32_round x - x\<bar> \<le> \<bar>x\<bar> / 2 ^ 24 + 1 / 2 ^ 150"
proof (cases "x = 0")
  case True
  then show ?thesis by (simp add: binary32_round_def)
next
  case False
  define e where "e = exponent32 \<bar>x\<bar>"
  define u :: real where "u = 2 powi (e - 23)"
  have u: "0 < u" by (simp add: u_def)
  have r: "binary32_round x = u * of_int (round_half_even (x / u))"
    using False by (simp add: binary32_round_def Let_def u_def e_def)
  have "\<bar>of_int (round_half_even (x / u)) - x / u\<bar> \<le> 1 / 2" by (rule round_half_even_error)
  then have "u * \<bar>of_int (round_half_even (x / u)) - x / u\<bar> \<le> u * (1 / 2)"
    using u by (intro mult_left_mono) simp_all
  moreover have "u * \<bar>of_int (round_half_even (x / u)) - x / u\<bar>
      = \<bar>u * of_int (round_half_even (x / u)) - x\<bar>"
  proof -
    have "u * \<bar>of_int (round_half_even (x / u)) - x / u\<bar>
        = \<bar>u * (of_int (round_half_even (x / u)) - x / u)\<bar>"
      using u by (simp add: abs_mult)
    also have "u * (of_int (round_half_even (x / u)) - x / u)
        = u * of_int (round_half_even (x / u)) - x"
      using u by (simp add: algebra_simps)
    finally show ?thesis .
  qed
  ultimately have err: "\<bar>binary32_round x - x\<bar> \<le> u / 2" by (simp add: r)
  have "u / 2 \<le> \<bar>x\<bar> / 2 ^ 24 + 1 / 2 ^ 150"
  proof (cases "- 126 < e")
    case True
    then have "2 powi e \<le> \<bar>x\<bar>" unfolding e_def by (rule exponent32_lower)
    moreover have "u / 2 = 2 powi e / 2 ^ 24"
      by (simp add: u_def power_int_diff)
    ultimately have "u / 2 \<le> \<bar>x\<bar> / 2 ^ 24" by (simp add: divide_right_mono)
    then show ?thesis by simp
  next
    case False
    with exponent32_bound [of "\<bar>x\<bar>"] have "e = - 126" by (simp add: e_def)
    then have "u / 2 = 1 / 2 ^ 150"
      by (simp add: u_def power_int_minus)
    then show ?thesis by simp
  qed
  with err show ?thesis by linarith
qed

lemma ema_error:
  "\<bar>ema s t - (1 / 1000 * s + 999 / 1000 * t)\<bar> \<le> (\<bar>s\<bar> + \<bar>t\<bar>) / 2 ^ 22 + 1 / 2 ^ 148"
proof -
  define c1 :: real where "c1 = 8589935 / 8589934592"
  define c2 :: real where "c2 = 16760439 / 16777216"
  define a where "a = binary32_round (c1 * s)"
  define b where "b = binary32_round (c2 * t)"
  define r where "r = binary32_round (a + b)"
  define da where "da = \<bar>a - c1 * s\<bar>"
  define db where "db = \<bar>b - c2 * t\<bar>"
  define dr where "dr = \<bar>r - (a + b)\<bar>"
  define S where "S = \<bar>s\<bar>"
  define T where "T = \<bar>t\<bar>"
  have r: "ema s t = r"
    by (simp only: ema_def binary32_add_def binary32_mul_def binary32_constants r_def a_def
        b_def c1_def c2_def)
  have pos: "0 \<le> S" "0 \<le> T" by (simp_all add: S_def T_def)
  have "\<bar>c1 * s\<bar> = c1 * S" by (simp add: abs_mult c1_def S_def)
  with binary32_round_error [of "c1 * s"] have ea: "da \<le> c1 * S / 2 ^ 24 + 1 / 2 ^ 150"
    by (simp add: da_def a_def)
  have "\<bar>c2 * t\<bar> = c2 * T" by (simp add: abs_mult c2_def T_def)
  with binary32_round_error [of "c2 * t"] have eb: "db \<le> c2 * T / 2 ^ 24 + 1 / 2 ^ 150"
    by (simp add: db_def b_def)
  have "\<bar>a + b\<bar> \<le> da + db + \<bar>c1 * s\<bar> + \<bar>c2 * t\<bar>"
    unfolding da_def db_def by linarith
  then have ab: "\<bar>a + b\<bar> \<le> da + db + c1 * S + c2 * T"
    by (simp add: abs_mult c1_def c2_def S_def T_def)
  from binary32_round_error [of "a + b"] have "dr \<le> \<bar>a + b\<bar> / 2 ^ 24 + 1 / 2 ^ 150"
    by (simp add: dr_def r_def)
  with ab have er: "dr \<le> (da + db + c1 * S + c2 * T) / 2 ^ 24 + 1 / 2 ^ 150"
    by (simp add: field_simps)
  have "\<bar>c1 * s - 1 / 1000 * s\<bar> = \<bar>c1 - 1 / 1000\<bar> * S"
    by (simp add: S_def abs_mult [symmetric] algebra_simps)
  then have k1: "\<bar>c1 * s - 1 / 1000 * s\<bar> = (51 / 1073741824000) * S"
    by (simp add: c1_def)
  have "\<bar>c2 * t - 999 / 1000 * t\<bar> = \<bar>c2 - 999 / 1000\<bar> * T"
    by (simp add: T_def abs_mult [symmetric] algebra_simps)
  then have k2: "\<bar>c2 * t - 999 / 1000 * t\<bar> = (27 / 2097152000) * T"
    by (simp add: c2_def)
  have "\<bar>r - (1 / 1000 * s + 999 / 1000 * t)\<bar>
      \<le> dr + da + db + \<bar>c1 * s - 1 / 1000 * s\<bar> + \<bar>c2 * t - 999 / 1000 * t\<bar>"
    unfolding dr_def da_def db_def by linarith
  with k1 k2 have tri: "\<bar>r - (1 / 1000 * s + 999 / 1000 * t)\<bar>
      \<le> dr + da + db + (51 / 1073741824000) * S + (27 / 2097152000) * T"
    by simp
  have "dr + da + db + (51 / 1073741824000) * S + (27 / 2097152000) * T
      \<le> (S + T) / 2 ^ 22 + 1 / 2 ^ 148"
    using ea eb er pos unfolding c1_def c2_def by (simp add: field_simps)
  with tri have "\<bar>r - (1 / 1000 * s + 999 / 1000 * t)\<bar> \<le> (S + T) / 2 ^ 22 + 1 / 2 ^ 148"
    by linarith
  then show ?thesis by (simp only: r S_def T_def)
qed

lemma ema_towards_student:
  "\<bar>ema s t - s\<bar> \<le> 999 / 1000 * \<bar>t - s\<bar> + (\<bar>s\<bar> + \<bar>t\<bar>) / 2 ^ 22 + 1 / 2 ^ 148"
proof -
  have "(1 / 1000 * s + 999 / 1000 * t) - s = 999 / 1000 * (t - s)" by (simp add: algebra_simps)
  then have "\<bar>(1 / 1000 * s + 999 / 1000 * t) - s\<bar> = \<bar>999 / 1000\<bar> * \<bar>t - s\<bar>"
    by (simp only: abs_mult)
  then have "\<bar>(1 / 1000 * s + 999 / 1000 * t) - s\<bar> = 999 / 1000 * \<bar>t - s\<bar>"
    by simp
  with ema_error [of s t] show ?thesis by linarith
qed

lemma ema_step_bound:
  "\<bar>ema s t - s\<bar> \<le> (999 / 1000 + 1 / 2 ^ 22) * \<bar>t - s\<bar> + (\<bar>s\<bar> / 2 ^ 21 + 1 / 2 ^ 148)"
proof -
  have "\<bar>t\<bar> \<le> \<bar>s\<bar> + \<bar>t - s\<bar>" by linarith
  then have "(\<bar>s\<bar> + \<bar>t\<bar>) / 2 ^ 22 \<le> (2 * \<bar>s\<bar> + \<bar>t - s\<bar>) / 2 ^ 22"
    by (simp add: divide_right_mono)
  also have "\<dots> = \<bar>s\<bar> / 2 ^ 21 + \<bar>t - s\<bar> / 2 ^ 22" by (simp add: field_simps)
  finally have "(\<bar>s\<bar> + \<bar>t\<bar>) / 2 ^ 22 \<le> \<bar>s\<bar> / 2 ^ 21 + \<bar>t - s\<bar> / 2 ^ 22" .
  moreover have "(999 / 1000 + 1 / 2 ^ 22) * \<bar>t - s\<bar>
      = 999 / 1000 * \<bar>t - s\<bar> + \<bar>t - s\<bar> / 2 ^ 22"
    by (simp add: algebra_simps)
  ultimately show ?thesis using ema_towards_student [of s t] by linarith
qed

lemma ema_iterate_bound:
  "\<bar>(ema s ^^ n) t - s\<bar>
     \<le> (999 / 1000 + 1 / 2 ^ 22) ^ n * \<bar>t - s\<bar>
        + (\<bar>s\<bar> / 2 ^ 21 + 1 / 2 ^ 148) / (1 / 1000 - 1 / 2 ^ 22)"
proof -
  define q :: real where "q = 999 / 1000 + 1 / 2 ^ 22"
  define c where "c = \<bar>s\<bar> / 2 ^ 21 + 1 / 2 ^ 148"
  define K where "K = c / (1 - q)"
  have q: "0 \<le> q" "q < 1" by (simp_all add: q_def)
  have c: "0 \<le> c" by (simp add: c_def)
  have K: "q * K + c = K"
  proof -
    from q have "1 - q \<noteq> 0" by simp
    then have "q * K + c = (q * c + c * (1 - q)) / (1 - q)"
      by (simp add: K_def add_divide_distrib)
    also have "\<dots> = c / (1 - q)" by (simp add: algebra_simps)
    finally show ?thesis by (simp add: K_def)
  qed
  have "\<bar>(ema s ^^ n) t - s\<bar> \<le> q ^ n * \<bar>t - s\<bar> + K"
  proof (induction n)
    case 0
    from q c have "0 \<le> K" by (simp add: K_def)
    then show ?case by simp
  next
    case (Suc n)
    have "\<bar>(ema s ^^ Suc n) t - s\<bar> = \<bar>ema s ((ema s ^^ n) t) - s\<bar>" by simp
    also have "\<dots> \<le> q * \<bar>(ema s ^^ n) t - s\<bar> + c"
      using ema_step_bound [of s "(ema s ^^ n) t"] by (simp only: q_def c_def)
    also have "\<dots> \<le> q * (q ^ n * \<bar>t - s\<bar> + K) + c"
      using Suc.IH q(1) by (simp add: mult_left_mono)
    also have "\<dots> = q ^ Suc n * \<bar>t - s\<bar> + (q * K + c)" by (simp add: algebra_simps)
    finally show ?case by (simp only: K)
  qed
  moreover have "1 - q = 1 / 1000 - 1 / 2 ^ 22" by (simp add: q_def)
  ultimately show ?thesis by (simp only: q_def c_def K_def)
qed

lemma length_ema_update: "length (ema_update ss ts) = length ts"
  by (induction ss ts rule: ema_update.induct) simp_all

lemma nth_ema_update:
  "i < length ss \<Longrightarrow> i < length ts \<Longrightarrow> ema_update ss ts ! i = ema (ss ! i) (ts ! i)"
proof (induction ss ts arbitrary: i rule: ema_update.induct)
  case (1 s ss t ts)
  then show ?case by (cases i) simp_all
qed simp_all

lemma nth_ema_update_beyond:
  "length ss \<le> i \<Longrightarrow> ema_update ss ts ! i = ts ! i"
proof (induction ss ts arbitrary: i rule: ema_update.induct)
  case (1 s ss t ts)
  then show ?case by (cases i) simp_all
qed simp_all

section \<open>The training loop: lemmas\<close>

lemma apply_optimizer_simps [simp]:
  "next_ref (apply_optimizer X opt b w) = next_ref w"
  "files (apply_optimizer X opt b w) = files w"
  "csv (apply_optimizer X opt b w) = csv w"
  "events (apply_optimizer X opt b w) = events w"
  by (simp_all add: apply_optimizer_def)

lemma teacher_ema_simps [simp]:
  "next_ref (teacher_ema m t w) = next_ref w"
  "files (teacher_ema m t w) = files w"
  "csv (teacher_ema m t w) = csv w"
  "events (teacher_ema m t w) = events w"
  by (simp_all add: teacher_ema_def)

lemma params_teacher_ema:
  "params (heap (teacher_ema m t w) t) = ema_update (params (heap w m)) (params (heap w t))"
  by (simp add: teacher_ema_def)

lemma train_step_frame:
  "files (world_of (train_step X a c b w)) = files w"
  "csv (world_of (train_step X a c b w)) = csv w"
  "events (world_of (train_step X a c b w)) = events w"
  "next_ref (world_of (train_step X a c b w)) = next_ref w"
  by (simp_all add: train_step_cases split: sum.splits)

lemma train_batches_frame:
  "files (world_of (train_batches X a c bs acc w)) = files w \<and>
   csv (world_of (train_batches X a c bs acc w)) = csv w \<and>
   events (world_of (train_batches X a c bs acc w)) = events w \<and>
   next_ref (world_of (train_batches X a c bs acc w)) = next_ref w"
proof (induction bs arbitrary: acc w)
  case Nil
  show ?case by simp
next
  case (Cons b bs)
  obtain al as ac aw where acc: "acc = (al, as, ac, aw)" by (cases acc) auto
  show ?case
  proof (cases "train_step X a c b w")
    case (Raise e w')
    with train_step_frame [of X a c b w] show ?thesis by (simp add: acc)
  next
    case (Return v w')
    obtain l s cc wt where v: "v = (l, s, cc, wt)" by (cases v) auto
    from Return train_step_frame [of X a c b w]
    have "files w' = files w" "csv w' = csv w" "events w' = events w" "next_ref w' = next_ref w"
      by simp_all
    with Cons.IH [of "(al + l, as + s, ac + cc, Some wt)" w'] Return show ?thesis
      by (simp add: acc v)
  qed
qed

lemma two_epoch_weight: "PatchCL_weight ''supervised-Pretraining'' 0 c 2 = Inl ZeroDivisionError"
  by (simp add: PatchCL_weight_def get_dynamic_weight_def)

text \<open>
  Claim C8, at the run of the spec's end-to-end example with the default override 0: the
  first training step asks the schedule for the weight with \<open>end_epochs = 2\<close>, the
  schedule divides by \<open>2 // 10 = 0\<close>, and the run ends with \<open>ZeroDivisionError\<close> before a
  row is logged or a checkpoint is written.
\<close>

theorem two_epoch_pretraining_run_raises:
  "raised (train X (two_epoch_run 0) w) = Some ZeroDivisionError \<and>
   csv (world_of (train X (two_epoch_run 0) w)) = csv w \<and>
   files (world_of (train X (two_epoch_run 0) w)) = files w"
  by (simp add: train_def two_epoch_run_def upto.simps train_epoch_def train_step_cases
      two_epoch_weight)

lemma validate_frame:
  "files (world_of (validate X m l w)) = files w"
  "csv (world_of (validate X m l w)) = csv w"
  "events (world_of (validate X m l w)) = events w"
  "next_ref (world_of (validate X m l w)) = next_ref w"
  by (simp_all add: validate_def Let_def)

lemma train_epoch_Return:
  assumes "train_epoch X a i w = Return u w'"
  shows "\<exists>row. csv w' = csv w @ [row] \<and>
           filename row = save_loss_path a @ ''_'' @ step_name a @ ''-fold''
             @ str_int (fold_no a) @ ''.csv''"
    and "files w' =
           (if (i + 1) mod save_interval a = 0
            then (files w)(checkpoint_path (save_loss_model_path a) (fold_no a) (step_name a)
                   (i + 1) \<mapsto> heap w' (model a))
            else files w)"
    and "save_interval a \<noteq> 0"
proof -
  let ?tb = "train_batches X a (i + 1) (train_loader a) (0, 0, 0, None) w"
  from assms obtain acc w1 where tb: "?tb = Return acc w1"
    by (cases ?tb) (simp_all add: train_epoch_def)
  obtain el es ec wt where acc: "acc = (el, es, ec, wt)" by (cases acc) auto
  from train_batches_frame [of X a "i + 1" "train_loader a" "(0, 0, 0, None)" w] tb
  have f1: "files w1 = files w" "csv w1 = csv w" by simp_all
  from assms tb acc have ne: "length (train_loader a) \<noteq> 0"
    by (auto simp: train_epoch_def split: if_splits)
  let ?v = "validate X (model a) (val_loader a) w1"
  from assms tb acc ne obtain vl w2 where v: "?v = Return vl w2"
    by (cases ?v) (simp_all add: train_epoch_def)
  from validate_frame [of X "model a" "val_loader a" w1] v f1
  have f2: "files w2 = files w" "csv w2 = csv w" by simp_all
  from assms tb acc ne v obtain pw where wt: "wt = Some pw"
    by (cases wt) (simp_all add: train_epoch_def)
  from assms tb acc ne v wt show "save_interval a \<noteq> 0"
    by (auto simp: train_epoch_def Let_def split: if_splits)
  from assms tb acc ne v wt f2
  show "\<exists>row. csv w' = csv w @ [row] \<and>
           filename row = save_loss_path a @ ''_'' @ step_name a @ ''-fold''
             @ str_int (fold_no a) @ ''.csv''"
    by (auto simp: train_epoch_def Let_def split: if_splits)
  from assms tb acc ne v wt f2
  show "files w' =
           (if (i + 1) mod save_interval a = 0
            then (files w)(checkpoint_path (save_loss_model_path a) (fold_no a) (step_name a)
                   (i + 1) \<mapsto> heap w' (model a))
            else files w)"
    by (auto simp: train_epoch_def Let_def split: if_splits)
qed

lemma train_epochs_Return:
  "train_epochs X a js w = Return u w' \<Longrightarrow>
     length (csv w') = length (csv w) + length js \<and>
     dom (files w') = dom (files w) \<union>
       {checkpoint_path (save_loss_model_path a) (fold_no a) (step_name a) (i + 1) | i.
          i \<in> set js \<and> (i + 1) mod save_interval a = 0}"
proof (induction js arbitrary: w)
  case Nil
  then show ?case by simp
next
  case (Cons j js)
  from Cons.prems obtain u1 w1 where e: "train_epoch X a j w = Return u1 w1"
    by (cases "train_epoch X a j w") simp_all
  with Cons.prems have rest: "train_epochs X a js w1 = Return u w'" by simp
  from train_epoch_Return(1) [OF e] have c1: "length (csv w1) = Suc (length (csv w))" by auto
  from train_epoch_Return(2) [OF e]
  have d1: "dom (files w1) = dom (files w) \<union>
       {checkpoint_path (save_loss_model_path a) (fold_no a) (step_name a) (i + 1) | i.
          i = j \<and> (i + 1) mod save_interval a = 0}"
    by (auto split: if_splits)
  from Cons.IH [OF rest] c1 d1 show ?case by auto
qed

lemma train_Return:
  assumes "train X a w = Return r w'"
  shows "length (csv w') = length (csv w) + nat (end_epochs a - start_epochs a)"
    and "dom (files w') = dom (files w) \<union>
       {checkpoint_path (save_loss_model_path a) (fold_no a) (step_name a) c | c.
          start_epochs a < c \<and> c \<le> end_epochs a \<and> c mod save_interval a = 0}"
    and "r = (model a, teacher_model a)"
proof -
  let ?js = "[start_epochs a .. end_epochs a - 1]"
  from assms obtain u where te: "train_epochs X a ?js w = Return u w'"
    by (cases "train_epochs X a ?js w") (simp_all add: train_def)
  from assms te show "r = (model a, teacher_model a)" by (simp add: train_def)
  have len: "length ?js = nat (end_epochs a - start_epochs a)" by simp
  from train_epochs_Return [OF te] len
  show "length (csv w') = length (csv w) + nat (end_epochs a - start_epochs a)" by simp
  have "{checkpoint_path (save_loss_model_path a) (fold_no a) (step_name a) (i + 1) | i.
          i \<in> set ?js \<and> (i + 1) mod save_interval a = 0} =
        {checkpoint_path (save_loss_model_path a) (fold_no a) (step_name a) c | c.
          start_epochs a < c \<and> c \<le> end_epochs a \<and> c mod save_interval a = 0}"
    (is "?A = ?B")
  proof
    show "?A \<subseteq> ?B" by auto
    show "?B \<subseteq> ?A"
    proof
      fix p assume "p \<in> ?B"
      then obtain c where c: "p = checkpoint_path (save_loss_model_path a) (fold_no a)
          (step_name a) c" "start_epochs a < c" "c \<le> end_epochs a" "c mod save_interval a = 0"
        by auto
      from c(2,3) have m: "c - 1 \<in> set ?js" by simp
      have e: "c - 1 + 1 = c" by simp
      show "p \<in> ?A"
        apply (rule CollectI)
        apply (rule exI [of _ "c - 1"])
        using c(1,4) m e apply simp
        done
    qed
  qed
  with train_epochs_Return [OF te]
  show "dom (files w') = dom (files w) \<union> ?B" by simp
qed

lemma train_batches_Returns:
  assumes "PatchCL_weight (step_name a) (ContrastiveWeights a) c (end_epochs a) = Inr pw"
  shows "\<exists>el es ec wt w'. train_batches X a c bs acc w = Return (el, es, ec, wt) w' \<and>
           (bs \<noteq> [] \<longrightarrow> wt = Some pw)"
proof (induction bs arbitrary: acc w)
  case Nil
  show ?case by (cases acc) auto
next
  case (Cons b bs)
  obtain al as ac aw where acc: "acc = (al, as, ac, aw)" by (cases acc) auto
  from assms obtain v w1 where st: "train_step X a c b w = Return v w1" "snd (snd (snd v)) = pw"
    by (simp add: train_step_cases)
  obtain l s cc where v: "v = (l, s, cc, pw)" using st(2) by (cases v) auto
  from Cons.IH [of "(al + l, as + s, ac + cc, Some pw)" w1]
  obtain el es ec wt w' where r: "train_batches X a c bs (al + l, as + s, ac + cc, Some pw) w1
      = Return (el, es, ec, wt) w'" "bs \<noteq> [] \<longrightarrow> wt = Some pw"
    by blast
  have "bs = [] \<longrightarrow> wt = Some pw" using r(1) by auto
  with r st(1) show ?case by (auto simp: acc v)
qed

lemma train_epoch_Returns:
  assumes "PatchCL_weight (step_name a) (ContrastiveWeights a) (i + 1) (end_epochs a) = Inr pw"
    and "train_loader a \<noteq> []" and "(\<Sum>imgs \<leftarrow> val_loader a. length imgs) \<noteq> 0"
    and "save_interval a \<noteq> 0"
  shows "\<exists>w'. train_epoch X a i w = Return () w'"
proof -
  from train_batches_Returns [OF assms(1), of X "train_loader a" "(0, 0, 0, None)" w] assms(2)
  obtain el es ec w1 where tb: "train_batches X a (i + 1) (train_loader a) (0, 0, 0, None) w
      = Return (el, es, ec, Some pw) w1"
    by auto
  from assms(3) obtain vl w2 where v: "validate X (model a) (val_loader a) w1 = Return vl w2"
    by (simp add: validate_def Let_def)
  from tb v assms(2,4) show ?thesis
    by (simp add: train_epoch_def Let_def)
qed

lemma train_epochs_Returns:
  assumes "\<forall>i \<in> set js. \<exists>pw. PatchCL_weight (step_name a) (ContrastiveWeights a) (i + 1)
      (end_epochs a) = Inr pw"
    and "train_loader a \<noteq> []" and "(\<Sum>imgs \<leftarrow> val_loader a. length imgs) \<noteq> 0"
    and "save_interval a \<noteq> 0"
  shows "\<exists>w'. train_epochs X a js w = Return () w'"
  using assms(1)
proof (induction js arbitrary: w)
  case Nil
  show ?case by simp
next
  case (Cons j js)
  from Cons.prems obtain pw where "PatchCL_weight (step_name a) (ContrastiveWeights a) (j + 1)
      (end_epochs a) = Inr pw" by auto
  from train_epoch_Returns [OF this assms(2,3,4), of X w]
  obtain w1 where e: "train_epoch X a j w = Return () w1" by blast
  from Cons.IH [of w1] Cons.prems obtain w' where "train_epochs X a js w1 = Return () w'" by auto
  with e show ?case by simp
qed

lemma train_Returns:
  assumes "\<forall>c. start_epochs a < c \<and> c \<le> end_epochs a \<longrightarrow>
      (\<exists>pw. PatchCL_weight (step_name a) (ContrastiveWeights a) c (end_epochs a) = Inr pw)"
    and "train_loader a \<noteq> []" and "(\<Sum>imgs \<leftarrow> val_loader a. length imgs) \<noteq> 0"
    and "save_interval a \<noteq> 0"
  shows "\<exists>w'. train X a w = Return (model a, teacher_model a) w'"
proof -
  have "\<forall>i \<in> set [start_epochs a .. end_epochs a - 1].
      \<exists>pw. PatchCL_weight (step_name a) (ContrastiveWeights a) (i + 1) (end_epochs a) = Inr pw"
    using assms(1) by simp
  from train_epochs_Returns [OF this assms(2,3,4), of X w]
  obtain w' where "train_epochs X a [start_epochs a .. end_epochs a - 1] w = Return () w'"
    by blast
  then show ?thesis by (simp add: train_def)
qed

lemma checkpoint_path_example:
  "checkpoint_path ''output/14-0'' 0 ''supervised-Pretraining'' 2
     = ''output/14-0/fold/0/model_supervised-Pretraining_2-s.pth''"
  by (simp add: checkpoint_path_def str_int_def str_nat.simps)

lemma two_epoch_run_fields [simp]:
  "model (two_epoch_run ov) = 0"
  "teacher_model (two_epoch_run ov) = 1"
  "train_loader (two_epoch_run ov)
     = [[4, 5, 6, 7], [8, 9, 10, 11], [12, 13, 14, 15], [16, 17, 18, 19]]"
  "val_loader (two_epoch_run ov) = [[0, 1, 2, 3]]"
  "optimizer (two_epoch_run ov) = 0"
  "start_epochs (two_epoch_run ov) = 0"
  "end_epochs (two_epoch_run ov) = 2"
  "step_name (two_epoch_run ov) = ''supervised-Pretraining''"
  "ContrastiveWeights (two_epoch_run ov) = ov"
  "fold_no (two_epoch_run ov) = 0"
  "save_interval (two_epoch_run ov) = 2"
  "save_loss_model_path (two_epoch_run ov) = ''output/14-0''"
  "save_loss_path (two_epoch_run ov) = ''output/loss_14-0''"
  by (simp_all add: two_epoch_run_def)

lemma even_epoch_of_two: "{c :: int. 0 < c \<and> c \<le> 2 \<and> c mod 2 = 0} = {2}"
proof -
  have "c = 2" if "0 < c" "c \<le> 2" "c mod 2 = 0" for c :: int
  proof -
    from that(1,2) have "c = 1 \<or> c = 2" by linarith
    with that(3) show ?thesis by auto
  qed
  then show ?thesis by auto
qed

lemma two_epoch_override_run:
  assumes "override \<noteq> 0"
  shows "\<exists>w'. train X (two_epoch_run override) w = Return (0, 1) w' \<and>
           length (csv w') = length (csv w) + 2 \<and>
           dom (files w') =
             insert ''output/14-0/fold/0/model_supervised-Pretraining_2-s.pth'' (dom (files w))"
proof -
  let ?a = "two_epoch_run override"
  have pw: "\<forall>c. start_epochs ?a < c \<and> c \<le> end_epochs ?a \<longrightarrow>
      (\<exists>pw. PatchCL_weight (step_name ?a) (ContrastiveWeights ?a) c (end_epochs ?a) = Inr pw)"
    using assms by (simp add: PatchCL_weight_def)
  have "\<exists>w'. train X ?a w = Return (model ?a, teacher_model ?a) w'"
    by (rule train_Returns [OF pw]) simp_all
  then obtain w' where r: "train X ?a w = Return (0, 1) w'"
    by auto
  have "{checkpoint_path ''output/14-0'' 0 ''supervised-Pretraining'' c | c :: int.
              0 < c \<and> c \<le> 2 \<and> c mod 2 = 0}
        = checkpoint_path ''output/14-0'' 0 ''supervised-Pretraining''
            ` {c :: int. 0 < c \<and> c \<le> 2 \<and> c mod 2 = 0}"
    by (rule setcompr_eq_image)
  then have paths: "{checkpoint_path ''output/14-0'' 0 ''supervised-Pretraining'' c | c :: int.
              0 < c \<and> c \<le> 2 \<and> c mod 2 = 0}
        = {''output/14-0/fold/0/model_supervised-Pretraining_2-s.pth''}"
    by (simp only: even_epoch_of_two checkpoint_path_example image_insert image_empty)
  from train_Return(1) [OF r] have rows: "length (csv w') = length (csv w) + 2"
    by simp
  from train_Return(2) [OF r] have "dom (files w') = dom (files w) \<union>
       {checkpoint_path ''output/14-0'' 0 ''supervised-Pretraining'' c | c :: int.
              0 < c \<and> c \<le> 2 \<and> c mod 2 = 0}"
    by simp
  then have "dom (files w') =
       insert ''output/14-0/fold/0/model_supervised-Pretraining_2-s.pth'' (dom (files w))"
    by (simp only: paths Un_insert_right Un_empty_right)
  with r rows show ?thesis by blast
qed

text \<open>
  Claim C3, as amended. One update replaces a teacher parameter \<open>t\<close> by the float32
  result of \<open>0.001 * s + 0.999 * t\<close>, where \<open>s\<close> is the student's parameter: the two
  constants are rounded to float32, and each product and the sum are rounded. For
  parameters of magnitude up to \<open>2 ^ 126\<close> the result differs from the exact value by at
  most \<open>(|s| + |t|) / 2 ^ 22 + 2 ^ (-148)\<close>, so the distance to \<open>s\<close> after an update is at
  most \<open>0.999\<close> times the distance before plus that rounding error, and after \<open>n\<close> updates
  with \<open>s\<close> held constant it is at most \<open>(0.999 + 2 ^ (-22)) ^ n\<close> times the initial
  distance plus a bound that does not depend on \<open>n\<close>. The update is applied to every pair
  of parameters, and in a training step it is applied to the parameters as the optimizer
  step has left them.
\<close>

theorem teacher_ema_float32_rule:
  "ema s t = binary32_round (binary32_round (8589935 / 8589934592 * s)
               + binary32_round (16760439 / 16777216 * t)) \<and>
   (\<bar>s\<bar> \<le> 2 ^ 126 \<and> \<bar>t\<bar> \<le> 2 ^ 126 \<longrightarrow>
      \<bar>ema s t - (1 / 1000 * s + 999 / 1000 * t)\<bar> \<le> (\<bar>s\<bar> + \<bar>t\<bar>) / 2 ^ 22 + 1 / 2 ^ 148 \<and>
      \<bar>ema s t - s\<bar> \<le> 999 / 1000 * \<bar>t - s\<bar> + (\<bar>s\<bar> + \<bar>t\<bar>) / 2 ^ 22 + 1 / 2 ^ 148 \<and>
      \<bar>(ema s ^^ n) t - s\<bar>
        \<le> (999 / 1000 + 1 / 2 ^ 22) ^ n * \<bar>t - s\<bar>
           + (\<bar>s\<bar> / 2 ^ 21 + 1 / 2 ^ 148) / (1 / 1000 - 1 / 2 ^ 22)) \<and>
   length (ema_update ss ts) = length ts \<and>
   (\<forall>i. i < length ss \<and> i < length ts \<longrightarrow> ema_update ss ts ! i = ema (ss ! i) (ts ! i)) \<and>
   (\<forall>i. length ss \<le> i \<longrightarrow> ema_update ss ts ! i = ts ! i) \<and>
   (raised (train_step X a c b w) = None \<longrightarrow>
      params (heap (world_of (train_step X a c b w)) (teacher_model a)) =
        ema_update
          (params (heap (apply_optimizer X (optimizer a) b
             (embedding_phase (model a) (teacher_model a) w)) (model a)))
          (params (heap (apply_optimizer X (optimizer a) b
             (embedding_phase (model a) (teacher_model a) w)) (teacher_model a))))"
proof -
  have form: "ema s t = binary32_round (binary32_round (8589935 / 8589934592 * s)
               + binary32_round (16760439 / 16777216 * t))"
    by (simp only: ema_def binary32_add_def binary32_mul_def binary32_constants)
  have step: "raised (train_step X a c b w) = None \<longrightarrow>
      params (heap (world_of (train_step X a c b w)) (teacher_model a)) =
        ema_update
          (params (heap (apply_optimizer X (optimizer a) b
             (embedding_phase (model a) (teacher_model a) w)) (model a)))
          (params (heap (apply_optimizer X (optimizer a) b
             (embedding_phase (model a) (teacher_model a) w)) (teacher_model a)))"
    by (simp add: train_step_cases params_teacher_ema split: sum.splits)
  have nth: "\<forall>i. i < length ss \<and> i < length ts \<longrightarrow> ema_update ss ts ! i = ema (ss ! i) (ts ! i)"
    using nth_ema_update [of _ ss ts] by simp
  have beyond: "\<forall>i. length ss \<le> i \<longrightarrow> ema_update ss ts ! i = ts ! i"
    using nth_ema_update_beyond [of ss _ ts] by simp
  from form step nth beyond ema_error [of s t] ema_towards_student [of s t]
    ema_iterate_bound [where s = s and n = n and t = t] length_ema_update [of ss ts]
  show ?thesis by blast
qed

theorem teacher_ema_float32_rule_witness:
  "\<bar>1 :: real\<bar> \<le> 2 ^ 126 \<and> \<bar>3 :: real\<bar> \<le> 2 ^ 126 \<and>
   ema 1 3 = 12574523 / 4194304 \<and>
   \<bar>ema 1 3 - (1 / 1000 * 1 + 999 / 1000 * 3)\<bar> \<le> (\<bar>1\<bar> + \<bar>3\<bar>) / 2 ^ 22 + 1 / 2 ^ 148 \<and>
   \<bar>ema 1 3 - 1\<bar> \<le> 999 / 1000 * \<bar>3 - 1\<bar> + (\<bar>1\<bar> + \<bar>3\<bar>) / 2 ^ 22 + 1 / 2 ^ 148 \<and>
   (0 :: nat) < length [1 :: real] \<and> (0 :: nat) < length [3 :: real] \<and>
   ema_update [1] [3] ! 0 = 12574523 / 4194304 \<and>
   raised (train_step example_externals (two_epoch_run (1 / 2)) 1 [4, 5, 6, 7] example_world) = None \<and>
   params (heap (world_of (train_step example_externals (two_epoch_run (1 / 2)) 1 [4, 5, 6, 7]
      example_world)) 1) = [12574523 / 4194304]"
proof -
  note t = teacher_ema_float32_rule [where s = 1 and t = 3 and n = 1 and ss = "[1]"
      and ts = "[3]" and X = example_externals and a = "two_epoch_run (1 / 2)" and c = 1
      and b = "[4, 5, 6, 7]" and w = example_world]
  have h: "\<bar>1 :: real\<bar> \<le> 2 ^ 126 \<and> \<bar>3 :: real\<bar> \<le> 2 ^ 126" by simp
  have r: "raised (train_step example_externals (two_epoch_run (1 / 2)) 1 [4, 5, 6, 7]
      example_world) = None"
    by (simp add: train_step_cases PatchCL_weight_def)
  from t h have e1: "\<bar>ema 1 3 - (1 / 1000 * 1 + 999 / 1000 * 3)\<bar>
      \<le> (\<bar>1\<bar> + \<bar>3\<bar>) / 2 ^ 22 + 1 / 2 ^ 148"
    by blast
  from t h have e2: "\<bar>ema 1 3 - 1\<bar> \<le> 999 / 1000 * \<bar>3 - 1\<bar> + (\<bar>1\<bar> + \<bar>3\<bar>) / 2 ^ 22 + 1 / 2 ^ 148"
    by blast
  have l: "(0 :: nat) < length [1 :: real] \<and> (0 :: nat) < length [3 :: real]" by simp
  from t have "\<forall>i. i < length [1 :: real] \<and> i < length [3 :: real] \<longrightarrow>
      ema_update [1] [3] ! i = ema ([1] ! i) ([3] ! i)"
    by blast
  with l have "ema_update [1] [3] ! 0 = ema ([1] ! 0) ([3] ! 0)" by blast
  then have n: "ema_update [1] [3] ! 0 = 12574523 / 4194304"
    by (simp add: ema_one_three)
  from t r have "params (heap (world_of (train_step example_externals (two_epoch_run (1 / 2)) 1
      [4, 5, 6, 7] example_world)) (teacher_model (two_epoch_run (1 / 2)))) =
        ema_update
          (params (heap (apply_optimizer example_externals (optimizer (two_epoch_run (1 / 2)))
             [4, 5, 6, 7] (embedding_phase (model (two_epoch_run (1 / 2)))
                (teacher_model (two_epoch_run (1 / 2))) example_world))
             (model (two_epoch_run (1 / 2)))))
          (params (heap (apply_optimizer example_externals (optimizer (two_epoch_run (1 / 2)))
             [4, 5, 6, 7] (embedding_phase (model (two_epoch_run (1 / 2)))
                (teacher_model (two_epoch_run (1 / 2))) example_world))
             (teacher_model (two_epoch_run (1 / 2)))))"
    by blast
  then have p: "params (heap (world_of (train_step example_externals (two_epoch_run (1 / 2)) 1
      [4, 5, 6, 7] example_world)) 1) = [12574523 / 4194304]"
    by (simp add: apply_optimizer_def contrast_embedding_phase example_world_def example_net_def
        example_externals_def ema_one_three)
  from h ema_one_three e1 e2 l n r p show ?thesis by blast
qed

text \<open>
  Claim C3 as stated fails in float32. With the student's parameter at \<open>1\<close> and the
  teacher's at the next float32 above \<open>1\<close>, the update returns the teacher's value
  unchanged: the distance does not shrink by the factor \<open>0.999\<close>, and however often the
  update is iterated the teacher stays where it is and does not approach the student.
  The same holds 750 float32 steps above \<open>1\<close>, at the distance \<open>375 / 4194304\<close> from
  the student. Nor is the result \<open>0.001 * s + 0.999 * t\<close>: for \<open>s = 1\<close> and
  \<open>t = 3\<close> it is \<open>12574523 / 4194304\<close>, not \<open>1499 / 500\<close>.
\<close>

theorem teacher_ema_stalls_counterexample:
  "ema 1 (8388609 / 8388608) = 8388609 / 8388608 \<and>
   \<bar>ema 1 (8388609 / 8388608) - 1\<bar> \<noteq> 999 / 1000 * \<bar>8388609 / 8388608 - 1\<bar> \<and>
   \<not> \<bar>ema 1 (8388609 / 8388608) - 1\<bar> < \<bar>8388609 / 8388608 - 1\<bar> \<and>
   (\<forall>n. \<bar>(ema 1 ^^ n) (8388609 / 8388608) - 1\<bar> = 1 / 8388608) \<and>
   ema 1 (4194679 / 4194304) = 4194679 / 4194304 \<and>
   \<bar>ema 1 (4194679 / 4194304) - 1\<bar> = 375 / 4194304 \<and>
   ema 1 3 = 12574523 / 4194304 \<and>
   ema 1 3 \<noteq> 1 / 1000 * 1 + 999 / 1000 * 3"
  by (simp add: ema_fixed_point ema_fixed_point_iterate ema_stall_point ema_one_three)

text \<open>
  Claim C2. In every training step that computes a loss, the total loss is the
  supervised loss plus the weight times the contrastive loss, and the weight is chosen
  by stage name: in the stage \<open>supervised-Pretraining\<close> a nonzero override is used as it
  is and a zero override gives the schedule's value at the current epoch; every other
  stage name gives \<open>0.5\<close>.
\<close>

theorem contrastive_weight_by_stage:
  "(train_step X a c b w = Return (l, s, p, wt) w' \<longrightarrow>
      l = s + wt * p \<and>
      s = criterion X (heap (embedding_phase (model a) (teacher_model a) w) (model a)) b \<and>
      p = simple_PCGJCL X b \<and>
      (step_name a = ''supervised-Pretraining'' \<and> ContrastiveWeights a \<noteq> 0 \<longrightarrow>
         wt = ContrastiveWeights a) \<and>
      (step_name a = ''supervised-Pretraining'' \<and> ContrastiveWeights a = 0 \<longrightarrow>
         get_dynamic_weight c (end_epochs a) = Inr wt) \<and>
      (step_name a \<noteq> ''supervised-Pretraining'' \<longrightarrow> wt = 1 / 2)) \<and>
   (stage = ''supervised-Pretraining'' \<and> override \<noteq> 0 \<longrightarrow>
      PatchCL_weight stage override c e = Inr override) \<and>
   (stage = ''supervised-Pretraining'' \<and> override = 0 \<longrightarrow>
      PatchCL_weight stage override c e =
        get_dynamic_weight c e) \<and>
   (stage \<noteq> ''supervised-Pretraining'' \<longrightarrow>
      PatchCL_weight stage override c e = Inr (1 / 2))"
proof -
  have "l = s + wt * p \<and>
      s = criterion X (heap (embedding_phase (model a) (teacher_model a) w) (model a)) b \<and>
      p = simple_PCGJCL X b \<and>
      (step_name a = ''supervised-Pretraining'' \<and> ContrastiveWeights a \<noteq> 0 \<longrightarrow>
         wt = ContrastiveWeights a) \<and>
      (step_name a = ''supervised-Pretraining'' \<and> ContrastiveWeights a = 0 \<longrightarrow>
         get_dynamic_weight c (end_epochs a) = Inr wt) \<and>
      (step_name a \<noteq> ''supervised-Pretraining'' \<longrightarrow> wt = 1 / 2)"
    if r: "train_step X a c b w = Return (l, s, p, wt) w'"
  proof -
    from r obtain pw where pw: "PatchCL_weight (step_name a) (ContrastiveWeights a) c
        (end_epochs a) = Inr pw"
      by (cases "PatchCL_weight (step_name a) (ContrastiveWeights a) c (end_epochs a)")
         (simp_all add: train_step_cases)
    from r pw have v: "l = total_loss s wt p" "wt = pw"
      "s = criterion X (heap (embedding_phase (model a) (teacher_model a) w) (model a)) b"
      "p = simple_PCGJCL X b"
      by (auto simp: train_step_cases)
    from pw v(2) have "PatchCL_weight (step_name a) (ContrastiveWeights a) c (end_epochs a)
        = Inr wt" by simp
    then have "(step_name a = ''supervised-Pretraining'' \<and> ContrastiveWeights a \<noteq> 0 \<longrightarrow>
         wt = ContrastiveWeights a) \<and>
      (step_name a = ''supervised-Pretraining'' \<and> ContrastiveWeights a = 0 \<longrightarrow>
         get_dynamic_weight c (end_epochs a) = Inr wt) \<and>
      (step_name a \<noteq> ''supervised-Pretraining'' \<longrightarrow> wt = 1 / 2)"
      by (auto simp: PatchCL_weight_def split: if_splits)
    with v show ?thesis by (simp add: total_loss_def)
  qed
  moreover have "(stage = ''supervised-Pretraining'' \<and> override \<noteq> 0 \<longrightarrow>
      PatchCL_weight stage override c e = Inr override) \<and>
   (stage = ''supervised-Pretraining'' \<and> override = 0 \<longrightarrow>
      PatchCL_weight stage override c e = get_dynamic_weight c e) \<and>
   (stage \<noteq> ''supervised-Pretraining'' \<longrightarrow>
      PatchCL_weight stage override c e = Inr (1 / 2))"
    by (simp add: PatchCL_weight_def)
  ultimately show ?thesis by blast
qed

lemma example_step_values:
  "train_step example_externals (two_epoch_run (3 / 10)) 7 [4, 5, 6, 7] example_world
     = Return (8 / 5, 1, 2, 3 / 10)
         (world_of (train_step example_externals (two_epoch_run (3 / 10)) 7 [4, 5, 6, 7]
            example_world))"
  "train_step example_externals ((two_epoch_run 0)\<lparr>end_epochs := 100\<rparr>) 25 [4, 5, 6, 7]
       example_world
     = Return (39 / 25, 1, 2, 7 / 25)
         (world_of (train_step example_externals ((two_epoch_run 0)\<lparr>end_epochs := 100\<rparr>) 25
            [4, 5, 6, 7] example_world))"
  "train_step example_externals ((two_epoch_run (3 / 10))\<lparr>step_name := ''SSL-reliable-st1''\<rparr>)
       25 [4, 5, 6, 7] example_world
     = Return (2, 1, 2, 1 / 2)
         (world_of (train_step example_externals
            ((two_epoch_run (3 / 10))\<lparr>step_name := ''SSL-reliable-st1''\<rparr>) 25 [4, 5, 6, 7]
            example_world))"
  by (simp_all add: train_step_cases PatchCL_weight_def get_dynamic_weight_def total_loss_def
      example_externals_def)

theorem contrastive_weight_by_stage_witness:
  "train_step example_externals (two_epoch_run (3 / 10)) 7 [4, 5, 6, 7] example_world
     = Return (8 / 5, 1, 2, 3 / 10)
         (world_of (train_step example_externals (two_epoch_run (3 / 10)) 7 [4, 5, 6, 7]
            example_world)) \<and>
   (8 / 5 :: real) = 1 + 3 / 10 * 2 \<and>
   step_name (two_epoch_run (3 / 10)) = ''supervised-Pretraining'' \<and>
   ContrastiveWeights (two_epoch_run (3 / 10)) \<noteq> 0 \<and>
   (3 / 10 :: real) = ContrastiveWeights (two_epoch_run (3 / 10)) \<and>
   train_step example_externals ((two_epoch_run 0)\<lparr>end_epochs := 100\<rparr>) 25 [4, 5, 6, 7]
       example_world
     = Return (39 / 25, 1, 2, 7 / 25)
         (world_of (train_step example_externals ((two_epoch_run 0)\<lparr>end_epochs := 100\<rparr>) 25
            [4, 5, 6, 7] example_world)) \<and>
   get_dynamic_weight 25 100 = Inr (7 / 25) \<and>
   train_step example_externals ((two_epoch_run (3 / 10))\<lparr>step_name := ''SSL-reliable-st1''\<rparr>)
       25 [4, 5, 6, 7] example_world
     = Return (2, 1, 2, 1 / 2)
         (world_of (train_step example_externals
            ((two_epoch_run (3 / 10))\<lparr>step_name := ''SSL-reliable-st1''\<rparr>) 25 [4, 5, 6, 7]
            example_world)) \<and>
   PatchCL_weight ''supervised-Pretraining'' (3 / 10) 7 100 = Inr (3 / 10) \<and>
   PatchCL_weight ''supervised-Pretraining'' 0 25 100 = Inr (7 / 25) \<and>
   PatchCL_weight ''SSL-reliable-st1'' 0 25 100 = Inr (1 / 2) \<and>
   PatchCL_weight ''SSL-reliable-st2'' (3 / 10) 25 100 = Inr (1 / 2)"
proof -
  let ?a1 = "two_epoch_run (3 / 10)"
  let ?a2 = "(two_epoch_run 0)\<lparr>end_epochs := 100\<rparr>"
  let ?a3 = "(two_epoch_run (3 / 10))\<lparr>step_name := ''SSL-reliable-st1''\<rparr>"
  note t1 = contrastive_weight_by_stage [where X = example_externals and a = ?a1 and c = 7
      and b = "[4, 5, 6, 7]" and w = example_world and l = "8 / 5" and s = 1 and p = 2
      and wt = "3 / 10"
      and w' = "world_of (train_step example_externals ?a1 7 [4, 5, 6, 7] example_world)"
      and stage = "''supervised-Pretraining''" and override = "3 / 10" and e = 100]
  note t2 = contrastive_weight_by_stage [where X = example_externals and a = ?a2 and c = 25
      and b = "[4, 5, 6, 7]" and w = example_world and l = "39 / 25" and s = 1 and p = 2
      and wt = "7 / 25"
      and w' = "world_of (train_step example_externals ?a2 25 [4, 5, 6, 7] example_world)"
      and stage = "''supervised-Pretraining''" and override = 0 and e = 100]
  note t3 = contrastive_weight_by_stage [where X = example_externals and a = ?a3 and c = 25
      and b = "[4, 5, 6, 7]" and w = example_world and l = 2 and s = 1 and p = 2
      and wt = "1 / 2"
      and w' = "world_of (train_step example_externals ?a3 25 [4, 5, 6, 7] example_world)"
      and stage = "''SSL-reliable-st1''" and override = 0 and e = 100]
  note t4 = contrastive_weight_by_stage [where c = 25 and stage = "''SSL-reliable-st2''"
      and override = "3 / 10" and e = 100]
  note r1 = example_step_values(1)
  note r2 = example_step_values(2)
  note r3 = example_step_values(3)
  have f1: "step_name ?a1 = ''supervised-Pretraining''" by simp
  have f1': "ContrastiveWeights ?a1 \<noteq> 0" by simp
  have f2: "step_name ?a2 = ''supervised-Pretraining'' \<and> ContrastiveWeights ?a2 = 0" by simp
  note s1 = t1 [THEN conjunct1, THEN mp, OF r1]
  note s2 = t2 [THEN conjunct1, THEN mp, OF r2]
  have c1: "(8 / 5 :: real) = 1 + 3 / 10 * 2" by (rule s1 [THEN conjunct1])
  have c1': "(3 / 10 :: real) = ContrastiveWeights ?a1"
    by (rule s1 [THEN conjunct2, THEN conjunct2, THEN conjunct2, THEN conjunct1, THEN mp,
          OF conjI [OF f1 f1']])
  have "get_dynamic_weight 25 (end_epochs ?a2) = Inr (7 / 25)"
    by (rule s2 [THEN conjunct2, THEN conjunct2, THEN conjunct2, THEN conjunct2, THEN conjunct1,
          THEN mp, OF f2])
  then have c2: "get_dynamic_weight 25 100 = Inr (7 / 25)" by simp
  have h3: "''supervised-Pretraining'' = ''supervised-Pretraining'' \<and> (3 / 10 :: real) \<noteq> 0"
    by simp
  have c3: "PatchCL_weight ''supervised-Pretraining'' (3 / 10) 7 100 = Inr (3 / 10)"
    by (rule t1 [THEN conjunct2, THEN conjunct1, THEN mp, OF h3])
  have h4: "''supervised-Pretraining'' = ''supervised-Pretraining'' \<and> (0 :: real) = 0"
    by simp
  have "PatchCL_weight ''supervised-Pretraining'' 0 25 100 = get_dynamic_weight 25 100"
    by (rule t2 [THEN conjunct2, THEN conjunct2, THEN conjunct1, THEN mp, OF h4])
  then have c4: "PatchCL_weight ''supervised-Pretraining'' 0 25 100 = Inr (7 / 25)"
    by (simp only: c2)
  have h5: "''SSL-reliable-st1'' \<noteq> ''supervised-Pretraining''" by simp
  have h6: "''SSL-reliable-st2'' \<noteq> ''supervised-Pretraining''" by simp
  have c5: "PatchCL_weight ''SSL-reliable-st1'' 0 25 100 = Inr (1 / 2)"
    by (rule t3 [THEN conjunct2, THEN conjunct2, THEN conjunct2, THEN mp, OF h5])
  have c6: "PatchCL_weight ''SSL-reliable-st2'' (3 / 10) 25 100 = Inr (1 / 2)"
    by (rule t4 [THEN conjunct2, THEN conjunct2, THEN conjunct2, THEN mp, OF h6])
  show ?thesis
    by (intro conjI) (rule r1 c1 f1 f1' c1' r2 c2 r3 c3 c4 c5 c6)+
qed

section \<open>Loaders and the reliable-sample selection: lemmas\<close>

lemma concat_full_batches:
  "concat (full_batches b ds) = take (length ds div b * b) ds"
proof (induction b ds rule: full_batches.induct)
  case (1 b ds)
  show ?case
  proof (cases "b = 0 \<or> length ds < b")
    case True
    then show ?thesis by (auto simp: full_batches.simps)
  next
    case False
    then have b: "0 < b" "b \<le> length ds" by auto
    then have d: "length ds div b = Suc ((length ds - b) div b)"
      by (simp add: le_div_geq)
    from False have "concat (full_batches b ds)
        = take b ds @ concat (full_batches b (drop b ds))"
      by (subst full_batches.simps) simp
    also have "\<dots> = take b ds @ take ((length ds - b) div b * b) (drop b ds)"
      using "1.IH" [OF False] by simp
    also have "\<dots> = take (b + (length ds - b) div b * b) ds"
      by (simp add: take_add)
    finally show ?thesis by (simp add: d)
  qed
qed

lemma length_full_batches: "length (full_batches b ds) = length ds div b"
proof (induction b ds rule: full_batches.induct)
  case (1 b ds)
  show ?case
  proof (cases "b = 0 \<or> length ds < b")
    case True
    then show ?thesis by (auto simp: full_batches.simps)
  next
    case False
    then have b: "0 < b" "b \<le> length ds" by auto
    from False have "length (full_batches b ds) = Suc (length (full_batches b (drop b ds)))"
      by (subst full_batches.simps) simp
    also have "\<dots> = Suc ((length ds - b) div b)"
      using "1.IH" [OF False] by simp
    finally show ?thesis using b by (simp add: le_div_geq)
  qed
qed

lemma select_reliable_parts:
  assumes "select_reliable score k loader = (reliable, remaining)"
  shows "set reliable \<union> set remaining = set (loader_dataset loader)"
    and "length reliable = min k (length (loader_dataset loader))"
    and "length remaining = length (loader_dataset loader) - length reliable"
    and "distinct (loader_dataset loader) \<Longrightarrow>
           set reliable \<inter> set remaining = {} \<and> distinct reliable \<and> distinct remaining"
proof -
  let ?ranked = "rev (sort_key score (loader_dataset loader))"
  from assms have r: "reliable = take k ?ranked" "remaining = drop k ?ranked"
    by (simp_all add: select_reliable_def Let_def)
  have app: "reliable @ remaining = ?ranked" by (simp add: r)
  have "set (reliable @ remaining) = set (loader_dataset loader)"
    by (simp only: app) simp
  then show "set reliable \<union> set remaining = set (loader_dataset loader)" by simp
  show "length reliable = min k (length (loader_dataset loader))" by (simp add: r)
  show "length remaining = length (loader_dataset loader) - length reliable" by (simp add: r)
  assume "distinct (loader_dataset loader)"
  then have "distinct (reliable @ remaining)" by (simp only: app) simp
  then show "set reliable \<inter> set remaining = {} \<and> distinct reliable \<and> distinct remaining"
    by auto
qed

section \<open>The stage orchestrator: lemmas\<close>

lemma raised_and_then:
  "raised (and_then r f) =
     (case r of Raise e w \<Rightarrow> Some e | Return x w \<Rightarrow> raised (f x w))"
  by (cases r) simp_all

lemma and_then_never_returns:
  "(\<And>x w. raised (f x w) \<noteq> None) \<Longrightarrow> raised (and_then r f) \<noteq> None"
  by (cases r) simp_all

lemma read_train_dataset_NameError: "read_train_dataset = Inl (NameError ''train_dataset'')"
  by (simp add: read_train_dataset_def resolve_in_main_def main_locals_def module_globals_def)

lemma stage_3_raises:
  "stage_3 args reliable w =
     Raise (NameError ''train_dataset'')
       (print (banner ''Total stage 3/6: Concat train_dataset reliable_dataset'') w)"
  by (simp add: stage_3_def read_train_dataset_NameError)

lemma fold_head_never_returns: "raised (fold_head X I args S k tr va m t w) \<noteq> None"
  unfolding fold_head_def
  apply (rule and_then_never_returns)
  apply (simp only: split_paired_all case_prod_conv)
  apply (rule and_then_never_returns)
  apply (simp only: split_paired_all case_prod_conv)
  apply (simp only: stage_3_raises and_then.simps raised.simps)
  apply simp
  done

lemma main_fold_never_returns: "raised (main_fold X I args S k tr va m t w) \<noteq> None"
proof -
  obtain e w' where "fold_head X I args S k tr va m t w = Raise e w'"
    using fold_head_never_returns [of X I args S k tr va m t w]
    by (cases "fold_head X I args S k tr va m t w") simp_all
  then show ?thesis by (simp add: main_fold_def)
qed

text \<open>
  Claim C7, on the code: stage 3 reads the name \<^verbatim>\<open>train_dataset\<close>, which nothing in
  \<^verbatim>\<open>main\<close> or in the module binds, and raises \<open>NameError\<close> whatever it is given; so no
  fold gets past stage 3 without an exception.
\<close>

theorem stage_3_raises_NameError:
  "stage_3 args reliable w =
     Raise (NameError ''train_dataset'')
       (print (banner ''Total stage 3/6: Concat train_dataset reliable_dataset'') w) \<and>
   raised (main_fold X I args S k train_ids valid_ids m t w') \<noteq> None"
  by (simp only: stage_3_raises main_fold_never_returns simp_thms)

lemma main_never_finishes:
  "kfold_split I \<noteq> [] \<Longrightarrow> raised (main X I args w) \<noteq> None"
proof -
  assume "kfold_split I \<noteq> []"
  then obtain tr va rest where f: "kfold_split I = (tr, va) # rest"
    by (cases "kfold_split I") auto
  have "raised (for_folds (main_fold X I args S) k ((tr, va) # rest) m t w1) \<noteq> None"
    for S k m t w1
  proof -
    obtain e w2 where "main_fold X I args S k tr va m t w1 = Raise e w2"
      using main_fold_never_returns [of X I args S k tr va m t w1]
      by (cases "main_fold X I args S k tr va m t w1") simp_all
    then show ?thesis by simp
  qed
  then show ?thesis
    unfolding main_def f by (intro and_then_never_returns)
qed

section \<open>Loading checkpoints: lemmas\<close>

lemma torch_load_None:
  "files w path = None \<Longrightarrow> torch_load path w = Raise (FileNotFoundError path) w"
  by (simp add: torch_load_def)

lemma torch_load_Some:
  "files w path = Some n \<Longrightarrow>
     torch_load path w =
       Return (next_ref w) (w\<lparr>heap := (heap w)(next_ref w := n), next_ref := Suc (next_ref w)\<rparr>)"
  by (simp add: torch_load_def)

lemma load_pretrained_model_missing_student:
  assumes "files w (p @ str_int e @ ''-s.pth'') = None"
  shows "raised (load_pretrained_model p e w) = Some (FileNotFoundError (p @ str_int e @ ''-s.pth''))"
  using assms by (simp add: load_pretrained_model_def Let_def torch_load_None)

lemma load_pretrained_model_missing_teacher:
  assumes "files w (p @ str_int e @ ''-s.pth'') = Some n"
    and "files w (p @ str_int (e - 10) @ ''-s.pth'') = None"
  shows "raised (load_pretrained_model p e w)
           = Some (FileNotFoundError (p @ str_int (e - 10) @ ''-s.pth''))"
  using assms by (simp add: load_pretrained_model_def Let_def torch_load_Some torch_load_None)

lemma load_pretrained_model_found:
  assumes "files w (p @ str_int e @ ''-s.pth'') = Some n"
    and "files w (p @ str_int (e - 10) @ ''-s.pth'') = Some n'"
  shows "load_pretrained_model p e w =
     Return (next_ref w, Suc (next_ref w))
       (w\<lparr>heap := (heap w)(next_ref w := n, Suc (next_ref w) := n'),
          next_ref := Suc (Suc (next_ref w)),
          events := events w @ [Print (''model_path:  '' @ p @ str_int e @ ''-s.pth''),
                                Print (''teacher_model_path:  '' @ p @ str_int (e - 10) @ ''-s.pth''),
                                Print []]\<rparr>)"
  using assms
  by (simp add: load_pretrained_model_def Let_def torch_load_Some print_def)

lemma load_pretrained_model_Return:
  assumes "load_pretrained_model p e w = Return (m, t) w'"
  shows "m = next_ref w" and "t = Suc (next_ref w)"
    and "files w (p @ str_int e @ ''-s.pth'') = Some (heap w' m)"
    and "files w (p @ str_int (e - 10) @ ''-s.pth'') = Some (heap w' t)"
    and "\<forall>r. r < next_ref w \<longrightarrow> heap w' r = heap w r"
    and "next_ref w' = Suc (Suc (next_ref w))"
    and "files w' = files w" and "csv w' = csv w"
proof -
  obtain n where n: "files w (p @ str_int e @ ''-s.pth'') = Some n"
    using assms load_pretrained_model_missing_student [of w p e]
    by (cases "files w (p @ str_int e @ ''-s.pth'')") auto
  obtain n' where n': "files w (p @ str_int (e - 10) @ ''-s.pth'') = Some n'"
    using assms load_pretrained_model_missing_teacher [OF n, of]
    by (cases "files w (p @ str_int (e - 10) @ ''-s.pth'')") auto
  define W where "W = w\<lparr>heap := (heap w)(next_ref w := n, Suc (next_ref w) := n'),
          next_ref := Suc (Suc (next_ref w)),
          events := events w @ [Print (''model_path:  '' @ p @ str_int e @ ''-s.pth''),
                                Print (''teacher_model_path:  '' @ p @ str_int (e - 10) @ ''-s.pth''),
                                Print []]\<rparr>"
  have "load_pretrained_model p e w = Return (next_ref w, Suc (next_ref w)) W"
    unfolding W_def by (rule load_pretrained_model_found [OF n n'])
  with assms have r: "m = next_ref w" "t = Suc (next_ref w)" "w' = W" by simp_all
  have W: "heap W = (heap w)(next_ref w := n, Suc (next_ref w) := n')"
    "next_ref W = Suc (Suc (next_ref w))" "files W = files w" "csv W = csv w"
    by (simp_all add: W_def)
  show "m = next_ref w" "t = Suc (next_ref w)" by (rule r)+
  show "files w (p @ str_int e @ ''-s.pth'') = Some (heap w' m)" by (simp add: r W n)
  show "files w (p @ str_int (e - 10) @ ''-s.pth'') = Some (heap w' t)" by (simp add: r W n')
  show "\<forall>r. r < next_ref w \<longrightarrow> heap w' r = heap w r" by (simp add: r W)
  show "next_ref w' = Suc (Suc (next_ref w))" by (simp add: r W)
  show "files w' = files w" "csv w' = csv w" by (simp_all add: r W)
qed

section \<open>The example inputs: lemmas\<close>

lemma str_int_examples:
  "str_int 100 = ''100''" "str_int (100 - 10) = ''90''" "str_int 90 = ''90''"
  "str_int 14 = ''14''" "str_int 0 = ''0''"
  by (simp_all add: str_int_def str_nat.simps)

lemma output_model_path_example: "output_model_path example_cli = ''output/14-0''"
  by (simp add: output_model_path_def example_cli_def str_int_examples)

lemma example_cli_fields [simp]:
  "arg_batch_size example_cli = 16" "arg_save_interval example_cli = 2"
  "arg_ContrastiveWeights example_cli = 0"
  by (simp_all add: example_cli_def)

lemma example_files_lookup:
  "example_files ''output/14-0/model_supervised-Pretraining_100-s.pth'' = Some (example_net [5])"
  "example_files ''output/14-0/model_supervised-Pretraining_90-s.pth'' = Some (example_net [7])"
  "example_files ''output/14-0/model_SSL-reliable-st1_100-s.pth'' = Some (example_net [6])"
  "example_files ''output/14-0/model_SSL-reliable-st1_90-s.pth'' = Some (example_net [8])"
  by (simp_all add: example_files_def)

lemma example_world_fields [simp]:
  "files example_world = example_files" "csv example_world = []" "events example_world = []"
  "next_ref example_world = 2"
  "files empty_disk_world = Map.empty" "csv empty_disk_world = []"
  "events empty_disk_world = []" "next_ref empty_disk_world = 2"
  by (simp_all add: example_world_def empty_disk_world_def)

section \<open>The teacher's parameters: lemmas\<close>

lemma new_network_simps:
  "fst (new_network n w) = next_ref w"
  "heap (snd (new_network n w)) = (heap w)(next_ref w := n)"
  "next_ref (snd (new_network n w)) = Suc (next_ref w)"
  "files (snd (new_network n w)) = files w"
  "csv (snd (new_network n w)) = csv w"
  "events (snd (new_network n w)) = events w"
  by (simp_all add: new_network_def)

lemma set_requires_grad_simps [simp]:
  "heap (set_requires_grad r b w) = (heap w)(r := (heap w r)\<lparr>requires_grad := b\<rparr>)"
  "next_ref (set_requires_grad r b w) = next_ref w"
  "files (set_requires_grad r b w) = files w"
  "csv (set_requires_grad r b w) = csv w"
  "events (set_requires_grad r b w) = events w"
  by (simp_all add: set_requires_grad_def)

lemma main_setup_cases:
  "main_setup I args w =
     (if arg_batch_size args \<le> 0
      then Raise ValueError
        (w\<lparr>heap := (heap w)(next_ref w := student_init I,
                Suc (next_ref w) := (teacher_init I)\<lparr>requires_grad := False,
                                      params := params (student_init I)\<rparr>),
            next_ref := Suc (Suc (next_ref w))\<rparr>)
      else Return \<lparr>student = next_ref w, teacher = Suc (next_ref w),
                    optimizer_pretrain = next_ref w, optimizer_ssl = next_ref w,
                    unlabeled_loader =
                      \<lparr>loader_dataset = unlabeled_dataset I,
                       loader_batches = full_batches (nat (arg_batch_size args))
                         (unlabeled_dataset I)\<rparr>\<rparr>
        (w\<lparr>heap := (heap w)(next_ref w := student_init I,
                Suc (next_ref w) := (teacher_init I)\<lparr>requires_grad := False,
                                      params := params (student_init I)\<rparr>),
            next_ref := Suc (Suc (next_ref w))\<rparr>))"
  by (simp add: main_setup_def new_network_def set_requires_grad_def set_params_def
      DataLoader_def Let_def)

lemma main_setup_Return:
  assumes "value_of (main_setup I args w) = Some S"
  shows "student S = next_ref w" and "teacher S = Suc (next_ref w)"
    and "optimizer_pretrain S = student S" and "optimizer_ssl S = student S"
    and "\<not> requires_grad (heap (world_of (main_setup I args w)) (teacher S))"
    and "params (heap (world_of (main_setup I args w)) (teacher S)) = params (student_init I)"
    and "next_ref (world_of (main_setup I args w)) = Suc (Suc (next_ref w))"
    and "DataLoader (unlabeled_dataset I) (arg_batch_size args)
           = Inr (loader_batches (unlabeled_loader S))"
    and "loader_dataset (unlabeled_loader S) = unlabeled_dataset I"
  using assms
  by (auto simp: main_setup_cases DataLoader_def split: if_splits)

lemma params_train_step_teacher:
  assumes "optimizer a \<noteq> teacher_model a" and "model a \<noteq> teacher_model a"
  shows "params (heap (world_of (train_step X a c b w)) (teacher_model a)) =
     (if raised (train_step X a c b w) = None
      then ema_update (params (heap (world_of (train_step X a c b w)) (model a)))
             (params (heap w (teacher_model a)))
      else params (heap w (teacher_model a)))"
  using assms
  by (simp add: train_step_cases teacher_ema_def apply_optimizer_def contrast_embedding_phase
      split: sum.splits)

lemma params_validate:
  "params (heap (world_of (validate X m l w)) r) = params (heap w r)"
  by (simp add: validate_def Let_def)

lemma params_train_epoch:
  "params (heap (world_of (train_epoch X a i w)) r) =
     params (heap (world_of (train_batches X a (i + 1) (train_loader a) (0, 0, 0, None) w)) r)"
proof (cases "train_batches X a (i + 1) (train_loader a) (0, 0, 0, None) w")
  case (Raise e w1)
  then show ?thesis by (simp add: train_epoch_def)
next
  case (Return acc w1)
  obtain el es ec wt where acc: "acc = (el, es, ec, wt)" by (cases acc) auto
  show ?thesis
  proof (cases "validate X (model a) (val_loader a) w1")
    case (Raise e w2)
    with params_validate [of X "model a" "val_loader a" w1 r] Return acc show ?thesis
      by (simp add: train_epoch_def Let_def)
  next
    case v: (Return vl w2)
    with params_validate [of X "model a" "val_loader a" w1 r]
    have "params (heap w2 r) = params (heap w1 r)" by simp
    with Return acc v show ?thesis
      by (cases wt) (simp_all add: train_epoch_def Let_def)
  qed
qed

lemma ema_steps_Cons:
  "ema_steps X st (b # bs) p = ema_steps X st bs (ema_steps X st [b] p)"
  by (cases p) (simp add: Let_def)

lemma ema_steps_append:
  "ema_steps X st (xs @ ys) p = ema_steps X st ys (ema_steps X st xs p)"
proof (induction xs arbitrary: p)
  case Nil
  show ?case by (cases p) simp
next
  case (Cons x xs)
  obtain s t where p: "p = (s, t)" by (cases p) auto
  show ?case by (simp add: p Let_def Cons.IH)
qed

lemma train_step_parameters:
  assumes "optimizer a \<noteq> teacher_model a" and "model a \<noteq> teacher_model a"
  shows "parameters_of a (world_of (train_step X a c b w)) =
     (if raised (train_step X a c b w) = None
      then ema_steps X (optimizer a = model a) [b] (parameters_of a w)
      else parameters_of a w)"
  using assms
  by (simp add: train_step_cases teacher_ema_def apply_optimizer_def contrast_embedding_phase
      parameters_of_def Let_def split: sum.splits)

lemma train_batches_parameters:
  assumes "optimizer a \<noteq> teacher_model a" and "model a \<noteq> teacher_model a"
  shows "\<exists>k. k \<le> length bs \<and>
     parameters_of a (world_of (train_batches X a c bs acc w)) =
       ema_steps X (optimizer a = model a) (take k bs) (parameters_of a w) \<and>
     (raised (train_batches X a c bs acc w) = None \<longrightarrow> k = length bs)"
proof (induction bs arbitrary: acc w)
  case Nil
  show ?case by (cases "parameters_of a w") simp
next
  case (Cons b bs)
  obtain al as ac aw where acc: "acc = (al, as, ac, aw)" by (cases acc) auto
  note st = train_step_parameters [OF assms, of X c b w]
  show ?case
  proof (cases "train_step X a c b w")
    case (Raise e w')
    with st have "parameters_of a w' = parameters_of a w" by simp
    with Raise have "0 \<le> length (b # bs) \<and>
        parameters_of a (world_of (train_batches X a c (b # bs) acc w)) =
          ema_steps X (optimizer a = model a) (take 0 (b # bs)) (parameters_of a w) \<and>
        (raised (train_batches X a c (b # bs) acc w) = None \<longrightarrow> 0 = length (b # bs))"
      by (cases "parameters_of a w") (simp add: acc)
    then show ?thesis by (rule exI)
  next
    case (Return v w')
    obtain l s cc wt where v: "v = (l, s, cc, wt)" by (cases v) auto
    from st Return have p: "parameters_of a w'
        = ema_steps X (optimizer a = model a) [b] (parameters_of a w)"
      by simp
    from Return v have tb: "train_batches X a c (b # bs) acc w
        = train_batches X a c bs (al + l, as + s, ac + cc, Some wt) w'"
      by (simp add: acc)
    from Cons.IH [of "(al + l, as + s, ac + cc, Some wt)" w']
    obtain k where kk: "k \<le> length bs \<and>
      parameters_of a (world_of (train_batches X a c bs (al + l, as + s, ac + cc, Some wt) w'))
         = ema_steps X (optimizer a = model a) (take k bs) (parameters_of a w') \<and>
      (raised (train_batches X a c bs (al + l, as + s, ac + cc, Some wt) w') = None
         \<longrightarrow> k = length bs)" ..
    note k = kk [THEN conjunct1] kk [THEN conjunct2, THEN conjunct1]
      kk [THEN conjunct2, THEN conjunct2]
    have e: "ema_steps X (optimizer a = model a) (take (Suc k) (b # bs)) (parameters_of a w)
        = ema_steps X (optimizer a = model a) (take k bs) (parameters_of a w')"
      by (simp only: take_Suc_Cons ema_steps_Cons [of X _ b "take k bs"] p)
    from k e have "Suc k \<le> length (b # bs) \<and>
        parameters_of a (world_of (train_batches X a c (b # bs) acc w)) =
          ema_steps X (optimizer a = model a) (take (Suc k) (b # bs)) (parameters_of a w) \<and>
        (raised (train_batches X a c (b # bs) acc w) = None \<longrightarrow> Suc k = length (b # bs))"
      by (simp only: tb) simp
    then show ?thesis by (rule exI)
  qed
qed

lemma parameters_train_epoch:
  "parameters_of a (world_of (train_epoch X a i w)) =
     parameters_of a (world_of (train_batches X a (i + 1) (train_loader a) (0, 0, 0, None) w))"
  by (simp only: parameters_of_def params_train_epoch)

lemma train_epoch_needs_batches:
  "raised (train_epoch X a i w) = None \<Longrightarrow>
     raised (train_batches X a (i + 1) (train_loader a) (0, 0, 0, None) w) = None"
  by (cases "train_batches X a (i + 1) (train_loader a) (0, 0, 0, None) w")
     (simp_all add: train_epoch_def)

lemma train_epoch_parameters:
  assumes "optimizer a \<noteq> teacher_model a" and "model a \<noteq> teacher_model a"
  shows "\<exists>k. k \<le> length (train_loader a) \<and>
     parameters_of a (world_of (train_epoch X a i w)) =
       ema_steps X (optimizer a = model a) (take k (train_loader a)) (parameters_of a w) \<and>
     (raised (train_epoch X a i w) = None \<longrightarrow> k = length (train_loader a))"
proof -
  from train_batches_parameters [OF assms, of "train_loader a" X "i + 1" "(0, 0, 0, None)" w]
  obtain k where kk: "k \<le> length (train_loader a) \<and>
    parameters_of a (world_of (train_batches X a (i + 1) (train_loader a) (0, 0, 0, None) w))
       = ema_steps X (optimizer a = model a) (take k (train_loader a)) (parameters_of a w) \<and>
    (raised (train_batches X a (i + 1) (train_loader a) (0, 0, 0, None) w) = None
       \<longrightarrow> k = length (train_loader a))" ..
  note k = kk [THEN conjunct1] kk [THEN conjunct2, THEN conjunct1]
    kk [THEN conjunct2, THEN conjunct2]
  have imp: "raised (train_epoch X a i w) = None \<longrightarrow> k = length (train_loader a)"
    using k(3) train_epoch_needs_batches [of X a i w] by simp
  have mid: "parameters_of a (world_of (train_epoch X a i w)) =
       ema_steps X (optimizer a = model a) (take k (train_loader a)) (parameters_of a w)"
    by (simp only: parameters_train_epoch k(2))
  have "k \<le> length (train_loader a) \<and>
     parameters_of a (world_of (train_epoch X a i w)) =
       ema_steps X (optimizer a = model a) (take k (train_loader a)) (parameters_of a w) \<and>
     (raised (train_epoch X a i w) = None \<longrightarrow> k = length (train_loader a))"
    by (rule conjI [OF k(1) conjI [OF mid imp]])
  then show ?thesis by (rule exI)
qed

lemma train_epochs_parameters:
  assumes "optimizer a \<noteq> teacher_model a" and "model a \<noteq> teacher_model a"
  shows "\<exists>k. k \<le> length (concat (map (\<lambda>i. train_loader a) js)) \<and>
     parameters_of a (world_of (train_epochs X a js w)) =
       ema_steps X (optimizer a = model a) (take k (concat (map (\<lambda>i. train_loader a) js)))
         (parameters_of a w) \<and>
     (raised (train_epochs X a js w) = None \<longrightarrow>
        k = length (concat (map (\<lambda>i. train_loader a) js)))"
proof (induction js arbitrary: w)
  case Nil
  show ?case by (cases "parameters_of a w") simp
next
  case (Cons j js)
  let ?l = "train_loader a"
  let ?rest = "concat (map (\<lambda>i. train_loader a) js)"
  from train_epoch_parameters [OF assms, of X j w]
  obtain k where kk: "k \<le> length ?l \<and>
    parameters_of a (world_of (train_epoch X a j w)) =
       ema_steps X (optimizer a = model a) (take k ?l) (parameters_of a w) \<and>
    (raised (train_epoch X a j w) = None \<longrightarrow> k = length ?l)" ..
  note k = kk [THEN conjunct1] kk [THEN conjunct2, THEN conjunct1]
    kk [THEN conjunct2, THEN conjunct2]
  show ?case
  proof (cases "train_epoch X a j w")
    case (Raise e w')
    with k have "k \<le> length (concat (map (\<lambda>i. train_loader a) (j # js))) \<and>
        parameters_of a (world_of (train_epochs X a (j # js) w)) =
          ema_steps X (optimizer a = model a)
            (take k (concat (map (\<lambda>i. train_loader a) (j # js)))) (parameters_of a w) \<and>
        (raised (train_epochs X a (j # js) w) = None \<longrightarrow>
           k = length (concat (map (\<lambda>i. train_loader a) (j # js))))"
      by simp
    then show ?thesis by (rule exI)
  next
    case (Return u w')
    with k have full: "parameters_of a w'
        = ema_steps X (optimizer a = model a) ?l (parameters_of a w)"
      by simp
    from Return have te: "train_epochs X a (j # js) w = train_epochs X a js w'" by simp
    from Cons.IH [of w']
    obtain k2 where kk2: "k2 \<le> length ?rest \<and>
      parameters_of a (world_of (train_epochs X a js w')) =
         ema_steps X (optimizer a = model a) (take k2 ?rest) (parameters_of a w') \<and>
      (raised (train_epochs X a js w') = None \<longrightarrow> k2 = length ?rest)" ..
    note k2 = kk2 [THEN conjunct1] kk2 [THEN conjunct2, THEN conjunct1]
      kk2 [THEN conjunct2, THEN conjunct2]
    have e: "ema_steps X (optimizer a = model a)
          (take (length ?l + k2) (concat (map (\<lambda>i. train_loader a) (j # js))))
          (parameters_of a w)
        = ema_steps X (optimizer a = model a) (take k2 ?rest) (parameters_of a w')"
      by (simp add: ema_steps_append full)
    from k2 e have "length ?l + k2 \<le> length (concat (map (\<lambda>i. train_loader a) (j # js))) \<and>
        parameters_of a (world_of (train_epochs X a (j # js) w)) =
          ema_steps X (optimizer a = model a)
            (take (length ?l + k2) (concat (map (\<lambda>i. train_loader a) (j # js))))
            (parameters_of a w) \<and>
        (raised (train_epochs X a (j # js) w) = None \<longrightarrow>
           length ?l + k2 = length (concat (map (\<lambda>i. train_loader a) (j # js))))"
      by (simp only: te) simp
    then show ?thesis by (rule exI)
  qed
qed

lemma train_parameters:
  assumes "optimizer a \<noteq> teacher_model a" and "model a \<noteq> teacher_model a"
  shows "\<exists>k. k \<le> length (batches_of_run a) \<and>
     parameters_of a (world_of (train X a w)) =
       ema_steps X (optimizer a = model a) (take k (batches_of_run a)) (parameters_of a w) \<and>
     (raised (train X a w) = None \<longrightarrow> k = length (batches_of_run a))"
proof -
  let ?js = "[start_epochs a .. end_epochs a - 1]"
  have w: "world_of (train X a w) = world_of (train_epochs X a ?js w)"
    "raised (train X a w) = raised (train_epochs X a ?js w)"
    by (cases "train_epochs X a ?js w"; simp add: train_def)+
  from train_epochs_parameters [OF assms, of ?js X w] show ?thesis
    by (simp only: w batches_of_run_def)
qed

lemma train_Return_parameters:
  assumes "optimizer a \<noteq> teacher_model a" and "model a \<noteq> teacher_model a"
    and "train X a w = Return r w'"
  shows "parameters_of a w' = ema_steps X (optimizer a = model a) (batches_of_run a)
           (parameters_of a w)"
proof -
  from train_parameters [OF assms(1,2), of X w] assms(3) show ?thesis by auto
qed

lemma batches_of_run_replicate:
  "batches_of_run a
     = concat (replicate (nat (end_epochs a - start_epochs a)) (train_loader a))"
  by (simp add: batches_of_run_def map_replicate_const)

lemma example_setup_value:
  "value_of example_setup =
     Some \<lparr>student = 2, teacher = 3, optimizer_pretrain = 2, optimizer_ssl = 2,
            unlabeled_loader =
              \<lparr>loader_dataset = [0, 1, 2, 3, 4], loader_batches = []\<rparr>\<rparr>"
  "heap (world_of example_setup) =
     (heap example_world)(2 := example_net [2],
        3 := \<lparr>params = [2], requires_grad = False, contrast = False\<rparr>)"
  "next_ref (world_of example_setup) = 4"
  "files (world_of example_setup) = example_files"
  "csv (world_of example_setup) = []"
  by (simp_all add: example_setup_def main_setup_cases example_inputs_def example_net_def
      full_batches.simps numeral_2_eq_2 numeral_3_eq_3 eval_nat_numeral)

lemma stage_2_example_paths:
  "output_model_path example_cli @ ''/model_supervised-Pretraining_'' @ str_int 100 @ ''-s.pth''
     = ''output/14-0/model_supervised-Pretraining_100-s.pth''"
  "output_model_path example_cli @ ''/model_supervised-Pretraining_'' @ str_int (100 - 10)
     @ ''-s.pth'' = ''output/14-0/model_supervised-Pretraining_90-s.pth''"
  "''output/14-0/model_supervised-Pretraining_'' @ str_int 100 @ ''-s.pth''
     = ''output/14-0/model_supervised-Pretraining_100-s.pth''"
  "''output/14-0/model_supervised-Pretraining_'' @ str_int (100 - 10) @ ''-s.pth''
     = ''output/14-0/model_supervised-Pretraining_90-s.pth''"
  by (simp_all add: output_model_path_example str_int_examples)

lemma load_example:
  "load_pretrained_model ''output/14-0/model_supervised-Pretraining_'' 100 example_world
     = Return (2, 3)
         (world_of (load_pretrained_model ''output/14-0/model_supervised-Pretraining_'' 100
            example_world))"
  "heap (world_of (load_pretrained_model ''output/14-0/model_supervised-Pretraining_'' 100
            example_world)) 3 = example_net [7]"
proof -
  have a: "files example_world (''output/14-0/model_supervised-Pretraining_'' @ str_int 100
      @ ''-s.pth'') = Some (example_net [5])"
    by (simp only: stage_2_example_paths example_world_fields example_files_lookup)
  have b: "files example_world (''output/14-0/model_supervised-Pretraining_''
      @ str_int (100 - 10) @ ''-s.pth'') = Some (example_net [7])"
    by (simp only: stage_2_example_paths example_world_fields example_files_lookup)
  note f = load_pretrained_model_found [OF a b]
  show "load_pretrained_model ''output/14-0/model_supervised-Pretraining_'' 100 example_world
     = Return (2, 3)
         (world_of (load_pretrained_model ''output/14-0/model_supervised-Pretraining_'' 100
            example_world))"
    by (simp add: f)
  show "heap (world_of (load_pretrained_model ''output/14-0/model_supervised-Pretraining_'' 100
            example_world)) 3 = example_net [7]"
    by (simp add: f)
qed

lemma stage_2_found:
  assumes n: "files w (output_model_path args @ ''/model_supervised-Pretraining_''
              @ str_int 100 @ ''-s.pth'') = Some n"
    and n': "files w (output_model_path args @ ''/model_supervised-Pretraining_''
              @ str_int (100 - 10) @ ''-s.pth'') = Some n'"
  shows "value_of (stage_2 I args S w) =
           Some (next_ref w, Suc (next_ref w),
                 fst (select_reliable (confidence I n n') (reliable_count I) (unlabeled_loader S)),
                 snd (select_reliable (confidence I n n') (reliable_count I) (unlabeled_loader S)))"
    and "heap (world_of (stage_2 I args S w)) = (heap w)(next_ref w := n, Suc (next_ref w) := n')"
    and "csv (world_of (stage_2 I args S w)) = csv w"
    and "files (world_of (stage_2 I args S w)) = files w"
proof -
  let ?p = "output_model_path args @ ''/model_supervised-Pretraining_''"
  define w1 where "w1 = print (banner
      ''Total stage 2/6: Select reliable images for the 1st stage re-training'') w"
  have w1: "files w1 = files w" "csv w1 = csv w" "heap w1 = heap w" "next_ref w1 = next_ref w"
    by (simp_all add: w1_def)
  define w2 where "w2 = w1\<lparr>heap := (heap w1)(next_ref w1 := n, Suc (next_ref w1) := n'),
          next_ref := Suc (Suc (next_ref w1)),
          events := events w1 @ [Print (''model_path:  '' @ ?p @ str_int 100 @ ''-s.pth''),
                                Print (''teacher_model_path:  '' @ ?p @ str_int (100 - 10) @ ''-s.pth''),
                                Print []]\<rparr>"
  have ld: "load_pretrained_model ?p 100 w1 = Return (next_ref w1, Suc (next_ref w1)) w2"
    unfolding w2_def
    by (rule load_pretrained_model_found) (simp_all only: w1 n n' append_assoc)
  have w2: "files w2 = files w" "csv w2 = csv w"
    "heap w2 = (heap w)(next_ref w := n, Suc (next_ref w) := n')"
    by (simp_all add: w2_def w1)
  have h: "heap w2 (next_ref w) = n" "heap w2 (Suc (next_ref w)) = n'"
    by (simp_all add: w2)
  have st: "stage_2 I args S w =
      and_then (load_pretrained_model ?p 100 w1) (\<lambda>(m, t) w2.
         let (reliable_dataset, remaining_dataset) =
               select_reliable (confidence I (heap w2 m) (heap w2 t)) (reliable_count I)
                 (unlabeled_loader S);
             w3 = log_event SelectReliable w2;
             w4 = print (''reliable_dataset: '' @ str_int (int (length reliable_dataset))) w3;
             w5 = print (''remaining_dataset: '' @ str_int (int (length remaining_dataset))) w4
         in Return (m, t, reliable_dataset, remaining_dataset) w5)"
    by (simp add: stage_2_def Let_def w1_def)
  obtain rel rem where sel: "select_reliable (confidence I n n') (reliable_count I)
      (unlabeled_loader S) = (rel, rem)"
    by (cases "select_reliable (confidence I n n') (reliable_count I) (unlabeled_loader S)")
  have r: "stage_2 I args S w = Return (next_ref w, Suc (next_ref w), rel, rem)
      (print (''remaining_dataset: '' @ str_int (int (length rem)))
         (print (''reliable_dataset: '' @ str_int (int (length rel)))
            (log_event SelectReliable w2)))"
    by (simp add: st ld h sel w1)
  show "value_of (stage_2 I args S w) =
           Some (next_ref w, Suc (next_ref w),
                 fst (select_reliable (confidence I n n') (reliable_count I) (unlabeled_loader S)),
                 snd (select_reliable (confidence I n n') (reliable_count I) (unlabeled_loader S)))"
    by (simp add: r sel)
  show "heap (world_of (stage_2 I args S w)) = (heap w)(next_ref w := n, Suc (next_ref w) := n')"
    by (simp add: r w2)
  show "csv (world_of (stage_2 I args S w)) = csv w" by (simp add: r w2)
  show "files (world_of (stage_2 I args S w)) = files w" by (simp add: r w2)
qed

lemma example_stage_2_value:
  "value_of example_stage_2 =
     Some (4, 5,
       fst (select_reliable (confidence example_inputs (example_net [5]) (example_net [7]))
              (reliable_count example_inputs)
              \<lparr>loader_dataset = [0, 1, 2, 3, 4], loader_batches = []\<rparr>),
       snd (select_reliable (confidence example_inputs (example_net [5]) (example_net [7]))
              (reliable_count example_inputs)
              \<lparr>loader_dataset = [0, 1, 2, 3, 4], loader_batches = []\<rparr>))"
  "heap (world_of example_stage_2) =
     (heap (world_of example_setup))(4 := example_net [5], 5 := example_net [7])"
  "csv (world_of example_stage_2) = []"
proof -
  let ?S = "the (value_of example_setup)"
  have a: "files (world_of example_setup) (output_model_path example_cli
      @ ''/model_supervised-Pretraining_'' @ str_int 100 @ ''-s.pth'') = Some (example_net [5])"
    by (simp only: stage_2_example_paths example_setup_value example_files_lookup)
  have b: "files (world_of example_setup) (output_model_path example_cli
      @ ''/model_supervised-Pretraining_'' @ str_int (100 - 10) @ ''-s.pth'')
      = Some (example_net [7])"
    by (simp only: stage_2_example_paths example_setup_value example_files_lookup)
  note f = stage_2_found [OF a b, of example_inputs ?S]
  have l: "unlabeled_loader ?S = \<lparr>loader_dataset = [0, 1, 2, 3, 4], loader_batches = []\<rparr>"
    by (simp add: example_setup_value)
  from f(1) show "value_of example_stage_2 =
     Some (4, 5,
       fst (select_reliable (confidence example_inputs (example_net [5]) (example_net [7]))
              (reliable_count example_inputs)
              \<lparr>loader_dataset = [0, 1, 2, 3, 4], loader_batches = []\<rparr>),
       snd (select_reliable (confidence example_inputs (example_net [5]) (example_net [7]))
              (reliable_count example_inputs)
              \<lparr>loader_dataset = [0, 1, 2, 3, 4], loader_batches = []\<rparr>))"
    by (simp add: example_stage_2_def example_setup_value l)
  from f(2) show "heap (world_of example_stage_2) =
     (heap (world_of example_setup))(4 := example_net [5], 5 := example_net [7])"
    by (simp add: example_stage_2_def example_setup_value(3))
  from f(3) show "csv (world_of example_stage_2) = []"
    by (simp add: example_stage_2_def example_setup_value)
qed

section \<open>Where the checkpoints are written and where they are read\<close>

text \<open>
  \<open>train\<close> writes its checkpoints below \<^verbatim>\<open>fold/<fold>/\<close>, and stage 2 reads the
  checkpoint of stage 1 from the directory above. A run that starts without that file
  and completes stage 1 therefore ends in stage 2 with \<open>FileNotFoundError\<close>.
\<close>

lemma checkpoint_path_not_read:
  "checkpoint_path (output_model_path args) k stage c
     \<noteq> output_model_path args @ ''/model_supervised-Pretraining_'' @ str_int e @ ''-s.pth''"
  by (simp add: checkpoint_path_def)

lemma stage_train_args_fields [simp]:
  "save_loss_model_path (stage_train_args args S k m t loader valid_loader stage)
     = output_model_path args"
  "model (stage_train_args args S k m t loader valid_loader stage) = m"
  "teacher_model (stage_train_args args S k m t loader valid_loader stage) = t"
  "optimizer (stage_train_args args S k m t loader valid_loader stage) = optimizer_pretrain S"
  "fold_no (stage_train_args args S k m t loader valid_loader stage) = k"
  "step_name (stage_train_args args S k m t loader valid_loader stage) = stage"
  "start_epochs (stage_train_args args S k m t loader valid_loader stage) = 0"
  "end_epochs (stage_train_args args S k m t loader valid_loader stage) = 100"
  by (simp_all add: stage_train_args_def)

lemma train_keeps_unwritten_file:
  assumes "files w p = None"
    and "\<forall>c. p \<noteq> checkpoint_path (save_loss_model_path a) (fold_no a) (step_name a) c"
    and "train X a w = Return r w'"
  shows "files w' p = None"
proof -
  from train_Return(2) [OF assms(3)] assms(2) have "p \<in> dom (files w') \<longleftrightarrow> p \<in> dom (files w)"
    by blast
  with assms(1) show ?thesis by (simp add: domIff)
qed

lemma stage_1_keeps_unread_file:
  assumes "files w (output_model_path args @ ''/model_supervised-Pretraining_'' @ str_int e
     @ ''-s.pth'') = None"
    and "stage_1 X args S k train_ids valid_ids m t w = Return v w'"
  shows "files w' (output_model_path args @ ''/model_supervised-Pretraining_'' @ str_int e
     @ ''-s.pth'') = None"
proof -
  let ?p = "output_model_path args @ ''/model_supervised-Pretraining_'' @ str_int e @ ''-s.pth''"
  define w1 where "w1 = print ''--------------------------------'' (print (''FOLD '' @ str_int k) w)"
  have w1: "files w1 = files w" by (simp add: w1_def)
  have st: "stage_1 X args S k train_ids valid_ids m t w =
      and_then (lift (DataLoader train_ids (arg_batch_size args)) w1) (\<lambda>loader w2.
         and_then (lift (DataLoader valid_ids (arg_batch_size args)) w2) (\<lambda>valid_loader w3.
         and_then (train X (stage_train_args args S k m t loader valid_loader
                     ''supervised-Pretraining'') w3) (\<lambda>(m', t') w4.
         Return (valid_loader, m', t') w4)))"
    by (simp add: stage_1_def Let_def w1_def)
  show ?thesis
  proof (cases "arg_batch_size args \<le> 0")
    case True
    with st assms(2) show ?thesis by (simp add: DataLoader_def)
  next
    case False
    let ?a = "stage_train_args args S k m t (full_batches (nat (arg_batch_size args)) train_ids)
        (full_batches (nat (arg_batch_size args)) valid_ids) ''supervised-Pretraining''"
    from False st have st': "stage_1 X args S k train_ids valid_ids m t w =
        and_then (train X ?a w1) (\<lambda>(m', t') w4.
          Return (full_batches (nat (arg_batch_size args)) valid_ids, m', t') w4)"
      by (simp add: DataLoader_def)
    with assms(2) obtain r where tr: "train X ?a w1 = Return r w'"
      by (cases "train X ?a w1") (auto simp: split_beta)
    have ne: "\<forall>c. ?p \<noteq> checkpoint_path (save_loss_model_path ?a) (fold_no ?a) (step_name ?a) c"
      using checkpoint_path_not_read [of args k "''supervised-Pretraining''" _ e]
      by (simp only: stage_train_args_fields) metis
    from assms(1) have "files w1 ?p = None" by (simp only: w1)
    from train_keeps_unwritten_file [OF this ne tr] show ?thesis .
  qed
qed

lemma fresh_disk_stops_at_stage_2:
  assumes "files w (output_model_path args @ ''/model_supervised-Pretraining_'' @ str_int 100
     @ ''-s.pth'') = None"
    and "stage_1 X args S k train_ids valid_ids m t w = Return v w'"
  shows "raised (main_fold X I args S k train_ids valid_ids m t w) =
           Some (FileNotFoundError (output_model_path args @ ''/model_supervised-Pretraining_''
             @ str_int 100 @ ''-s.pth''))"
proof -
  let ?p = "output_model_path args @ ''/model_supervised-Pretraining_''"
  let ?e = "FileNotFoundError (output_model_path args @ ''/model_supervised-Pretraining_''
             @ str_int 100 @ ''-s.pth'')"
  obtain vl m1 t1 where v: "v = (vl, m1, t1)" by (cases v) auto
  define w1 where "w1 = print (banner
      ''Total stage 2/6: Select reliable images for the 1st stage re-training'') w'"
  from stage_1_keeps_unread_file [OF assms] have "files w1 (?p @ str_int 100 @ ''-s.pth'') = None"
    by (simp add: w1_def)
  from load_pretrained_model_missing_student [OF this]
  have "raised (load_pretrained_model ?p 100 w1) = Some ?e" by (simp only: append_assoc)
  then obtain w2 where ld: "load_pretrained_model ?p 100 w1 = Raise ?e w2"
    by (cases "load_pretrained_model ?p 100 w1") simp_all
  have "stage_2 I args S w' = Raise ?e w2"
    by (simp add: stage_2_def Let_def w1_def [symmetric] ld)
  then have "fold_head X I args S k train_ids valid_ids m t w = Raise ?e w2"
    by (simp add: fold_head_def assms(2) v)
  then show ?thesis by (simp add: main_fold_def)
qed

section \<open>A run of main up to stage 3: lemmas\<close>

lemma train_epoch_frame:
  "events (world_of (train_epoch X a i w)) = events w"
  "next_ref (world_of (train_epoch X a i w)) = next_ref w"
  "(\<forall>c. p \<noteq> checkpoint_path (save_loss_model_path a) (fold_no a) (step_name a) c) \<Longrightarrow>
     files (world_of (train_epoch X a i w)) p = files w p"
proof -
  let ?tb = "train_batches X a (i + 1) (train_loader a) (0, 0, 0, None) w"
  note fb = train_batches_frame [of X a "i + 1" "train_loader a" "(0, 0, 0, None)" w]
  have "events (world_of (train_epoch X a i w)) = events w \<and>
     next_ref (world_of (train_epoch X a i w)) = next_ref w \<and>
     ((\<forall>c. p \<noteq> checkpoint_path (save_loss_model_path a) (fold_no a) (step_name a) c) \<longrightarrow>
        files (world_of (train_epoch X a i w)) p = files w p)"
  proof (cases ?tb)
    case (Raise e w1)
    with fb show ?thesis by (simp add: train_epoch_def)
  next
    case (Return acc w1)
    obtain el es ec wt where acc: "acc = (el, es, ec, wt)" by (cases acc) auto
    from fb Return have f1: "files w1 = files w" "events w1 = events w" "next_ref w1 = next_ref w"
      by simp_all
    note fv = validate_frame [of X "model a" "val_loader a" w1]
    show ?thesis
    proof (cases "validate X (model a) (val_loader a) w1")
      case (Raise e w2)
      with fv f1 Return acc show ?thesis
        by (simp add: train_epoch_def Let_def)
    next
      case v: (Return vl w2)
      with fv f1 have f2: "files w2 = files w" "events w2 = events w" "next_ref w2 = next_ref w"
        by simp_all
      with Return acc v show ?thesis
        by (cases wt) (auto simp: train_epoch_def Let_def)
    qed
  qed
  then show "events (world_of (train_epoch X a i w)) = events w"
    "next_ref (world_of (train_epoch X a i w)) = next_ref w"
    "(\<forall>c. p \<noteq> checkpoint_path (save_loss_model_path a) (fold_no a) (step_name a) c) \<Longrightarrow>
       files (world_of (train_epoch X a i w)) p = files w p"
    by simp_all
qed

lemma train_epochs_frame:
  "events (world_of (train_epochs X a js w)) = events w \<and>
   next_ref (world_of (train_epochs X a js w)) = next_ref w \<and>
   ((\<forall>c. p \<noteq> checkpoint_path (save_loss_model_path a) (fold_no a) (step_name a) c) \<longrightarrow>
      files (world_of (train_epochs X a js w)) p = files w p)"
proof (induction js arbitrary: w)
  case Nil
  show ?case by simp
next
  case (Cons j js)
  note f = train_epoch_frame(1,2) [of X a j w] train_epoch_frame(3) [of p a X j w]
  show ?case
  proof (cases "train_epoch X a j w")
    case (Raise e w')
    with f show ?thesis by simp
  next
    case (Return u w')
    with f have "events w' = events w" "next_ref w' = next_ref w"
      "(\<forall>c. p \<noteq> checkpoint_path (save_loss_model_path a) (fold_no a) (step_name a) c) \<longrightarrow>
         files w' p = files w p"
      by simp_all
    with Cons.IH [of w'] Return show ?thesis by simp
  qed
qed

lemma train_frame:
  "events (world_of (train X a w)) = events w"
  "next_ref (world_of (train X a w)) = next_ref w"
  "(\<forall>c. p \<noteq> checkpoint_path (save_loss_model_path a) (fold_no a) (step_name a) c) \<Longrightarrow>
     files (world_of (train X a w)) p = files w p"
proof -
  let ?js = "[start_epochs a .. end_epochs a - 1]"
  have w: "world_of (train X a w) = world_of (train_epochs X a ?js w)"
    by (cases "train_epochs X a ?js w") (simp_all add: train_def)
  from train_epochs_frame [of X a ?js w p]
  show "events (world_of (train X a w)) = events w"
    "next_ref (world_of (train X a w)) = next_ref w"
    "(\<forall>c. p \<noteq> checkpoint_path (save_loss_model_path a) (fold_no a) (step_name a) c) \<Longrightarrow>
       files (world_of (train X a w)) p = files w p"
    by (simp_all add: w)
qed

lemma stage_1_Returns:
  assumes B: "0 < arg_batch_size args"
    and tr: "full_batches (nat (arg_batch_size args)) train_ids \<noteq> []"
    and va: "(\<Sum>imgs \<leftarrow> full_batches (nat (arg_batch_size args)) valid_ids. length imgs) \<noteq> 0"
    and si: "arg_save_interval args \<noteq> 0"
  shows "\<exists>w'. stage_1 X args S k train_ids valid_ids m t w
             = Return (full_batches (nat (arg_batch_size args)) valid_ids, m, t) w' \<and>
           events w' = events w @ [Print (''FOLD '' @ str_int k),
                                   Print ''--------------------------------''] \<and>
           next_ref w' = next_ref w \<and>
           (\<forall>e. files w' (output_model_path args @ ''/model_supervised-Pretraining_''
                   @ str_int e @ ''-s.pth'')
                 = files w (output_model_path args @ ''/model_supervised-Pretraining_''
                   @ str_int e @ ''-s.pth''))"
proof -
  define w1 where "w1 = print ''--------------------------------'' (print (''FOLD '' @ str_int k) w)"
  have w1: "files w1 = files w" "next_ref w1 = next_ref w"
    "events w1 = events w @ [Print (''FOLD '' @ str_int k), Print ''--------------------------------'']"
    by (simp_all add: w1_def)
  let ?a = "stage_train_args args S k m t (full_batches (nat (arg_batch_size args)) train_ids)
      (full_batches (nat (arg_batch_size args)) valid_ids) ''supervised-Pretraining''"
  have st: "stage_1 X args S k train_ids valid_ids m t w =
      and_then (train X ?a w1) (\<lambda>(m', t') w4.
        Return (full_batches (nat (arg_batch_size args)) valid_ids, m', t') w4)"
    using B by (simp add: stage_1_def Let_def w1_def DataLoader_def)
  have pw: "\<forall>c. start_epochs ?a < c \<and> c \<le> end_epochs ?a \<longrightarrow>
      (\<exists>pw. PatchCL_weight (step_name ?a) (ContrastiveWeights ?a) c (end_epochs ?a) = Inr pw)"
    by (simp add: stage_train_args_def PatchCL_weight_def get_dynamic_weight_100)
  have l: "train_loader ?a \<noteq> []" using tr by (simp add: stage_train_args_def)
  have v: "(\<Sum>imgs \<leftarrow> val_loader ?a. length imgs) \<noteq> 0" using va by (simp add: stage_train_args_def)
  have s: "save_interval ?a \<noteq> 0" using si by (simp add: stage_train_args_def)
  from train_Returns [OF pw l v s, of X w1]
  obtain w' where r: "train X ?a w1 = Return (model ?a, teacher_model ?a) w'" ..
  then have w': "world_of (train X ?a w1) = w'" by simp
  have ev: "events w' = events w1" "next_ref w' = next_ref w1"
    using train_frame(1,2) [of X ?a w1] by (simp_all only: w')
  have fl: "files w' (output_model_path args @ ''/model_supervised-Pretraining_''
                   @ str_int e @ ''-s.pth'')
          = files w1 (output_model_path args @ ''/model_supervised-Pretraining_''
                   @ str_int e @ ''-s.pth'')" for e
  proof -
    have ne: "\<forall>c. output_model_path args @ ''/model_supervised-Pretraining_'' @ str_int e
          @ ''-s.pth''
        \<noteq> checkpoint_path (save_loss_model_path ?a) (fold_no ?a) (step_name ?a) c"
      using checkpoint_path_not_read [of args k "''supervised-Pretraining''" _ e]
      by (simp only: stage_train_args_fields) metis
    from train_frame(3) [OF ne, of X w1] show ?thesis by (simp only: w')
  qed
  have "stage_1 X args S k train_ids valid_ids m t w
      = Return (full_batches (nat (arg_batch_size args)) valid_ids, m, t) w'"
    by (simp add: st r)
  with ev fl w1 show ?thesis by simp
qed

lemma stage_2_events:
  assumes n: "files w (output_model_path args @ ''/model_supervised-Pretraining_''
              @ str_int 100 @ ''-s.pth'') = Some n"
    and n': "files w (output_model_path args @ ''/model_supervised-Pretraining_''
              @ str_int (100 - 10) @ ''-s.pth'') = Some n'"
    and sel: "select_reliable (confidence I n n') (reliable_count I) (unlabeled_loader S)
              = (rel, rem)"
  shows "stage_2 I args S w = Return (next_ref w, Suc (next_ref w), rel, rem)
           (world_of (stage_2 I args S w))"
    and "events (world_of (stage_2 I args S w)) =
           events w @
           [Print (banner ''Total stage 2/6: Select reliable images for the 1st stage re-training''),
            Print (''model_path:  '' @ output_model_path args @ ''/model_supervised-Pretraining_''
                   @ str_int 100 @ ''-s.pth''),
            Print (''teacher_model_path:  '' @ output_model_path args
                   @ ''/model_supervised-Pretraining_'' @ str_int (100 - 10) @ ''-s.pth''),
            Print [],
            SelectReliable,
            Print (''reliable_dataset: '' @ str_int (int (length rel))),
            Print (''remaining_dataset: '' @ str_int (int (length rem)))]"
proof -
  let ?p = "output_model_path args @ ''/model_supervised-Pretraining_''"
  define w1 where "w1 = print (banner
      ''Total stage 2/6: Select reliable images for the 1st stage re-training'') w"
  have w1: "files w1 = files w" "csv w1 = csv w" "heap w1 = heap w" "next_ref w1 = next_ref w"
    "events w1 = events w @ [Print (banner
      ''Total stage 2/6: Select reliable images for the 1st stage re-training'')]"
    by (simp_all add: w1_def)
  define w2 where "w2 = w1\<lparr>heap := (heap w1)(next_ref w1 := n, Suc (next_ref w1) := n'),
          next_ref := Suc (Suc (next_ref w1)),
          events := events w1 @ [Print (''model_path:  '' @ ?p @ str_int 100 @ ''-s.pth''),
                                Print (''teacher_model_path:  '' @ ?p @ str_int (100 - 10) @ ''-s.pth''),
                                Print []]\<rparr>"
  have ld: "load_pretrained_model ?p 100 w1 = Return (next_ref w1, Suc (next_ref w1)) w2"
    unfolding w2_def
    by (rule load_pretrained_model_found) (simp_all only: w1 n n' append_assoc)
  have w2: "heap w2 = (heap w)(next_ref w := n, Suc (next_ref w) := n')"
    "events w2 = events w @ [Print (banner
        ''Total stage 2/6: Select reliable images for the 1st stage re-training''),
      Print (''model_path:  '' @ ?p @ str_int 100 @ ''-s.pth''),
      Print (''teacher_model_path:  '' @ ?p @ str_int (100 - 10) @ ''-s.pth''),
      Print []]"
    by (simp_all add: w2_def w1)
  have h: "heap w2 (next_ref w) = n" "heap w2 (Suc (next_ref w)) = n'"
    by (simp_all add: w2)
  have st: "stage_2 I args S w =
      and_then (load_pretrained_model ?p 100 w1) (\<lambda>(m, t) w2.
         let (reliable_dataset, remaining_dataset) =
               select_reliable (confidence I (heap w2 m) (heap w2 t)) (reliable_count I)
                 (unlabeled_loader S);
             w3 = log_event SelectReliable w2;
             w4 = print (''reliable_dataset: '' @ str_int (int (length reliable_dataset))) w3;
             w5 = print (''remaining_dataset: '' @ str_int (int (length remaining_dataset))) w4
         in Return (m, t, reliable_dataset, remaining_dataset) w5)"
    by (simp add: stage_2_def Let_def w1_def)
  have r: "stage_2 I args S w = Return (next_ref w, Suc (next_ref w), rel, rem)
      (print (''remaining_dataset: '' @ str_int (int (length rem)))
         (print (''reliable_dataset: '' @ str_int (int (length rel)))
            (log_event SelectReliable w2)))"
    by (simp add: st ld h sel w1)
  show "stage_2 I args S w = Return (next_ref w, Suc (next_ref w), rel, rem)
           (world_of (stage_2 I args S w))"
    by (simp add: r)
  show "events (world_of (stage_2 I args S w)) =
           events w @
           [Print (banner ''Total stage 2/6: Select reliable images for the 1st stage re-training''),
            Print (''model_path:  '' @ output_model_path args @ ''/model_supervised-Pretraining_''
                   @ str_int 100 @ ''-s.pth''),
            Print (''teacher_model_path:  '' @ output_model_path args
                   @ ''/model_supervised-Pretraining_'' @ str_int (100 - 10) @ ''-s.pth''),
            Print [],
            SelectReliable,
            Print (''reliable_dataset: '' @ str_int (int (length rel))),
            Print (''remaining_dataset: '' @ str_int (int (length rem)))]"
    by (simp add: r w2)
qed

lemma small_batch_cli_fields:
  "arg_batch_size small_batch_cli = 4" "arg_save_interval small_batch_cli = 2"
  "output_model_path small_batch_cli = ''output/14-0''"
  by (simp_all add: small_batch_cli_def example_cli_def output_model_path_def str_int_examples)

lemma small_batch_paths:
  "output_model_path small_batch_cli @ ''/model_supervised-Pretraining_'' @ str_int 100
     @ ''-s.pth'' = ''output/14-0/model_supervised-Pretraining_100-s.pth''"
  "output_model_path small_batch_cli @ ''/model_supervised-Pretraining_'' @ str_int (100 - 10)
     @ ''-s.pth'' = ''output/14-0/model_supervised-Pretraining_90-s.pth''"
  by (simp_all add: small_batch_cli_fields str_int_examples)

lemma small_batch_loaders:
  "full_batches (nat 4) [4, 5, 6, 7, 8, 9, 10, 11, 12, 13, 14, 15, 16, 17, 18, 19 :: nat]
     = [[4, 5, 6, 7], [8, 9, 10, 11], [12, 13, 14, 15], [16, 17, 18, 19]]"
  "full_batches (nat 4) [0, 1, 2, 3 :: nat] = [[0, 1, 2, 3]]"
  "full_batches (nat 4) [0, 1, 2, 3, 4 :: nat] = [[0, 1, 2, 3]]"
  by (simp_all add: full_batches.simps)

lemma five_fold_inputs_fields:
  "unlabeled_dataset five_fold_inputs = [0, 1, 2, 3, 4]"
  "student_init five_fold_inputs = example_net [2]"
  "teacher_init five_fold_inputs = example_net [1]"
  "kfold_split five_fold_inputs =
     ([4, 5, 6, 7, 8, 9, 10, 11, 12, 13, 14, 15, 16, 17, 18, 19], [0, 1, 2, 3])
       # tl (kfold_split five_fold_inputs)"
  by (simp_all add: five_fold_inputs_def example_inputs_def)

lemma small_batch_selection:
  "select_reliable (confidence five_fold_inputs n n') (reliable_count five_fold_inputs)
     \<lparr>loader_dataset = [0, 1, 2, 3, 4], loader_batches = bs\<rparr> = ([4, 3], [2, 1, 0])"
  by (simp add: select_reliable_def five_fold_inputs_def example_inputs_def)

lemma small_counts: "str_int (int (length [4, 3 :: nat])) = ''2''"
  "str_int (int (length [2, 1, 0 :: nat])) = ''3''"
  by (simp_all add: str_int_def str_nat.simps)

lemma small_batch_run:
  "raised (main X five_fold_inputs small_batch_cli example_world)
     = Some (NameError ''train_dataset'')"
  "events (world_of (main X five_fold_inputs small_batch_cli example_world)) =
     [Print (banner ''Total stage 1/6: Supervised training on labeled images (SupOnly)''),
      Print ''FOLD 0'',
      Print ''--------------------------------'',
      Print (banner ''Total stage 2/6: Select reliable images for the 1st stage re-training''),
      Print ''model_path:  output/14-0/model_supervised-Pretraining_100-s.pth'',
      Print ''teacher_model_path:  output/14-0/model_supervised-Pretraining_90-s.pth'',
      Print [],
      SelectReliable,
      Print ''reliable_dataset: 2'',
      Print ''remaining_dataset: 3'',
      Print (banner ''Total stage 3/6: Concat train_dataset reliable_dataset'')]"
proof -
  let ?args = small_batch_cli
  let ?I = five_fold_inputs
  let ?S = "\<lparr>student = 2, teacher = 3, optimizer_pretrain = 2, optimizer_ssl = 2,
            unlabeled_loader = \<lparr>loader_dataset = [0, 1, 2, 3, 4 :: nat],
                                 loader_batches = [[0, 1, 2, 3]]\<rparr>\<rparr>"
  let ?tr = "[4, 5, 6, 7, 8, 9, 10, 11, 12, 13, 14, 15, 16, 17, 18, 19 :: nat]"
  let ?va = "[0, 1, 2, 3 :: nat]"
  define w0 where "w0 = world_of (main_setup ?I ?args example_world)"
  note ui = five_fold_inputs_fields(1)
  have su: "main_setup ?I ?args example_world = Return ?S w0"
    unfolding w0_def
    by (simp only: main_setup_cases small_batch_cli_fields ui small_batch_loaders) simp
  have w0: "events w0 = []" "next_ref w0 = 4" "files w0 = example_files"
    unfolding w0_def by (simp_all add: main_setup_cases small_batch_cli_fields)
  define w1 where "w1 = print (banner
      ''Total stage 1/6: Supervised training on labeled images (SupOnly)'') w0"
  have w1: "events w1 = [Print (banner
      ''Total stage 1/6: Supervised training on labeled images (SupOnly)'')]"
    "next_ref w1 = 4" "files w1 = example_files"
    by (simp_all add: w1_def w0)
  note folds = five_fold_inputs_fields(4)
  have m: "main X ?I ?args example_world =
      for_folds (main_fold X ?I ?args ?S) 0 ((?tr, ?va) # tl (kfold_split ?I)) 2 3 w1"
    unfolding w1_def
    by (subst folds [symmetric]) (simp add: main_def su)
  have B: "0 < arg_batch_size ?args" by (simp add: small_batch_cli_fields)
  have tr: "full_batches (nat (arg_batch_size ?args)) ?tr \<noteq> []"
    by (simp only: small_batch_cli_fields small_batch_loaders) simp
  have va: "(\<Sum>imgs \<leftarrow> full_batches (nat (arg_batch_size ?args)) ?va. length imgs) \<noteq> 0"
    by (simp only: small_batch_cli_fields small_batch_loaders) simp
  have si: "arg_save_interval ?args \<noteq> 0" by (simp add: small_batch_cli_fields)
  from stage_1_Returns [OF B tr va si, of X ?S 0 2 3 w1]
  obtain w2 where s1: "stage_1 X ?args ?S 0 ?tr ?va 2 3 w1
             = Return (full_batches (nat (arg_batch_size ?args)) ?va, 2, 3) w2 \<and>
           events w2 = events w1 @ [Print (''FOLD '' @ str_int 0),
                                   Print ''--------------------------------''] \<and>
           next_ref w2 = next_ref w1 \<and>
           (\<forall>e. files w2 (output_model_path ?args @ ''/model_supervised-Pretraining_''
                   @ str_int e @ ''-s.pth'')
                 = files w1 (output_model_path ?args @ ''/model_supervised-Pretraining_''
                   @ str_int e @ ''-s.pth''))" ..
  note s1r = s1 [THEN conjunct1]
  have w2: "events w2 = [Print (banner
        ''Total stage 1/6: Supervised training on labeled images (SupOnly)''),
      Print ''FOLD 0'', Print ''--------------------------------'']"
    using s1 [THEN conjunct2, THEN conjunct1] by (simp add: w1 str_int_examples)
  have f100: "files w2 (output_model_path ?args @ ''/model_supervised-Pretraining_''
      @ str_int 100 @ ''-s.pth'') = Some (example_net [5])"
    using s1 [THEN conjunct2, THEN conjunct2, THEN conjunct2, THEN spec, of 100]
    by (simp only: w1 small_batch_paths example_files_lookup)
  have f90: "files w2 (output_model_path ?args @ ''/model_supervised-Pretraining_''
      @ str_int (100 - 10) @ ''-s.pth'') = Some (example_net [7])"
    using s1 [THEN conjunct2, THEN conjunct2, THEN conjunct2, THEN spec, of "100 - 10"]
    by (simp only: w1 small_batch_paths example_files_lookup)
  have sel: "select_reliable (confidence ?I (example_net [5]) (example_net [7]))
      (reliable_count ?I) (unlabeled_loader ?S) = ([4, 3], [2, 1, 0])"
    by (simp only: pipeline.simps small_batch_selection)
  note s2 = stage_2_events [OF f100 f90 sel]
  define w3 where "w3 = world_of (stage_2 ?I ?args ?S w2)"
  have s2r: "stage_2 ?I ?args ?S w2 = Return (next_ref w2, Suc (next_ref w2), [4, 3], [2, 1, 0]) w3"
    unfolding w3_def by (rule s2(1))
  have w3: "events w3 =
     [Print (banner ''Total stage 1/6: Supervised training on labeled images (SupOnly)''),
      Print ''FOLD 0'',
      Print ''--------------------------------'',
      Print (banner ''Total stage 2/6: Select reliable images for the 1st stage re-training''),
      Print ''model_path:  output/14-0/model_supervised-Pretraining_100-s.pth'',
      Print ''teacher_model_path:  output/14-0/model_supervised-Pretraining_90-s.pth'',
      Print [],
      SelectReliable,
      Print ''reliable_dataset: 2'',
      Print ''remaining_dataset: 3'']"
    unfolding w3_def
    by (simp only: s2(2) w2 small_counts small_batch_paths) simp
  define w4 where "w4 = print (banner ''Total stage 3/6: Concat train_dataset reliable_dataset'') w3"
  have s3: "stage_3 ?args [4, 3] w3 = Raise (NameError ''train_dataset'') w4"
    unfolding w4_def by (rule stage_3_raises)
  have fh: "fold_head X ?I ?args ?S 0 ?tr ?va 2 3 w1 = Raise (NameError ''train_dataset'') w4"
    by (simp only: fold_head_def s1r s2r s3 and_then.simps prod.case)
  then have mf: "main_fold X ?I ?args ?S 0 ?tr ?va 2 3 w1 = Raise (NameError ''train_dataset'') w4"
    by (simp only: main_fold_def and_then.simps)
  have r: "main X ?I ?args example_world = Raise (NameError ''train_dataset'') w4"
    by (simp only: m for_folds.simps mf result.case)
  show "raised (main X ?I ?args example_world) = Some (NameError ''train_dataset'')"
    by (simp add: r)
  show "events (world_of (main X ?I ?args example_world)) =
     [Print (banner ''Total stage 1/6: Supervised training on labeled images (SupOnly)''),
      Print ''FOLD 0'',
      Print ''--------------------------------'',
      Print (banner ''Total stage 2/6: Select reliable images for the 1st stage re-training''),
      Print ''model_path:  output/14-0/model_supervised-Pretraining_100-s.pth'',
      Print ''teacher_model_path:  output/14-0/model_supervised-Pretraining_90-s.pth'',
      Print [],
      SelectReliable,
      Print ''reliable_dataset: 2'',
      Print ''remaining_dataset: 3'',
      Print (banner ''Total stage 3/6: Concat train_dataset reliable_dataset'')]"
    by (simp add: r w4_def w3)
qed

lemma stage_1_parameters:
  assumes r: "stage_1 X args S k train_ids valid_ids m t w = Return v w'"
    and ot: "optimizer_pretrain S \<noteq> t" and mt: "m \<noteq> t"
  shows "params (heap w' t) =
     snd (ema_steps X (optimizer_pretrain S = m)
            (concat (replicate 100 (full_batches (nat (arg_batch_size args)) train_ids)))
            (params (heap w m), params (heap w t)))"
proof -
  define w1 where "w1 = print ''--------------------------------'' (print (''FOLD '' @ str_int k) w)"
  have w1: "heap w1 = heap w" by (simp add: w1_def)
  have st: "stage_1 X args S k train_ids valid_ids m t w =
      and_then (lift (DataLoader train_ids (arg_batch_size args)) w1) (\<lambda>loader w2.
         and_then (lift (DataLoader valid_ids (arg_batch_size args)) w2) (\<lambda>valid_loader w3.
         and_then (train X (stage_train_args args S k m t loader valid_loader
                     ''supervised-Pretraining'') w3) (\<lambda>(m', t') w4.
         Return (valid_loader, m', t') w4)))"
    by (simp add: stage_1_def Let_def w1_def)
  have B: "\<not> arg_batch_size args \<le> 0"
  proof
    assume "arg_batch_size args \<le> 0"
    with st r show False by (simp add: DataLoader_def)
  qed
  let ?a = "stage_train_args args S k m t (full_batches (nat (arg_batch_size args)) train_ids)
      (full_batches (nat (arg_batch_size args)) valid_ids) ''supervised-Pretraining''"
  from B st have st': "stage_1 X args S k train_ids valid_ids m t w =
      and_then (train X ?a w1) (\<lambda>(m', t') w4.
        Return (full_batches (nat (arg_batch_size args)) valid_ids, m', t') w4)"
    by (simp add: DataLoader_def)
  with r obtain u where tr: "train X ?a w1 = Return u w'"
    by (cases "train X ?a w1") (auto simp: split_beta)
  have n: "optimizer ?a \<noteq> teacher_model ?a" "model ?a \<noteq> teacher_model ?a"
    using ot mt by simp_all
  have b: "batches_of_run ?a
      = concat (replicate 100 (full_batches (nat (arg_batch_size args)) train_ids))"
    by (simp add: batches_of_run_replicate stage_train_args_def)
  from train_Return_parameters [OF n tr]
  have "snd (parameters_of ?a w') = snd (ema_steps X (optimizer ?a = model ?a)
      (batches_of_run ?a) (parameters_of ?a w1))"
    by simp
  then show ?thesis
    by (simp add: parameters_of_def b w1)
qed

section \<open>The teacher's parameters\<close>

text \<open>
  Claim C4, as amended. Both optimizers are built over the student's parameters, the
  teacher is another object, the teacher's parameters are marked as not requiring a
  gradient, and the call of \<open>train\<close> on these objects is given the student's optimizer.
  When stage 1 returns, the teacher's parameters are those that the moving-average
  assignments of its 100 epochs give.
  In a call of \<open>train\<close> whose optimizer does not hold the teacher, the teacher's
  parameters change by the moving-average assignment from the student, once in every
  completed training step, and in no other way: whether the call returns or raises, the
  parameters of the two models are those that the steps completed so far give, and when
  it returns they are those of all the steps of all its epochs. At the stage boundaries
  \<open>load_pretrained_model\<close> rebinds the teacher to the model stored in the checkpoint of
  ten epochs before the student's.
\<close>

theorem teacher_parameter_changes:
  "(value_of (main_setup I args w) = Some S \<longrightarrow>
      optimizer_pretrain S = student S \<and> optimizer_ssl S = student S \<and>
      teacher S \<noteq> student S \<and>
      \<not> requires_grad (heap (world_of (main_setup I args w)) (teacher S)) \<and>
      optimizer (stage_train_args args S k (student S) (teacher S) l vl stage) = student S \<and>
      model (stage_train_args args S k (student S) (teacher S) l vl stage) = student S \<and>
      teacher_model (stage_train_args args S k (student S) (teacher S) l vl stage)
        = teacher S) \<and>
   (value_of (main_setup I args w) = Some S \<and>
    stage_1 X args S k train_ids valid_ids (student S) (teacher S) w1 = Return v w1' \<longrightarrow>
      params (heap w1' (teacher S)) =
        snd (ema_steps X True
               (concat (replicate 100 (full_batches (nat (arg_batch_size args)) train_ids)))
               (params (heap w1 (student S)), params (heap w1 (teacher S))))) \<and>
   (optimizer a \<noteq> teacher_model a \<and> model a \<noteq> teacher_model a \<longrightarrow>
      params (heap (world_of (train_step X a c b w)) (teacher_model a)) =
        (if raised (train_step X a c b w) = None
         then ema_update (params (heap (world_of (train_step X a c b w)) (model a)))
                (params (heap w (teacher_model a)))
         else params (heap w (teacher_model a))) \<and>
      (\<exists>n. n \<le> length (batches_of_run a) \<and>
         parameters_of a (world_of (train X a w)) =
           ema_steps X (optimizer a = model a) (take n (batches_of_run a))
             (parameters_of a w) \<and>
         (raised (train X a w) = None \<longrightarrow> n = length (batches_of_run a))) \<and>
      (train X a w = Return r w' \<longrightarrow>
         params (heap w' (teacher_model a)) =
           snd (ema_steps X (optimizer a = model a)
                  (concat (replicate (nat (end_epochs a - start_epochs a)) (train_loader a)))
                  (params (heap w (model a)), params (heap w (teacher_model a)))))) \<and>
   params (heap (world_of (train_epoch X a i w)) q) =
     params (heap (world_of (train_batches X a (i + 1) (train_loader a) (0, 0, 0, None) w)) q) \<and>
   (load_pretrained_model p e w = Return (m', t') w'' \<longrightarrow>
      t' = Suc (next_ref w) \<and> m' = next_ref w \<and>
      files w (p @ str_int (e - 10) @ ''-s.pth'') = Some (heap w'' t') \<and>
      files w (p @ str_int e @ ''-s.pth'') = Some (heap w'' m'))"
proof (intro conjI impI)
  assume s: "value_of (main_setup I args w) = Some S"
  show "optimizer_pretrain S = student S" by (rule main_setup_Return(3) [OF s])
  show "optimizer_ssl S = student S" by (rule main_setup_Return(4) [OF s])
  show "teacher S \<noteq> student S"
    by (simp add: main_setup_Return(1) [OF s] main_setup_Return(2) [OF s])
  show "\<not> requires_grad (heap (world_of (main_setup I args w)) (teacher S))"
    by (rule main_setup_Return(5) [OF s])
  show "optimizer (stage_train_args args S k (student S) (teacher S) l vl stage) = student S"
    by (simp add: stage_train_args_def main_setup_Return(3) [OF s])
  show "model (stage_train_args args S k (student S) (teacher S) l vl stage) = student S"
    by (simp add: stage_train_args_def)
  show "teacher_model (stage_train_args args S k (student S) (teacher S) l vl stage)
        = teacher S"
    by (simp add: stage_train_args_def)
next
  assume h: "value_of (main_setup I args w) = Some S \<and>
    stage_1 X args S k train_ids valid_ids (student S) (teacher S) w1 = Return v w1'"
  then have s: "value_of (main_setup I args w) = Some S"
    and r: "stage_1 X args S k train_ids valid_ids (student S) (teacher S) w1 = Return v w1'"
    by simp_all
  have o: "optimizer_pretrain S = student S" by (rule main_setup_Return(3) [OF s])
  have ne: "student S \<noteq> teacher S"
    by (simp add: main_setup_Return(1) [OF s] main_setup_Return(2) [OF s])
  from ne o have ot: "optimizer_pretrain S \<noteq> teacher S" by simp
  from stage_1_parameters [OF r ot ne] o
  show "params (heap w1' (teacher S)) =
        snd (ema_steps X True
               (concat (replicate 100 (full_batches (nat (arg_batch_size args)) train_ids)))
               (params (heap w1 (student S)), params (heap w1 (teacher S))))"
    by simp
next
  assume "optimizer a \<noteq> teacher_model a \<and> model a \<noteq> teacher_model a"
  then show "params (heap (world_of (train_step X a c b w)) (teacher_model a)) =
        (if raised (train_step X a c b w) = None
         then ema_update (params (heap (world_of (train_step X a c b w)) (model a)))
                (params (heap w (teacher_model a)))
         else params (heap w (teacher_model a)))"
    by (intro params_train_step_teacher) simp_all
next
  assume "optimizer a \<noteq> teacher_model a \<and> model a \<noteq> teacher_model a"
  then have n: "optimizer a \<noteq> teacher_model a" "model a \<noteq> teacher_model a" by simp_all
  show "\<exists>n. n \<le> length (batches_of_run a) \<and>
         parameters_of a (world_of (train X a w)) =
           ema_steps X (optimizer a = model a) (take n (batches_of_run a))
             (parameters_of a w) \<and>
         (raised (train X a w) = None \<longrightarrow> n = length (batches_of_run a))"
    by (rule train_parameters [OF n])
next
  assume "optimizer a \<noteq> teacher_model a \<and> model a \<noteq> teacher_model a"
    and r: "train X a w = Return r w'"
  then have n: "optimizer a \<noteq> teacher_model a" "model a \<noteq> teacher_model a" by simp_all
  from train_Return_parameters [OF n r]
  have "snd (parameters_of a w') = snd (ema_steps X (optimizer a = model a) (batches_of_run a)
           (parameters_of a w))"
    by simp
  then show "params (heap w' (teacher_model a)) =
           snd (ema_steps X (optimizer a = model a)
                  (concat (replicate (nat (end_epochs a - start_epochs a)) (train_loader a)))
                  (params (heap w (model a)), params (heap w (teacher_model a))))"
    by (simp add: parameters_of_def batches_of_run_replicate)
next
  show "params (heap (world_of (train_epoch X a i w)) q) =
     params (heap (world_of (train_batches X a (i + 1) (train_loader a) (0, 0, 0, None) w)) q)"
    by (rule params_train_epoch)
next
  assume l: "load_pretrained_model p e w = Return (m', t') w''"
  show "t' = Suc (next_ref w)" by (rule load_pretrained_model_Return(2) [OF l])
  show "m' = next_ref w" by (rule load_pretrained_model_Return(1) [OF l])
  show "files w (p @ str_int (e - 10) @ ''-s.pth'') = Some (heap w'' t')"
    by (rule load_pretrained_model_Return(4) [OF l])
  show "files w (p @ str_int e @ ''-s.pth'') = Some (heap w'' m')"
    by (rule load_pretrained_model_Return(3) [OF l])
qed

lemma ema_example_values:
  "ema 0 (12574523 / 4194304) = 12561949 / 4194304"
  "ema (- 1) (12561949 / 4194304) = 12545193 / 4194304"
  "ema (- 2) (12545193 / 4194304) = 12524259 / 4194304"
  "ema (- 3) (12524259 / 4194304) = 781197 / 262144"
  "ema (- 4) (781197 / 262144) = 3117469 / 1048576"
  "ema (- 5) (3117469 / 1048576) = 6218217 / 2097152"
  "ema (- 6) (6218217 / 2097152) = 774927 / 262144"
  "ema 5 2 = 8401191 / 4194304"
  "ema 2 2 = 2"
  by (simp add: ema_def binary32_add_def binary32_mul_def binary32_constants,
      simp add: binary32_round_def exponent32_def exp_down.simps exp_up.simps
        round_half_even_def Let_def)+

lemma example_run_parameters:
  "ema_steps example_externals True
     (concat (replicate (nat (2 - 0))
        [[4, 5, 6, 7], [8, 9, 10, 11], [12, 13, 14, 15], [16, 17, 18, 19]]))
     ([2], [3]) = ([- 6], [774927 / 262144])"
  by (simp add: example_externals_def numeral_2_eq_2 Let_def ema_one_three ema_example_values)

lemma example_run_Return:
  "train example_externals (two_epoch_run (1 / 2)) example_world
     = Return (0, 1) (world_of (train example_externals (two_epoch_run (1 / 2)) example_world))"
proof -
  have "(1 / 2 :: real) \<noteq> 0" by simp
  from two_epoch_override_run [OF this, of example_externals example_world]
  obtain w' where "train example_externals (two_epoch_run (1 / 2)) example_world
      = Return (0, 1) w'"
    by blast
  then show ?thesis by simp
qed

lemma small_setup_value:
  "value_of (main_setup five_fold_inputs small_batch_cli example_world) =
     Some \<lparr>student = 2, teacher = 3, optimizer_pretrain = 2, optimizer_ssl = 2,
            unlabeled_loader = \<lparr>loader_dataset = [0, 1, 2, 3, 4],
                                 loader_batches = [[0, 1, 2, 3]]\<rparr>\<rparr>"
  "heap (world_of (main_setup five_fold_inputs small_batch_cli example_world)) 2
     = example_net [2]"
  "heap (world_of (main_setup five_fold_inputs small_batch_cli example_world)) 3
     = \<lparr>params = [2], requires_grad = False, contrast = False\<rparr>"
proof -
  show "value_of (main_setup five_fold_inputs small_batch_cli example_world) =
     Some \<lparr>student = 2, teacher = 3, optimizer_pretrain = 2, optimizer_ssl = 2,
            unlabeled_loader = \<lparr>loader_dataset = [0, 1, 2, 3, 4],
                                 loader_batches = [[0, 1, 2, 3]]\<rparr>\<rparr>"
    by (simp only: main_setup_cases small_batch_cli_fields five_fold_inputs_fields
        small_batch_loaders) simp
  show "heap (world_of (main_setup five_fold_inputs small_batch_cli example_world)) 2
     = example_net [2]"
    by (simp add: main_setup_cases small_batch_cli_fields five_fold_inputs_fields)
  show "heap (world_of (main_setup five_fold_inputs small_batch_cli example_world)) 3
     = \<lparr>params = [2], requires_grad = False, contrast = False\<rparr>"
    by (simp add: main_setup_cases small_batch_cli_fields five_fold_inputs_fields
        example_net_def)
qed

lemma small_stage_1_Return:
  "stage_1 X small_batch_cli
     \<lparr>student = 2, teacher = 3, optimizer_pretrain = 2, optimizer_ssl = 2,
      unlabeled_loader = \<lparr>loader_dataset = [0, 1, 2, 3, 4],
                           loader_batches = [[0, 1, 2, 3]]\<rparr>\<rparr>
     0 [4, 5, 6, 7, 8, 9, 10, 11, 12, 13, 14, 15, 16, 17, 18, 19] [0, 1, 2, 3] 2 3 w
   = Return ([[0, 1, 2, 3]], 2, 3)
       (world_of (stage_1 X small_batch_cli
          \<lparr>student = 2, teacher = 3, optimizer_pretrain = 2, optimizer_ssl = 2,
           unlabeled_loader = \<lparr>loader_dataset = [0, 1, 2, 3, 4],
                                loader_batches = [[0, 1, 2, 3]]\<rparr>\<rparr>
          0 [4, 5, 6, 7, 8, 9, 10, 11, 12, 13, 14, 15, 16, 17, 18, 19] [0, 1, 2, 3] 2 3 w))"
proof -
  let ?args = small_batch_cli
  let ?S = "\<lparr>student = 2, teacher = 3, optimizer_pretrain = 2, optimizer_ssl = 2,
            unlabeled_loader = \<lparr>loader_dataset = [0, 1, 2, 3, 4 :: nat],
                                 loader_batches = [[0, 1, 2, 3]]\<rparr>\<rparr>"
  let ?tr = "[4, 5, 6, 7, 8, 9, 10, 11, 12, 13, 14, 15, 16, 17, 18, 19 :: nat]"
  let ?va = "[0, 1, 2, 3 :: nat]"
  have B: "0 < arg_batch_size ?args" by (simp add: small_batch_cli_fields)
  have tr: "full_batches (nat (arg_batch_size ?args)) ?tr \<noteq> []"
    by (simp only: small_batch_cli_fields small_batch_loaders) simp
  have va: "(\<Sum>imgs \<leftarrow> full_batches (nat (arg_batch_size ?args)) ?va. length imgs) \<noteq> 0"
    by (simp only: small_batch_cli_fields small_batch_loaders) simp
  have si: "arg_save_interval ?args \<noteq> 0" by (simp add: small_batch_cli_fields)
  from stage_1_Returns [OF B tr va si, of X ?S 0 2 3 w]
  obtain w' where "stage_1 X ?args ?S 0 ?tr ?va 2 3 w
      = Return (full_batches (nat (arg_batch_size ?args)) ?va, 2, 3) w'"
    by blast
  then have "stage_1 X ?args ?S 0 ?tr ?va 2 3 w = Return ([[0, 1, 2, 3]], 2, 3) w'"
    by (simp only: small_batch_cli_fields small_batch_loaders)
  then have "stage_1 X ?args ?S 0 ?tr ?va 2 3 w
      = Return ([[0, 1, 2, 3]], 2, 3) (world_of (stage_1 X ?args ?S 0 ?tr ?va 2 3 w))"
    by (simp only: world_of.simps)
  then show ?thesis .
qed

theorem teacher_parameter_changes_witness:
  "value_of (main_setup five_fold_inputs small_batch_cli example_world) =
     Some \<lparr>student = 2, teacher = 3, optimizer_pretrain = 2, optimizer_ssl = 2,
            unlabeled_loader = \<lparr>loader_dataset = [0, 1, 2, 3, 4],
                                 loader_batches = [[0, 1, 2, 3]]\<rparr>\<rparr> \<and>
   \<not> requires_grad
       (heap (world_of (main_setup five_fold_inputs small_batch_cli example_world)) 3) \<and>
   stage_1 example_externals small_batch_cli
     \<lparr>student = 2, teacher = 3, optimizer_pretrain = 2, optimizer_ssl = 2,
      unlabeled_loader = \<lparr>loader_dataset = [0, 1, 2, 3, 4],
                           loader_batches = [[0, 1, 2, 3]]\<rparr>\<rparr>
     0 [4, 5, 6, 7, 8, 9, 10, 11, 12, 13, 14, 15, 16, 17, 18, 19] [0, 1, 2, 3] 2 3
     (world_of (main_setup five_fold_inputs small_batch_cli example_world))
   = Return ([[0, 1, 2, 3]], 2, 3)
       (world_of (stage_1 example_externals small_batch_cli
          \<lparr>student = 2, teacher = 3, optimizer_pretrain = 2, optimizer_ssl = 2,
           unlabeled_loader = \<lparr>loader_dataset = [0, 1, 2, 3, 4],
                                loader_batches = [[0, 1, 2, 3]]\<rparr>\<rparr>
          0 [4, 5, 6, 7, 8, 9, 10, 11, 12, 13, 14, 15, 16, 17, 18, 19] [0, 1, 2, 3] 2 3
          (world_of (main_setup five_fold_inputs small_batch_cli example_world)))) \<and>
   params (heap (world_of (stage_1 example_externals small_batch_cli
          \<lparr>student = 2, teacher = 3, optimizer_pretrain = 2, optimizer_ssl = 2,
           unlabeled_loader = \<lparr>loader_dataset = [0, 1, 2, 3, 4],
                                loader_batches = [[0, 1, 2, 3]]\<rparr>\<rparr>
          0 [4, 5, 6, 7, 8, 9, 10, 11, 12, 13, 14, 15, 16, 17, 18, 19] [0, 1, 2, 3] 2 3
          (world_of (main_setup five_fold_inputs small_batch_cli example_world)))) 3) =
     snd (ema_steps example_externals True
            (concat (replicate 100
               [[4, 5, 6, 7], [8, 9, 10, 11], [12, 13, 14, 15], [16, 17, 18, 19]]))
            ([2], [2])) \<and>
   optimizer (two_epoch_run (1 / 2)) \<noteq> teacher_model (two_epoch_run (1 / 2)) \<and>
   model (two_epoch_run (1 / 2)) \<noteq> teacher_model (two_epoch_run (1 / 2)) \<and>
   raised (train_step example_externals (two_epoch_run (1 / 2)) 1 [4, 5, 6, 7] example_world)
     = None \<and>
   params (heap (world_of (train_step example_externals (two_epoch_run (1 / 2)) 1 [4, 5, 6, 7]
       example_world)) 1) =
     ema_update (params (heap (world_of (train_step example_externals (two_epoch_run (1 / 2)) 1
       [4, 5, 6, 7] example_world)) 0)) (params (heap example_world 1)) \<and>
   train example_externals (two_epoch_run (1 / 2)) example_world
     = Return (0, 1) (world_of (train example_externals (two_epoch_run (1 / 2)) example_world)) \<and>
   params (heap example_world 1) = [3] \<and>
   params (heap (world_of (train example_externals (two_epoch_run (1 / 2)) example_world)) 1)
     = [774927 / 262144] \<and>
   load_pretrained_model ''output/14-0/model_supervised-Pretraining_'' 100 example_world
     = Return (2, 3)
         (world_of (load_pretrained_model ''output/14-0/model_supervised-Pretraining_'' 100
            example_world)) \<and>
   files example_world ''output/14-0/model_supervised-Pretraining_90-s.pth''
     = Some (heap (world_of (load_pretrained_model ''output/14-0/model_supervised-Pretraining_''
          100 example_world)) 3)"
proof -
  let ?S = "\<lparr>student = 2, teacher = 3, optimizer_pretrain = 2, optimizer_ssl = 2,
            unlabeled_loader = \<lparr>loader_dataset = [0, 1, 2, 3, 4 :: nat],
                                 loader_batches = [[0, 1, 2, 3]]\<rparr>\<rparr>"
  let ?a = "two_epoch_run (1 / 2)"
  let ?p = "''output/14-0/model_supervised-Pretraining_''"
  let ?tr = "[4, 5, 6, 7, 8, 9, 10, 11, 12, 13, 14, 15, 16, 17, 18, 19 :: nat]"
  let ?va = "[0, 1, 2, 3 :: nat]"
  let ?w0 = "world_of (main_setup five_fold_inputs small_batch_cli example_world)"
  let ?s1 = "stage_1 example_externals small_batch_cli ?S 0 ?tr ?va 2 3 ?w0"
  note t = teacher_parameter_changes [where I = five_fold_inputs and args = small_batch_cli
      and w = example_world and S = ?S and a = ?a and X = example_externals and c = 1
      and b = "[4, 5, 6, 7]" and i = 0 and q = 1 and p = ?p and e = 100 and m' = 2 and t' = 3
      and w'' = "world_of (load_pretrained_model ?p 100 example_world)"
      and r = "(0, 1)" and w' = "world_of (train example_externals ?a example_world)"
      and k = 0 and train_ids = ?tr and valid_ids = ?va and ?w1.0 = ?w0
      and v = "([[0, 1, 2, 3]], 2, 3)" and ?w1' = "world_of ?s1"]
  note h1 = small_setup_value(1)
  have h1': "?s1 = Return ([[0, 1, 2, 3]], 2, 3) (world_of ?s1)"
    by (rule small_stage_1_Return)
  have h2a: "optimizer ?a \<noteq> teacher_model ?a" by simp
  have h2b: "model ?a \<noteq> teacher_model ?a" by simp
  have h3: "raised (train_step example_externals ?a 1 [4, 5, 6, 7] example_world) = None"
    by (simp add: train_step_cases PatchCL_weight_def)
  note h4 = load_example(1)
  note h5 = example_run_Return
  note t1 = t [THEN conjunct1, THEN mp, OF h1]
  have h1'': "stage_1 example_externals small_batch_cli ?S 0 ?tr ?va (student ?S) (teacher ?S) ?w0
      = Return ([[0, 1, 2, 3]], 2, 3) (world_of ?s1)"
    using h1' by (simp only: pipeline.simps)
  note t1' = t [THEN conjunct2, THEN conjunct1, THEN mp, OF conjI [OF h1 h1'']]
  note t2 = t [THEN conjunct2, THEN conjunct2, THEN conjunct1, THEN mp, OF conjI [OF h2a h2b]]
  note t4 = t [THEN conjunct2, THEN conjunct2, THEN conjunct2, THEN conjunct2, THEN mp, OF h4]
  have c1: "\<not> requires_grad (heap ?w0 3)"
    using t1 [THEN conjunct2, THEN conjunct2, THEN conjunct2, THEN conjunct1] by simp
  have c1': "params (heap (world_of ?s1) 3) =
     snd (ema_steps example_externals True
            (concat (replicate 100
               [[4, 5, 6, 7], [8, 9, 10, 11], [12, 13, 14, 15], [16, 17, 18, 19]]))
            ([2], [2]))"
    using t1'
    by (simp only: pipeline.simps small_batch_cli_fields small_batch_loaders small_setup_value
        network.simps example_net_def)
  have c2: "params (heap (world_of (train_step example_externals ?a 1 [4, 5, 6, 7]
       example_world)) 1) =
     ema_update (params (heap (world_of (train_step example_externals ?a 1
       [4, 5, 6, 7] example_world)) 0)) (params (heap example_world 1))"
    using t2 [THEN conjunct1] h3 by (simp only: two_epoch_run_fields simp_thms if_True)
  have p0: "params (heap example_world 0) = [2]" "params (heap example_world 1) = [3]"
    by (simp_all add: example_world_def example_net_def)
  have "params (heap (world_of (train example_externals ?a example_world)) (teacher_model ?a)) =
      snd (ema_steps example_externals (optimizer ?a = model ?a)
             (concat (replicate (nat (end_epochs ?a - start_epochs ?a)) (train_loader ?a)))
             (params (heap example_world (model ?a)),
              params (heap example_world (teacher_model ?a))))"
    by (rule t2 [THEN conjunct2, THEN conjunct2, THEN mp, OF h5])
  then have c3: "params (heap (world_of (train example_externals ?a example_world)) 1)
      = [774927 / 262144]"
    by (simp only: two_epoch_run_fields p0 simp_thms example_run_parameters snd_conv)
  have "files example_world (?p @ str_int (100 - 10) @ ''-s.pth'')
      = Some (heap (world_of (load_pretrained_model ?p 100 example_world)) 3)"
    by (rule t4 [THEN conjunct2, THEN conjunct2, THEN conjunct1])
  then have c4: "files example_world ''output/14-0/model_supervised-Pretraining_90-s.pth''
     = Some (heap (world_of (load_pretrained_model ?p 100 example_world)) 3)"
    by (simp only: stage_2_example_paths)
  show ?thesis
    by (intro conjI) (rule h1 c1 h1' c1' h2a h2b h3 c2 h5 p0 c3 h4 c4)+
qed

text \<open>
  Claim C4 as stated fails at the first stage boundary. After the setup the teacher is the
  object at reference 3, with the student's initial parameters and no gradient required.
  Stage 2 trains nothing, and after it the teacher is the object at reference 5: the model
  read from the checkpoint of epoch 90, whose parameters require a gradient and are not
  the moving average of the old teacher with either student.
\<close>

theorem teacher_replaced_by_checkpoint_counterexample:
  "teacher (the (value_of example_setup)) = 3 \<and>
   params (heap (world_of example_setup) 3) = [2] \<and>
   \<not> requires_grad (heap (world_of example_setup) 3) \<and>
   fst (snd (the (value_of example_stage_2))) = 5 \<and>
   params (heap (world_of example_stage_2) 5) = [7] \<and>
   requires_grad (heap (world_of example_stage_2) 5) \<and>
   csv (world_of example_stage_2) = [] \<and>
   params (heap (world_of example_stage_2) 5)
     \<noteq> ema_update (params (heap (world_of example_stage_2) 4))
          (params (heap (world_of example_setup) 3)) \<and>
   params (heap (world_of example_stage_2) 5)
     \<noteq> ema_update (params (heap (world_of example_setup) 2))
          (params (heap (world_of example_setup) 3))"
  by (simp add: example_stage_2_value example_setup_value example_net_def ema_example_values)

section \<open>The reliable-sample selection in stage 2\<close>

lemma stage_2_Return:
  assumes "stage_2 I args S w = Return (m, t, reliable, remaining) w'"
  shows "select_reliable (confidence I (heap w' m) (heap w' t)) (reliable_count I)
           (unlabeled_loader S) = (reliable, remaining)"
proof -
  let ?p = "output_model_path args @ ''/model_supervised-Pretraining_''"
  define w1 where "w1 = print (banner
      ''Total stage 2/6: Select reliable images for the 1st stage re-training'') w"
  have st: "stage_2 I args S w =
      and_then (load_pretrained_model ?p 100 w1) (\<lambda>(m, t) w2.
         let (reliable_dataset, remaining_dataset) =
               select_reliable (confidence I (heap w2 m) (heap w2 t)) (reliable_count I)
                 (unlabeled_loader S);
             w3 = log_event SelectReliable w2;
             w4 = print (''reliable_dataset: '' @ str_int (int (length reliable_dataset))) w3;
             w5 = print (''remaining_dataset: '' @ str_int (int (length remaining_dataset))) w4
         in Return (m, t, reliable_dataset, remaining_dataset) w5)"
    by (simp add: stage_2_def Let_def w1_def)
  show ?thesis
  proof (cases "load_pretrained_model ?p 100 w1")
    case (Raise e w2)
    with st assms show ?thesis by simp
  next
    case (Return v w2)
    obtain m2 t2 where v: "v = (m2, t2)" by (cases v) auto
    obtain rel rem where sel: "select_reliable (confidence I (heap w2 m2) (heap w2 t2))
        (reliable_count I) (unlabeled_loader S) = (rel, rem)"
      by (cases "select_reliable (confidence I (heap w2 m2) (heap w2 t2)) (reliable_count I)
          (unlabeled_loader S)")
    from st Return v sel assms
    have "m = m2" "t = t2" "reliable = rel" "remaining = rem" "heap w' = heap w2"
      by (auto simp: Let_def)
    with sel show ?thesis by simp
  qed
qed

text \<open>
  Claim C5. The reliable-sample selection splits the unlabeled set the loader was built
  over into a reliable set of size \<open>R\<close> and a remaining set of size \<open>N - R\<close>, where \<open>N\<close>
  is the size of the unlabeled set: the union of the two sets is the unlabeled set, no
  sample of it is lost, and with distinct sample identities no sample is in both. In
  \<open>main\<close> the loader handed to the selector in stage 2 is the loader that the setup built
  over the whole unlabeled dataset, so the two sets stage 2 returns partition that
  dataset.
\<close>

theorem reliable_selection_partitions_unlabeled_set:
  "(select_reliable score k loader = (reliable, remaining) \<longrightarrow>
      length reliable = min k (length (loader_dataset loader)) \<and>
      length remaining = length (loader_dataset loader) - length reliable \<and>
      length reliable + length remaining = length (loader_dataset loader) \<and>
      set reliable \<union> set remaining = set (loader_dataset loader) \<and>
      (distinct (loader_dataset loader) \<longrightarrow>
         set reliable \<inter> set remaining = {} \<and> distinct reliable \<and> distinct remaining)) \<and>
   (value_of (main_setup I args w0) = Some S \<and>
    stage_2 I args S w = Return (m, t, reliable', remaining') w' \<longrightarrow>
      length reliable' = min (reliable_count I) (length (unlabeled_dataset I)) \<and>
      length reliable' + length remaining' = length (unlabeled_dataset I) \<and>
      set reliable' \<union> set remaining' = set (unlabeled_dataset I) \<and>
      (distinct (unlabeled_dataset I) \<longrightarrow> set reliable' \<inter> set remaining' = {}))"
proof (intro conjI impI)
  assume sel: "select_reliable score k loader = (reliable, remaining)"
  note p = select_reliable_parts [OF sel]
  show "length reliable = min k (length (loader_dataset loader))" by (rule p(2))
  show "length remaining = length (loader_dataset loader) - length reliable" by (rule p(3))
  from p(2) p(3) show "length reliable + length remaining = length (loader_dataset loader)"
    by simp
  show "set reliable \<union> set remaining = set (loader_dataset loader)" by (rule p(1))
next
  assume sel: "select_reliable score k loader = (reliable, remaining)"
    and d: "distinct (loader_dataset loader)"
  from select_reliable_parts(4) [OF sel d]
  show "set reliable \<inter> set remaining = {}" "distinct reliable" "distinct remaining"
    by simp_all
next
  assume h: "value_of (main_setup I args w0) = Some S \<and>
    stage_2 I args S w = Return (m, t, reliable', remaining') w'"
  then have h1: "value_of (main_setup I args w0) = Some S"
    and h2: "stage_2 I args S w = Return (m, t, reliable', remaining') w'"
    by simp_all
  have ds: "loader_dataset (unlabeled_loader S) = unlabeled_dataset I"
    by (rule main_setup_Return(9) [OF h1])
  have sel: "select_reliable (confidence I (heap w' m) (heap w' t)) (reliable_count I)
           (unlabeled_loader S) = (reliable', remaining')"
    by (rule stage_2_Return [OF h2])
  note p = select_reliable_parts [OF sel]
  from p(2) ds show "length reliable' = min (reliable_count I) (length (unlabeled_dataset I))"
    by simp
  from p(2) p(3) ds show "length reliable' + length remaining' = length (unlabeled_dataset I)"
    by simp
  from p(1) ds show "set reliable' \<union> set remaining' = set (unlabeled_dataset I)" by simp
  assume "distinct (unlabeled_dataset I)"
  with ds have "distinct (loader_dataset (unlabeled_loader S))" by simp
  from p(4) [OF this] show "set reliable' \<inter> set remaining' = {}" by simp
qed

lemma value_of_Some: "value_of r = Some v \<Longrightarrow> r = Return v (world_of r)"
  by (cases r) simp_all

lemma select_reliable_example:
  "select_reliable (\<lambda>x :: nat. x) 2
     \<lparr>loader_dataset = [0, 1, 2, 3, 4], loader_batches = [[0, 1, 2, 3]]\<rparr> = ([4, 3], [2, 1, 0])"
  "select_reliable (confidence example_inputs (example_net [5]) (example_net [7]))
     (reliable_count example_inputs)
     \<lparr>loader_dataset = [0, 1, 2, 3, 4], loader_batches = []\<rparr> = ([4, 3], [2, 1, 0])"
  by (simp_all add: select_reliable_def example_inputs_def)

lemma example_stage_2_Return:
  "stage_2 example_inputs example_cli
     \<lparr>student = 2, teacher = 3, optimizer_pretrain = 2, optimizer_ssl = 2,
      unlabeled_loader = \<lparr>loader_dataset = [0, 1, 2, 3, 4], loader_batches = []\<rparr>\<rparr>
     (world_of example_setup)
   = Return (4, 5, [4, 3], [2, 1, 0]) (world_of example_stage_2)"
proof -
  have "value_of example_stage_2 = Some (4, 5, [4, 3], [2, 1, 0])"
    by (simp only: example_stage_2_value(1) select_reliable_example(2) fst_conv snd_conv)
  from value_of_Some [OF this] show ?thesis
    by (simp add: example_stage_2_def example_setup_value(1))
qed

theorem reliable_selection_partitions_unlabeled_set_witness:
  "select_reliable (\<lambda>x :: nat. x) 2
     \<lparr>loader_dataset = [0, 1, 2, 3, 4], loader_batches = [[0, 1, 2, 3]]\<rparr> = ([4, 3], [2, 1, 0]) \<and>
   distinct [0, 1, 2, 3, 4 :: nat] \<and>
   length [4, 3 :: nat] = min 2 (length [0, 1, 2, 3, 4 :: nat]) \<and>
   length [2, 1, 0 :: nat] = length [0, 1, 2, 3, 4 :: nat] - length [4, 3 :: nat] \<and>
   set [4, 3] \<union> set [2, 1, 0] = set [0, 1, 2, 3, 4 :: nat] \<and>
   set [4, 3 :: nat] \<inter> set [2, 1, 0] = {} \<and>
   value_of (main_setup example_inputs example_cli example_world) =
     Some \<lparr>student = 2, teacher = 3, optimizer_pretrain = 2, optimizer_ssl = 2,
            unlabeled_loader = \<lparr>loader_dataset = [0, 1, 2, 3, 4], loader_batches = []\<rparr>\<rparr> \<and>
   stage_2 example_inputs example_cli
     \<lparr>student = 2, teacher = 3, optimizer_pretrain = 2, optimizer_ssl = 2,
      unlabeled_loader = \<lparr>loader_dataset = [0, 1, 2, 3, 4], loader_batches = []\<rparr>\<rparr>
     (world_of example_setup)
   = Return (4, 5, [4, 3], [2, 1, 0]) (world_of example_stage_2) \<and>
   unlabeled_dataset example_inputs = [0, 1, 2, 3, 4] \<and>
   distinct (unlabeled_dataset example_inputs) \<and>
   length [4, 3 :: nat] + length [2, 1, 0 :: nat] = length (unlabeled_dataset example_inputs) \<and>
   set [4, 3] \<union> set [2, 1, 0] = set (unlabeled_dataset example_inputs)"
proof -
  let ?l = "\<lparr>loader_dataset = [0, 1, 2, 3, 4 :: nat], loader_batches = [[0, 1, 2, 3]]\<rparr>"
  let ?S = "\<lparr>student = 2, teacher = 3, optimizer_pretrain = 2, optimizer_ssl = 2,
            unlabeled_loader = \<lparr>loader_dataset = [0, 1, 2, 3, 4], loader_batches = []\<rparr>\<rparr>"
  note t = reliable_selection_partitions_unlabeled_set [where score = "\<lambda>x :: nat. x" and k = 2
      and loader = ?l and reliable = "[4, 3]" and remaining = "[2, 1, 0]"
      and I = example_inputs and args = example_cli and ?w0.0 = example_world and S = ?S
      and w = "world_of example_setup" and m = 4 and t = 5 and reliable' = "[4, 3]"
      and remaining' = "[2, 1, 0]" and w' = "world_of example_stage_2"]
  note h1 = select_reliable_example(1)
  have h2: "value_of (main_setup example_inputs example_cli example_world) = Some ?S"
    using example_setup_value(1) by (simp only: example_setup_def)
  note h3 = example_stage_2_Return
  have u: "unlabeled_dataset example_inputs = [0, 1, 2, 3, 4]" by (simp add: example_inputs_def)
  have d: "distinct [0, 1, 2, 3, 4 :: nat]" by simp
  have d': "distinct (unlabeled_dataset example_inputs)" by (simp add: u)
  note a = t [THEN conjunct1, THEN mp, OF h1]
  note b = t [THEN conjunct2, THEN mp, OF conjI [OF h2 h3]]
  have c1: "length [4, 3 :: nat] = min 2 (length [0, 1, 2, 3, 4 :: nat])"
    using a [THEN conjunct1] by simp
  have c2: "length [2, 1, 0 :: nat] = length [0, 1, 2, 3, 4 :: nat] - length [4, 3 :: nat]"
    using a [THEN conjunct2, THEN conjunct1] by simp
  have c3: "set [4, 3] \<union> set [2, 1, 0] = set [0, 1, 2, 3, 4 :: nat]"
    using a [THEN conjunct2, THEN conjunct2, THEN conjunct2, THEN conjunct1] by simp
  have c4: "set [4, 3 :: nat] \<inter> set [2, 1, 0] = {}"
    using a [THEN conjunct2, THEN conjunct2, THEN conjunct2, THEN conjunct2] d by simp
  have c5: "length [4, 3 :: nat] + length [2, 1, 0 :: nat]
      = length (unlabeled_dataset example_inputs)"
    by (rule b [THEN conjunct2, THEN conjunct1])
  have c6: "set [4, 3] \<union> set [2, 1, 0] = set (unlabeled_dataset example_inputs)"
    by (rule b [THEN conjunct2, THEN conjunct2, THEN conjunct1])
  show ?thesis
    by (intro conjI) (rule h1 d c1 c2 c3 c4 h2 h3 u d' c5 c6)+
qed

section \<open>The guards on the remaining set\<close>

text \<open>
  Claim C6, on the code. The two guards on the remaining set (lines 384-385 and 395-397)
  stand in stage 5, behind stage 3, which raises \<open>NameError\<close> in every fold: no fold
  reaches them, and no fold ends by the early return. At a run in which the remaining
  set is smaller than one batch (20 labeled samples in five folds, batch size 4, five
  unlabeled images of which the selector calls two reliable, so three remain), \<open>main\<close>
  does not end early with a logged message: it ends with the exception in the first fold,
  after printing the size of the remaining set and the banner of stage 3, and neither
  of the two messages is printed.
\<close>

theorem small_remaining_set_run_raises:
  "raised (main X five_fold_inputs small_batch_cli example_world)
     = Some (NameError ''train_dataset'') \<and>
   arg_batch_size small_batch_cli = 4 \<and>
   events (world_of (main X five_fold_inputs small_batch_cli example_world)) =
     [Print (banner ''Total stage 1/6: Supervised training on labeled images (SupOnly)''),
      Print ''FOLD 0'',
      Print ''--------------------------------'',
      Print (banner ''Total stage 2/6: Select reliable images for the 1st stage re-training''),
      Print ''model_path:  output/14-0/model_supervised-Pretraining_100-s.pth'',
      Print ''teacher_model_path:  output/14-0/model_supervised-Pretraining_90-s.pth'',
      Print [],
      SelectReliable,
      Print ''reliable_dataset: 2'',
      Print ''remaining_dataset: 3'',
      Print (banner ''Total stage 3/6: Concat train_dataset reliable_dataset'')] \<and>
   Print ''remaining_dataset < batch size''
     \<notin> set (events (world_of (main X five_fold_inputs small_batch_cli example_world))) \<and>
   Print ''remaining_label_loader < 2''
     \<notin> set (events (world_of (main X five_fold_inputs small_batch_cli example_world))) \<and>
   PseudoLabel \<notin> set (events (world_of (main X five_fold_inputs small_batch_cli example_world))) \<and>
   value_of (main_fold X I args S k train_ids valid_ids m t w) \<noteq> Some Returned"
proof -
  let ?r = "main X five_fold_inputs small_batch_cli example_world"
  note a = small_batch_run(1) [of X]
  note e = small_batch_run(2) [of X]
  have b: "Print ''remaining_dataset < batch size'' \<notin> set (events (world_of ?r))"
    by (simp add: e banner_def)
  have c: "Print ''remaining_label_loader < 2'' \<notin> set (events (world_of ?r))"
    by (simp add: e banner_def)
  have d: "PseudoLabel \<notin> set (events (world_of ?r))"
    by (simp add: e)
  have f: "value_of (main_fold X I args S k train_ids valid_ids m t w) \<noteq> Some Returned"
    using main_fold_never_returns [of X I args S k train_ids valid_ids m t w]
    by (cases "main_fold X I args S k train_ids valid_ids m t w") simp_all
  from a small_batch_cli_fields(1) e b c d f show ?thesis by simp
qed

end
